theory Spec2Isabelle
  imports Main "HOL-Library.Word"
begin

unbundle bit_operations_syntax

section \<open>The autopilot interface (autopilot_interface.cpp)\<close>

text \<open>
  The file drives a PX4 autopilot over a serial MAVLink connection: it caches the
  telemetry it reads, streams the current setpoint, and switches offboard mode and the
  armed state with bounded retry loops. This theory embeds its functions as HOL
  functions over an explicit state and proves properties of them.
\<close>

subsection \<open>Setpoints and messages\<close>

text \<open>
  A C \<^verbatim>\<open>float\<close> is kept as its 32-bit pattern: the code only assigns and copies floats,
  and its literal \<^verbatim>\<open>0.0\<close> is the pattern 0. The record is
  \<^verbatim>\<open>mavlink_set_position_target_local_ned_t\<close>; its fields carry the prefix \<open>sp_\<close>.
\<close>

type_synonym float32 = "32 word"

record mavlink_set_position_target_local_ned_t =
  sp_time_boot_ms :: "32 word"
  sp_x :: float32
  sp_y :: float32
  sp_z :: float32
  sp_vx :: float32
  sp_vy :: float32
  sp_vz :: float32
  sp_afx :: float32
  sp_afy :: float32
  sp_afz :: float32
  sp_yaw :: float32
  sp_yaw_rate :: float32
  sp_type_mask :: "16 word"
  sp_target_system :: "8 word"
  sp_target_component :: "8 word"
  sp_coordinate_frame :: "8 word"

type_synonym setpoint = mavlink_set_position_target_local_ned_t

text \<open>
  A framed message \<^verbatim>\<open>mavlink_message_t\<close> with the fields the file reads. The decoded
  payloads are records for the three kinds whose fields the file reads (heartbeat, local
  position, attitude); the payload of every other kind is only stored, and is kept as an
  uninterpreted byte string.
\<close>

record mavlink_message_t =
  msg_sysid :: "8 word"
  msg_compid :: "8 word"
  msg_msgid :: "32 word"
  msg_payload :: "8 word list"

record mavlink_heartbeat_t =
  hb_custom_mode :: "32 word"
  hb_type :: "8 word"
  hb_autopilot :: "8 word"
  hb_base_mode :: "8 word"
  hb_system_status :: "8 word"
  hb_mavlink_version :: "8 word"

record mavlink_local_position_ned_t =
  lpos_time_boot_ms :: "32 word"
  lpos_x :: float32
  lpos_y :: float32
  lpos_z :: float32
  lpos_vx :: float32
  lpos_vy :: float32
  lpos_vz :: float32

record mavlink_attitude_t =
  att_time_boot_ms :: "32 word"
  att_roll :: float32
  att_pitch :: float32
  att_yaw :: float32
  att_rollspeed :: float32
  att_pitchspeed :: float32
  att_yawspeed :: float32

type_synonym stored_payload = "8 word list"

record mavlink_command_long_t =
  cmd_param1 :: float32
  cmd_param2 :: float32
  cmd_param3 :: float32
  cmd_param4 :: float32
  cmd_param5 :: float32
  cmd_param6 :: float32
  cmd_param7 :: float32
  cmd_command :: "16 word"
  cmd_target_system :: "8 word"
  cmd_target_component :: "8 word"
  cmd_confirmation :: "8 word"

subsection \<open>Declarations of the headers\<close>

text \<open>
  The file includes \<^verbatim>\<open>autopilot_interface.h\<close> and \<^verbatim>\<open>px4_custom_mode.h\<close>, and through them
  the MAVLink headers. None of them comes with the file, so every macro and enumerator
  the code takes from them is a field of the record \<open>hdr\<close>, which the functions below
  receive as their first argument: what is proved of them holds for every value of these
  constants. The field \<open>main_mode_of\<close> stands for
  the read of the member \<^verbatim>\<open>main_mode\<close> of the union \<^verbatim>\<open>px4_custom_mode\<close> laid over a 32-bit
  mode word, and the last fields are the decoders and encoders of the MAVLink headers.
\<close>

record hdr =
  MAVLINK_MSG_SET_POSITION_TARGET_LOCAL_NED_POSITION :: "16 word"
  MAVLINK_MSG_SET_POSITION_TARGET_LOCAL_NED_VELOCITY :: "16 word"
  MAVLINK_MSG_SET_POSITION_TARGET_LOCAL_NED_ACCELERATION :: "16 word"
  MAVLINK_MSG_SET_POSITION_TARGET_LOCAL_NED_YAW_ANGLE :: "16 word"
  MAVLINK_MSG_SET_POSITION_TARGET_LOCAL_NED_YAW_RATE :: "16 word"
  MAV_FRAME_LOCAL_NED :: "8 word"
  MAV_STATE_ACTIVE :: "8 word"
  PX4_CUSTOM_MAIN_MODE_OFFBOARD :: "8 word"
  MAV_CMD_NAV_GUIDED_ENABLE :: "16 word"
  MAV_CMD_COMPONENT_ARM_DISARM :: "16 word"
  MAVLINK_MSG_ID_HEARTBEAT :: "32 word"
  MAVLINK_MSG_ID_SYS_STATUS :: "32 word"
  MAVLINK_MSG_ID_BATTERY_STATUS :: "32 word"
  MAVLINK_MSG_ID_RADIO_STATUS :: "32 word"
  MAVLINK_MSG_ID_LOCAL_POSITION_NED :: "32 word"
  MAVLINK_MSG_ID_GLOBAL_POSITION_INT :: "32 word"
  MAVLINK_MSG_ID_POSITION_TARGET_LOCAL_NED :: "32 word"
  MAVLINK_MSG_ID_POSITION_TARGET_GLOBAL_INT :: "32 word"
  MAVLINK_MSG_ID_HIGHRES_IMU :: "32 word"
  MAVLINK_MSG_ID_ATTITUDE :: "32 word"
  MAVLINK_MSG_ID_VFR_HUD :: "32 word"
  main_mode_of :: "32 word \<Rightarrow> 8 word"
  mavlink_msg_heartbeat_decode :: "mavlink_message_t \<Rightarrow> mavlink_heartbeat_t"
  mavlink_msg_sys_status_decode :: "mavlink_message_t \<Rightarrow> stored_payload"
  mavlink_msg_battery_status_decode :: "mavlink_message_t \<Rightarrow> stored_payload"
  mavlink_msg_radio_status_decode :: "mavlink_message_t \<Rightarrow> stored_payload"
  mavlink_msg_local_position_ned_decode :: "mavlink_message_t \<Rightarrow> mavlink_local_position_ned_t"
  mavlink_msg_global_position_int_decode :: "mavlink_message_t \<Rightarrow> stored_payload"
  mavlink_msg_position_target_local_ned_decode :: "mavlink_message_t \<Rightarrow> stored_payload"
  mavlink_msg_position_target_global_int_decode :: "mavlink_message_t \<Rightarrow> stored_payload"
  mavlink_msg_highres_imu_decode :: "mavlink_message_t \<Rightarrow> stored_payload"
  mavlink_msg_attitude_decode :: "mavlink_message_t \<Rightarrow> mavlink_attitude_t"
  mavlink_msg_vfr_hud_decode :: "mavlink_message_t \<Rightarrow> stored_payload"
  mavlink_msg_set_position_target_local_ned_encode ::
    "8 word \<Rightarrow> 8 word \<Rightarrow> setpoint \<Rightarrow> mavlink_message_t"
  mavlink_msg_command_long_encode ::
    "8 word \<Rightarrow> 8 word \<Rightarrow> mavlink_command_long_t \<Rightarrow> mavlink_message_t"

text \<open>\<^verbatim>\<open>EXIT_FAILURE\<close> of the C library, the value the retry loops throw.\<close>

definition EXIT_FAILURE :: int where
  "EXIT_FAILURE = 1"

subsection \<open>Setpoint helper functions\<close>

text \<open>
  The helpers are functions of the setpoint they are given by reference; the lines that
  three of them print are left out. \<open>boot_ms now\<close> is \<^verbatim>\<open>(uint32_t) (get_time_usec()/1000)\<close>
  for a clock reading \<open>now\<close> in microseconds.
\<close>

definition boot_ms :: "64 word \<Rightarrow> 32 word" where
  "boot_ms now = ucast (now div 1000)"


definition set_land :: "64 word \<Rightarrow> setpoint \<Rightarrow> setpoint" where
  "set_land now sp = sp\<lparr>sp_time_boot_ms := boot_ms now, sp_type_mask := 0x2000\<rparr>"


definition set_velocity :: "hdr \<Rightarrow> float32 \<Rightarrow> float32 \<Rightarrow> float32 \<Rightarrow> setpoint \<Rightarrow> setpoint" where
  "set_velocity h pvx pvy pvz sp =
     sp\<lparr>sp_type_mask := sp_type_mask sp OR MAVLINK_MSG_SET_POSITION_TARGET_LOCAL_NED_VELOCITY h,
        sp_coordinate_frame := MAV_FRAME_LOCAL_NED h,
        sp_vx := pvx, sp_vy := pvy, sp_vz := pvz\<rparr>"

text \<open>\<^verbatim>\<open>set_acceleration\<close> throws 1 before it touches the setpoint.\<close>

definition set_acceleration :: "hdr \<Rightarrow> float32 \<Rightarrow> float32 \<Rightarrow> float32 \<Rightarrow> setpoint \<Rightarrow> int + setpoint" where
  "set_acceleration h pax pay paz sp = Inl 1"



text \<open>
  \<^verbatim>\<open>set_position\<close> and \<^verbatim>\<open>set_position_velocity\<close> assign the mask, \<^verbatim>\<open>set_velocity\<close> combines its
  constant into the mask with \<^verbatim>\<open>|=\<close>, and \<^verbatim>\<open>set_yaw\<close> and \<^verbatim>\<open>set_yaw_rate\<close> combine theirs with
  \<^verbatim>\<open>&=\<close>.
\<close>

subsection \<open>The telemetry cache\<close>

text \<open>\<^verbatim>\<open>Time_Stamps\<close>: one time per kind, in microseconds; the fields carry the prefix \<open>ts_\<close>.\<close>

record Time_Stamps =
  ts_heartbeat :: "64 word"
  ts_sys_status :: "64 word"
  ts_battery_status :: "64 word"
  ts_radio_status :: "64 word"
  ts_local_position_ned :: "64 word"
  ts_global_position_int :: "64 word"
  ts_position_target_local_ned :: "64 word"
  ts_position_target_global_int :: "64 word"
  ts_highres_imu :: "64 word"
  ts_attitude :: "64 word"
  ts_vfr_hud :: "64 word"

text \<open>\<^verbatim>\<open>Mavlink_Messages\<close>, the type of \<^verbatim>\<open>current_messages\<close>.\<close>

record Mavlink_Messages =
  sysid :: int
  compid :: int
  heartbeat :: mavlink_heartbeat_t
  sys_status :: stored_payload
  battery_status :: stored_payload
  radio_status :: stored_payload
  local_position_ned :: mavlink_local_position_ned_t
  global_position_int :: stored_payload
  position_target_local_ned :: stored_payload
  position_target_global_int :: stored_payload
  highres_imu :: stored_payload
  attitude :: mavlink_attitude_t
  vfr_hud :: stored_payload
  time_stamps :: Time_Stamps

subsection \<open>The interface object and its surroundings\<close>

text \<open>
  What the code prints: the stream, the format string and the values of its conversions.
\<close>

datatype stream = Stdout | Stderr

datatype printed_value = Int_value int | Float_value float32

type_synonym printed = "stream \<times> string \<times> printed_value list"

text \<open>
  \<open>Autopilot_Interface\<close> holds the members of the class (the thread handles and the
  pointer to the serial port apart); the status members are of type \<^verbatim>\<open>char\<close>, the ids of
  type \<^verbatim>\<open>int\<close>. Its extension \<open>world\<close> adds what the code leaves behind outside the object:
  the messages handed to \<^verbatim>\<open>serial_port->write_message\<close>, in order; the number of \<^verbatim>\<open>usleep\<close>
  calls of the running function; the lines printed.
\<close>

record Autopilot_Interface =
  write_count :: "64 word"
  reading_status :: "8 word"
  writing_status :: "8 word"
  control_status :: "8 word"
  setpoint_send_status :: "8 word"
  time_to_exit :: bool
  system_id :: int
  autopilot_id :: int
  companion_id :: int
  current_messages :: Mavlink_Messages
  current_setpoint :: setpoint
  initial_position :: setpoint

record world = Autopilot_Interface +
  port_written :: "mavlink_message_t list"
  slept :: nat
  printed_lines :: "printed list"

text \<open>
  The surroundings of a call are a script \<open>env\<close>:
  \<^item> \<open>port_status\<close> is \<^verbatim>\<open>serial_port->status\<close>;
  \<^item> \<open>port_write k\<close> is what \<^verbatim>\<open>serial_port->write_message\<close> returns for the message written
    after \<open>k\<close> earlier ones, and \<open>clock k\<close> what \<^verbatim>\<open>get_time_usec\<close> returns at that write;
  \<^item> \<open>ingest k\<close> lists the messages the read thread handles while the caller is in its
    \<open>k\<close>-th \<^verbatim>\<open>usleep\<close>, each with the time it is stamped with, and \<open>quit k\<close> tells whether
    \<^verbatim>\<open>time_to_exit\<close> is raised during that sleep;
  \<^item> \<open>create_read_thread\<close> and \<open>create_write_thread\<close> are the results of the two
    \<^verbatim>\<open>pthread_create\<close> calls of \<^verbatim>\<open>start\<close>;
  \<^item> \<open>writer_steps\<close> tells how far the write thread that \<^verbatim>\<open>start\<close> creates gets with its
    start-up: \<open>writer_steps 0\<close> steps before \<^verbatim>\<open>start\<close> first tests \<^verbatim>\<open>writing_status\<close>, and
    \<open>writer_steps (Suc i)\<close> more during sleep \<open>i\<close> of that wait.
  The caller reads the cache only between its sleeps, so the writes of the read thread
  are taken to land during the sleeps.
\<close>

record env =
  port_status :: int
  port_write :: "nat \<Rightarrow> int"
  clock :: "nat \<Rightarrow> 64 word"
  ingest :: "nat \<Rightarrow> (mavlink_message_t \<times> 64 word) list"
  quit :: "nat \<Rightarrow> bool"
  create_read_thread :: int
  create_write_thread :: int
  writer_steps :: "nat \<Rightarrow> nat"

text \<open>
  How a call ends: it returns, it throws an \<^verbatim>\<open>int\<close>, or (for the functions with a loop that
  need not end) it is still running when the rounds or sleeps granted to it are used up.
  The state at that point comes with the outcome, since what a call has done to the
  object and the port before it throws stays done.
\<close>

datatype outcome = Returned | Thrown int | Running

definition printf :: "string \<Rightarrow> printed_value list \<Rightarrow> world \<Rightarrow> world" where
  "printf fmt vs w = w\<lparr>printed_lines := printed_lines w @ [(Stdout, fmt, vs)]\<rparr>"

definition fprintf_stderr :: "string \<Rightarrow> printed_value list \<Rightarrow> world \<Rightarrow> world" where
  "fprintf_stderr fmt vs w = w\<lparr>printed_lines := printed_lines w @ [(Stderr, fmt, vs)]\<rparr>"

subsection \<open>Constructor, setpoint store and the derived control state\<close>

text \<open>
  The constructor assigns the members below and leaves the others (the cached payloads,
  the stored setpoint, the initial position) as they are in the memory \<open>w\<close> it is given.
\<close>

definition Autopilot_Interface_init :: "world \<Rightarrow> world" where
  "Autopilot_Interface_init w =
     w\<lparr>write_count := 0, reading_status := 0, writing_status := 0, control_status := 0,
       setpoint_send_status := 0, time_to_exit := False,
       system_id := 0, autopilot_id := 0, companion_id := 0,
       current_messages := (current_messages w)\<lparr>sysid := 0, compid := 0\<rparr>\<rparr>"

definition set_setpoint_sendstatus :: "8 word \<Rightarrow> world \<Rightarrow> world" where
  "set_setpoint_sendstatus status w = w\<lparr>setpoint_send_status := status\<rparr>"

definition get_setpoint_sendstatus :: "world \<Rightarrow> 8 word" where
  "get_setpoint_sendstatus w = setpoint_send_status w"

definition update_setpoint :: "setpoint \<Rightarrow> world \<Rightarrow> world" where
  "update_setpoint sp w = set_setpoint_sendstatus 1 (w\<lparr>current_setpoint := sp\<rparr>)"

definition is_armed :: "hdr \<Rightarrow> world \<Rightarrow> bool" where
  "is_armed h w \<longleftrightarrow>
     MAV_STATE_ACTIVE h = hb_system_status (heartbeat (current_messages w))"

text \<open>\<^verbatim>\<open>is_in_offboard_mode\<close> prints the main mode it finds before it answers.\<close>

definition is_in_offboard_mode :: "hdr \<Rightarrow> world \<Rightarrow> bool \<times> world" where
  "is_in_offboard_mode h w =
     (let main_mode = main_mode_of h (hb_custom_mode (heartbeat (current_messages w)));
          w1 = printf ''Check OFFBOARD MODE, %d\<newline>'' [Int_value (uint main_mode)] w
      in (main_mode = PX4_CUSTOM_MAIN_MODE_OFFBOARD h, w1))"

subsection \<open>Reading messages\<close>

text \<open>
  \<open>handle_message\<close> is the block of \<^verbatim>\<open>read_messages\<close> that handles one message read with
  success: it stores the sender, then dispatches on the message id. \<open>now\<close> is the value of
  \<^verbatim>\<open>get_time_usec\<close> the matching case stamps the entry with, \<open>this\<close> is the local
  \<^verbatim>\<open>this_timestamps\<close>.
\<close>

definition handle_message ::
  "hdr \<Rightarrow> mavlink_message_t \<Rightarrow> 64 word \<Rightarrow> Time_Stamps \<Rightarrow> Mavlink_Messages
     \<Rightarrow> Time_Stamps \<times> Mavlink_Messages" where
  "handle_message h message now this cm0 =
     (let cm = cm0\<lparr>sysid := uint (msg_sysid message), compid := uint (msg_compid message)\<rparr>;
          ts = time_stamps cm;
          msgid = msg_msgid message
      in
      if msgid = MAVLINK_MSG_ID_HEARTBEAT h then
        (this\<lparr>ts_heartbeat := now\<rparr>,
         cm\<lparr>heartbeat := mavlink_msg_heartbeat_decode h message,
            time_stamps := ts\<lparr>ts_heartbeat := now\<rparr>\<rparr>)
      else if msgid = MAVLINK_MSG_ID_SYS_STATUS h then
        (this\<lparr>ts_sys_status := now\<rparr>,
         cm\<lparr>sys_status := mavlink_msg_sys_status_decode h message,
            time_stamps := ts\<lparr>ts_sys_status := now\<rparr>\<rparr>)
      else if msgid = MAVLINK_MSG_ID_BATTERY_STATUS h then
        (this\<lparr>ts_battery_status := now\<rparr>,
         cm\<lparr>battery_status := mavlink_msg_battery_status_decode h message,
            time_stamps := ts\<lparr>ts_battery_status := now\<rparr>\<rparr>)
      else if msgid = MAVLINK_MSG_ID_RADIO_STATUS h then
        (this\<lparr>ts_radio_status := now\<rparr>,
         cm\<lparr>radio_status := mavlink_msg_radio_status_decode h message,
            time_stamps := ts\<lparr>ts_radio_status := now\<rparr>\<rparr>)
      else if msgid = MAVLINK_MSG_ID_LOCAL_POSITION_NED h then
        (this\<lparr>ts_local_position_ned := now\<rparr>,
         cm\<lparr>local_position_ned := mavlink_msg_local_position_ned_decode h message,
            time_stamps := ts\<lparr>ts_local_position_ned := now\<rparr>\<rparr>)
      else if msgid = MAVLINK_MSG_ID_GLOBAL_POSITION_INT h then
        (this\<lparr>ts_global_position_int := now\<rparr>,
         cm\<lparr>global_position_int := mavlink_msg_global_position_int_decode h message,
            time_stamps := ts\<lparr>ts_global_position_int := now\<rparr>\<rparr>)
      else if msgid = MAVLINK_MSG_ID_POSITION_TARGET_LOCAL_NED h then
        (this\<lparr>ts_position_target_local_ned := now\<rparr>,
         cm\<lparr>position_target_local_ned := mavlink_msg_position_target_local_ned_decode h message,
            time_stamps := ts\<lparr>ts_position_target_local_ned := now\<rparr>\<rparr>)
      else if msgid = MAVLINK_MSG_ID_POSITION_TARGET_GLOBAL_INT h then
        (this\<lparr>ts_position_target_global_int := now\<rparr>,
         cm\<lparr>position_target_global_int := mavlink_msg_position_target_global_int_decode h message,
            time_stamps := ts\<lparr>ts_position_target_global_int := now\<rparr>\<rparr>)
      else if msgid = MAVLINK_MSG_ID_HIGHRES_IMU h then
        (this\<lparr>ts_highres_imu := now\<rparr>,
         cm\<lparr>highres_imu := mavlink_msg_highres_imu_decode h message,
            time_stamps := ts\<lparr>ts_highres_imu := now\<rparr>\<rparr>)
      else if msgid = MAVLINK_MSG_ID_ATTITUDE h then
        (this\<lparr>ts_attitude := now\<rparr>,
         cm\<lparr>attitude := mavlink_msg_attitude_decode h message,
            time_stamps := ts\<lparr>ts_attitude := now\<rparr>\<rparr>)
      else if msgid = MAVLINK_MSG_ID_VFR_HUD h then
        (this\<lparr>ts_vfr_hud := now\<rparr>,
         cm\<lparr>vfr_hud := mavlink_msg_vfr_hud_decode h message,
            time_stamps := ts\<lparr>ts_vfr_hud := now\<rparr>\<rparr>)
      else (this, cm))"

text \<open>The message ids that have a case of their own in the switch.\<close>

definition recognized :: "hdr \<Rightarrow> 32 word list" where
  "recognized h =
     [MAVLINK_MSG_ID_HEARTBEAT h, MAVLINK_MSG_ID_SYS_STATUS h, MAVLINK_MSG_ID_BATTERY_STATUS h,
      MAVLINK_MSG_ID_RADIO_STATUS h, MAVLINK_MSG_ID_LOCAL_POSITION_NED h,
      MAVLINK_MSG_ID_GLOBAL_POSITION_INT h, MAVLINK_MSG_ID_POSITION_TARGET_LOCAL_NED h,
      MAVLINK_MSG_ID_POSITION_TARGET_GLOBAL_INT h, MAVLINK_MSG_ID_HIGHRES_IMU h,
      MAVLINK_MSG_ID_ATTITUDE h, MAVLINK_MSG_ID_VFR_HUD h]"

text \<open>
  \<^verbatim>\<open>read_messages\<close> loops until a heartbeat and a system status have been seen in this
  call, or \<^verbatim>\<open>time_to_exit\<close> is set. The reads of the serial port are the list \<open>reads\<close>:
  \<open>None\<close> for a read without success, \<open>Some (message, now)\<close> for a message and the time it
  is stamped with. The result is \<open>None\<close> when the list ends while the loop still runs, and
  otherwise the state with the reads that are left. \<open>this_timestamps\<close> starts zeroed.
\<close>

definition no_time_stamps :: Time_Stamps where
  "no_time_stamps =
     \<lparr>ts_heartbeat = 0, ts_sys_status = 0, ts_battery_status = 0, ts_radio_status = 0,
      ts_local_position_ned = 0, ts_global_position_int = 0,
      ts_position_target_local_ned = 0, ts_position_target_global_int = 0,
      ts_highres_imu = 0, ts_attitude = 0, ts_vfr_hud = 0\<rparr>"

fun read_messages_loop ::
  "hdr \<Rightarrow> (mavlink_message_t \<times> 64 word) option list \<Rightarrow> bool \<Rightarrow> Time_Stamps \<Rightarrow> world
     \<Rightarrow> (world \<times> (mavlink_message_t \<times> 64 word) option list) option" where
  "read_messages_loop h [] received_all this w =
     (if \<not> received_all \<and> \<not> time_to_exit w then None else Some (w, []))"
| "read_messages_loop h (r # rest) received_all this w =
     (if \<not> received_all \<and> \<not> time_to_exit w then
        (let (this1, cm1) =
               (case r of
                  None \<Rightarrow> (this, current_messages w)
                | Some (message, now) \<Rightarrow>
                    handle_message h message now this (current_messages w))
         in read_messages_loop h rest
              (ts_heartbeat this1 \<noteq> 0 \<and> ts_sys_status this1 \<noteq> 0) this1
              (w\<lparr>current_messages := cm1\<rparr>))
      else Some (w, r # rest))"

definition read_messages ::
  "hdr \<Rightarrow> (mavlink_message_t \<times> 64 word) option list \<Rightarrow> world
     \<Rightarrow> (world \<times> (mavlink_message_t \<times> 64 word) option list) option" where
  "read_messages h reads w = read_messages_loop h reads False no_time_stamps w"

text \<open>
  What the read thread does to the cache while another thread sleeps: it handles the
  messages \<open>ms\<close> in order. \<^verbatim>\<open>usleep\<close> in a caller advances the script by one sleep.
\<close>

definition read_thread_writes ::
  "hdr \<Rightarrow> (mavlink_message_t \<times> 64 word) list \<Rightarrow> Mavlink_Messages \<Rightarrow> Mavlink_Messages" where
  "read_thread_writes h ms cm =
     fold (\<lambda>(message, now) cm1. snd (handle_message h message now no_time_stamps cm1)) ms cm"

definition usleep :: "hdr \<Rightarrow> env \<Rightarrow> world \<Rightarrow> world" where
  "usleep h e w =
     w\<lparr>current_messages := read_thread_writes h (ingest e (slept w)) (current_messages w),
       time_to_exit := (time_to_exit w \<or> quit e (slept w)),
       slept := Suc (slept w)\<rparr>"

subsection \<open>Writing messages\<close>

text \<open>
  \<open>serial_write\<close> is \<^verbatim>\<open>serial_port->write_message\<close>: the message is appended to what the
  port was handed, and the script gives the byte count returned.
\<close>

definition serial_write :: "env \<Rightarrow> mavlink_message_t \<Rightarrow> world \<Rightarrow> int \<times> world" where
  "serial_write e message w =
     (port_write e (length (port_written w)), w\<lparr>port_written := port_written w @ [message]\<rparr>)"

definition write_message :: "env \<Rightarrow> mavlink_message_t \<Rightarrow> world \<Rightarrow> int \<times> world" where
  "write_message e message w =
     (let (len, w1) = serial_write e message w
      in (len, w1\<lparr>write_count := write_count w1 + 1\<rparr>))"

text \<open>The setpoint \<^verbatim>\<open>write_setpoint\<close> encodes: a stamped local copy of the stored one.\<close>

definition stamped_setpoint :: "env \<Rightarrow> world \<Rightarrow> setpoint" where
  "stamped_setpoint e w =
     (let sp = current_setpoint w;
          sp1 = (if sp_time_boot_ms sp = 0
                 then sp\<lparr>sp_time_boot_ms := boot_ms (clock e (length (port_written w)))\<rparr>
                 else sp)
      in sp1\<lparr>sp_target_system := word_of_int (system_id w),
             sp_target_component := word_of_int (autopilot_id w)\<rparr>)"

definition write_setpoint :: "hdr \<Rightarrow> env \<Rightarrow> world \<Rightarrow> world" where
  "write_setpoint h e w =
     (let sp = stamped_setpoint e w;
          message = mavlink_msg_set_position_target_local_ned_encode h
                      (word_of_int (system_id w)) (word_of_int (companion_id w)) sp;
          (len, w1) = write_message e message w
      in if len \<le> 0
         then fprintf_stderr ''WARNING: could not send POSITION_TARGET_LOCAL_NED \<newline>'' [] w1
         else w1)"

text \<open>
  The four \<^verbatim>\<open>toggle_\<close> functions build the same \<^verbatim>\<open>COMMAND_LONG\<close> around their command
  number: all fields zero but the targets, the command, the confirmation and
  \<^verbatim>\<open>param1 = (float) flag\<close>, which is 1.0 (pattern \<open>0x3F800000\<close>) or 0.0. They write to the
  serial port directly, so \<^verbatim>\<open>write_count\<close> does not count commands. The two that the mode
  operations call are given here.
\<close>

definition float_of_bool :: "bool \<Rightarrow> float32" where
  "float_of_bool flag = (if flag then 0x3F800000 else 0)"

definition command_long :: "world \<Rightarrow> 16 word \<Rightarrow> bool \<Rightarrow> mavlink_command_long_t" where
  "command_long w command flag =
     \<lparr>cmd_param1 = float_of_bool flag, cmd_param2 = 0, cmd_param3 = 0, cmd_param4 = 0,
      cmd_param5 = 0, cmd_param6 = 0, cmd_param7 = 0,
      cmd_command = command,
      cmd_target_system = word_of_int (system_id w),
      cmd_target_component = word_of_int (autopilot_id w),
      cmd_confirmation = 1\<rparr>"

definition command_message :: "hdr \<Rightarrow> world \<Rightarrow> 16 word \<Rightarrow> bool \<Rightarrow> mavlink_message_t" where
  "command_message h w command flag =
     mavlink_msg_command_long_encode h
       (word_of_int (system_id w)) (word_of_int (companion_id w)) (command_long w command flag)"

definition toggle_offboard_control :: "hdr \<Rightarrow> env \<Rightarrow> bool \<Rightarrow> world \<Rightarrow> int \<times> world" where
  "toggle_offboard_control h e flag w =
     serial_write e (command_message h w (MAV_CMD_NAV_GUIDED_ENABLE h) flag) w"

definition toggle_arm_disarm :: "hdr \<Rightarrow> env \<Rightarrow> bool \<Rightarrow> world \<Rightarrow> int \<times> world" where
  "toggle_arm_disarm h e flag w =
     serial_write e (command_message h w (MAV_CMD_COMPONENT_ARM_DISARM h) flag) w"

subsection \<open>Offboard mode\<close>

text \<open>
  The loop \<^verbatim>\<open>while(enable_trytimes--)\<close> of \<^verbatim>\<open>enable_offboard_control\<close>, by the number of tries
  left: send the command, throw on a negative byte count, sleep, then check the mode.
  It ends with \<open>Returned\<close> both at the \<^verbatim>\<open>break\<close> and when the tries run out.
\<close>

fun enable_loop :: "hdr \<Rightarrow> env \<Rightarrow> nat \<Rightarrow> world \<Rightarrow> outcome \<times> world" where
  "enable_loop h e 0 w = (Returned, w)"
| "enable_loop h e (Suc enable_trytimes) w =
     (let (success, w1) = toggle_offboard_control h e True w
      in if success < 0
         then (Thrown EXIT_FAILURE, printf ''Offboard Command Send failed!\<newline>'' [] w1)
         else (let (offboard, w2) = is_in_offboard_mode h (usleep h e w1)
               in if offboard then (Returned, w2\<lparr>control_status := 1\<rparr>)
                  else enable_loop h e enable_trytimes w2))"

definition enable_offboard_control :: "hdr \<Rightarrow> env \<Rightarrow> world \<Rightarrow> outcome \<times> world" where
  "enable_offboard_control h e w =
     (if control_status w = 0 then
        (case enable_loop h e 50 (printf ''Enable Offboaed Mode...\<newline>'' [] w) of
           (Returned, w1) \<Rightarrow>
             if control_status w1 = 0
             then (Thrown EXIT_FAILURE, printf ''Enable offboard mode failed!\<newline>'' [] w1)
             else (Returned, printf ''\<newline>'' [] w1)
         | (r, w1) \<Rightarrow> (r, w1))
      else (Returned, w))"

definition disable_offboard_control :: "hdr \<Rightarrow> env \<Rightarrow> world \<Rightarrow> world" where
  "disable_offboard_control h e w =
     (if control_status w = 1 then
        (let (success, w1) =
               toggle_offboard_control h e False (printf ''DISABLE OFFBOARD MODE\<newline>'' [] w);
             w2 = (if success \<noteq> 0 then w1\<lparr>control_status := 0\<rparr>
                   else fprintf_stderr
                          ''Error: off-board mode not set, could not write message\<newline>'' [] w1)
         in printf ''\<newline>'' [] w2)
      else w)"

subsection \<open>Arming\<close>

text \<open>
  The loop of \<^verbatim>\<open>vehicle_armed\<close>, by the number of tries left: check the armed state first,
  then send the command, throw on a negative byte count, sleep. Its result carries the
  locals \<^verbatim>\<open>armed\<close> and \<^verbatim>\<open>success\<close>.
\<close>

fun armed_loop :: "hdr \<Rightarrow> env \<Rightarrow> nat \<Rightarrow> int \<Rightarrow> world \<Rightarrow> outcome \<times> bool \<times> int \<times> world" where
  "armed_loop h e 0 success w = (Returned, False, success, w)"
| "armed_loop h e (Suc armed_trytimes) success w =
     (if is_armed h w then (Returned, True, success, w)
      else (let (success1, w1) = toggle_arm_disarm h e True w
            in if success1 < 0
               then (Thrown EXIT_FAILURE, False, success1,
                     printf ''Armed Command Send failed!\<newline>'' [] w1)
               else armed_loop h e armed_trytimes success1 (usleep h e w1)))"

definition vehicle_armed :: "hdr \<Rightarrow> env \<Rightarrow> world \<Rightarrow> outcome \<times> world" where
  "vehicle_armed h e w =
     (case armed_loop h e 50 (- 1) (printf ''Switch Vehicle to Armed...\<newline>'' [] w) of
        (Returned, armed, success, w1) \<Rightarrow>
          if \<not> armed then (Thrown EXIT_FAILURE, printf ''Armed failed!\<newline>'' [] w1)
          else (Returned,
                printf ''\<newline>'' []
                  (if success = 0
                   then fprintf_stderr
                          ''Error: armed failed, could not write message\<newline>'' [] w1
                   else w1))
      | (r, armed, success, w1) \<Rightarrow> (r, w1))"

definition vehicle_disarm :: "hdr \<Rightarrow> env \<Rightarrow> world \<Rightarrow> world" where
  "vehicle_disarm h e w =
     (let (success, w1) = toggle_arm_disarm h e False (printf ''DISARM MODE\<newline>'' [] w);
          w2 = (if success = 0
                then fprintf_stderr
                       ''Error: disarm failed could not write message\<newline>'' [] w1
                else w1)
      in printf ''\<newline>'' [] w2)"

subsection \<open>The write thread\<close>

text \<open>
  \<^verbatim>\<open>write_thread\<close> declares its first setpoint as a local without an initialiser and
  assigns six of its fields; \<open>junk\<close> is what the local holds before. The thread signals
  start-up, stores that setpoint, writes it once and signals writing. Then it writes the
  stored setpoint and sleeps, until \<^verbatim>\<open>time_to_exit\<close> is set. The loop may run for ever, so
  \<open>write_thread_loop\<close> runs at most \<open>n\<close> rounds of it and answers \<open>Running\<close>, with the state
  reached, when the thread is still in the loop then.
\<close>

definition initial_setpoint :: "hdr \<Rightarrow> setpoint \<Rightarrow> setpoint" where
  "initial_setpoint h junk =
     junk\<lparr>sp_type_mask := MAVLINK_MSG_SET_POSITION_TARGET_LOCAL_NED_VELOCITY h AND
                          MAVLINK_MSG_SET_POSITION_TARGET_LOCAL_NED_YAW_RATE h,
          sp_coordinate_frame := MAV_FRAME_LOCAL_NED h,
          sp_vx := 0, sp_vy := 0, sp_vz := 0, sp_yaw_rate := 0\<rparr>"

definition write_thread_startup :: "hdr \<Rightarrow> env \<Rightarrow> setpoint \<Rightarrow> world \<Rightarrow> world" where
  "write_thread_startup h e junk w =
     (let w1 = w\<lparr>writing_status := 2\<rparr>;
          w2 = w1\<lparr>current_setpoint := initial_setpoint h junk\<rparr>;
          w3 = write_setpoint h e w2
      in w3\<lparr>writing_status := 1\<rparr>)"

text \<open>
  The start-up of the thread is four steps, which another thread can see one by one:
  \<^verbatim>\<open>writing_status = 2\<close>, \<^verbatim>\<open>current_setpoint = sp\<close>, \<^verbatim>\<open>write_setpoint()\<close> and
  \<^verbatim>\<open>writing_status = true\<close>. \<open>write_thread_step pc\<close> is step number \<open>pc\<close>, counted from 0, and
  \<open>write_thread_steps pc k\<close> takes \<open>k\<close> steps from step \<open>pc\<close> on; past the fourth step there
  is nothing left to do.
\<close>

definition write_thread_step :: "hdr \<Rightarrow> env \<Rightarrow> setpoint \<Rightarrow> nat \<Rightarrow> world \<Rightarrow> world" where
  "write_thread_step h e junk pc w =
     (if pc = 0 then w\<lparr>writing_status := 2\<rparr>
      else if pc = 1 then w\<lparr>current_setpoint := initial_setpoint h junk\<rparr>
      else if pc = 2 then write_setpoint h e w
      else if pc = 3 then w\<lparr>writing_status := 1\<rparr>
      else w)"

fun write_thread_steps :: "hdr \<Rightarrow> env \<Rightarrow> setpoint \<Rightarrow> nat \<Rightarrow> nat \<Rightarrow> world \<Rightarrow> world" where
  "write_thread_steps h e junk pc 0 w = w"
| "write_thread_steps h e junk pc (Suc k) w =
     write_thread_steps h e junk (Suc pc) k (write_thread_step h e junk pc w)"

fun write_thread_loop :: "hdr \<Rightarrow> env \<Rightarrow> nat \<Rightarrow> world \<Rightarrow> outcome \<times> world" where
  "write_thread_loop h e 0 w =
     (if \<not> time_to_exit w then (Running, w) else (Returned, w\<lparr>writing_status := 0\<rparr>))"
| "write_thread_loop h e (Suc n) w =
     (if \<not> time_to_exit w then write_thread_loop h e n (usleep h e (write_setpoint h e w))
      else (Returned, w\<lparr>writing_status := 0\<rparr>))"

definition write_thread :: "hdr \<Rightarrow> env \<Rightarrow> nat \<Rightarrow> setpoint \<Rightarrow> world \<Rightarrow> outcome \<times> world" where
  "write_thread h e n junk w = write_thread_loop h e n (write_thread_startup h e junk w)"

subsection \<open>Start-up\<close>

text \<open>
  \<^verbatim>\<open>start\<close> waits in three polling loops. The first two have the shape
  \<^verbatim>\<open>while ( not ready ) { if ( time_to_exit ) return; usleep(500000); }\<close>; the third,
  \<^verbatim>\<open>while ( not writing_status ) usleep(100000);\<close>, has no way out. Each loop is run for at
  most \<open>n\<close> sleeps: \<open>Pending\<close> says that it still waits then. During the third wait the
  new write thread goes through its start-up beside the waiting thread: \<open>pc\<close> is the step
  it has reached and \<open>i\<close> the number of the sleep. The wait ends as soon as
  \<^verbatim>\<open>writing_status\<close> is not 0, which the first step already brings about, so \<^verbatim>\<open>start\<close> can
  return before the first setpoint is stored or written.
\<close>

datatype waited = Ready | Quit | Pending

fun wait_until :: "(world \<Rightarrow> bool) \<Rightarrow> hdr \<Rightarrow> env \<Rightarrow> nat \<Rightarrow> world \<Rightarrow> waited \<times> world" where
  "wait_until ready h e 0 w =
     (if ready w then (Ready, w) else if time_to_exit w then (Quit, w) else (Pending, w))"
| "wait_until ready h e (Suc n) w =
     (if ready w then (Ready, w) else if time_to_exit w then (Quit, w)
      else wait_until ready h e n (usleep h e w))"

fun wait_writing ::
  "hdr \<Rightarrow> env \<Rightarrow> setpoint \<Rightarrow> nat \<Rightarrow> nat \<Rightarrow> nat \<Rightarrow> world \<Rightarrow> waited \<times> world" where
  "wait_writing h e junk 0 pc i w =
     (if writing_status w \<noteq> 0 then (Ready, w) else (Pending, w))"
| "wait_writing h e junk (Suc n) pc i w =
     (if writing_status w \<noteq> 0 then (Ready, w)
      else wait_writing h e junk n (pc + writer_steps e (Suc i)) (Suc i)
             (write_thread_steps h e junk pc (writer_steps e (Suc i)) (usleep h e w)))"

text \<open>
  The two threads that \<^verbatim>\<open>start\<close> creates run \<^verbatim>\<open>start_read_thread\<close> and
  \<^verbatim>\<open>start_write_thread\<close>. Of the read thread the model keeps the flag it raises here and its
  writes to the cache during the sleeps. The write thread, unless one is running already,
  takes the first \<open>writer_steps e 0\<close> steps of its start-up before the creating thread
  tests \<^verbatim>\<open>writing_status\<close>; \<open>start_write_thread\<close> gives the step reached with the state.
\<close>

definition start_read_thread :: "world \<Rightarrow> world" where
  "start_read_thread w =
     (if reading_status w \<noteq> 0 then fprintf_stderr ''read thread already running\<newline>'' [] w
      else w\<lparr>reading_status := 1\<rparr>)"

definition start_write_thread :: "hdr \<Rightarrow> env \<Rightarrow> setpoint \<Rightarrow> world \<Rightarrow> nat \<times> world" where
  "start_write_thread h e junk w =
     (if writing_status w \<noteq> 0
      then (4, fprintf_stderr ''write thread already running\<newline>'' [] w)
      else (writer_steps e 0, write_thread_steps h e junk 0 (writer_steps e 0) w))"

text \<open>The part of \<^verbatim>\<open>start\<close> headed GET SYSTEM and COMPONENT IDs.\<close>

definition get_ids :: "world \<Rightarrow> world" where
  "get_ids w =
     (let w1 = (if system_id w = 0
                then printf ''GOT VEHICLE SYSTEM ID: %i\<newline>''
                       [Int_value (sysid (current_messages w))]
                       (w\<lparr>system_id := sysid (current_messages w)\<rparr>)
                else w)
      in if autopilot_id w1 = 0
         then printf ''\<newline>'' []
                (printf ''GOT AUTOPILOT COMPONENT ID: %i\<newline>''
                   [Int_value (compid (current_messages w1))]
                   (w1\<lparr>autopilot_id := compid (current_messages w1)\<rparr>))
         else w1)"

text \<open>The copy of the cached position and attitude into \<^verbatim>\<open>initial_position\<close>.\<close>

definition copy_initial_position :: "world \<Rightarrow> world" where
  "copy_initial_position w =
     (let local_data = current_messages w;
          ip = (initial_position w)
                 \<lparr>sp_x := lpos_x (local_position_ned local_data),
                  sp_y := lpos_y (local_position_ned local_data),
                  sp_z := lpos_z (local_position_ned local_data),
                  sp_vx := lpos_vx (local_position_ned local_data),
                  sp_vy := lpos_vy (local_position_ned local_data),
                  sp_vz := lpos_vz (local_position_ned local_data),
                  sp_yaw := att_yaw (attitude local_data),
                  sp_yaw_rate := att_yawspeed (attitude local_data)\<rparr>;
          w1 = printf ''INITIAL POSITION XYZ = [ %.4f , %.4f , %.4f ] \<newline>''
                 [Float_value (sp_x ip), Float_value (sp_y ip), Float_value (sp_z ip)]
                 (w\<lparr>initial_position := ip\<rparr>);
          w2 = printf ''INITIAL POSITION YAW = %.4f \<newline>'' [Float_value (sp_yaw ip)] w1
      in printf ''\<newline>'' [] w2)"

definition start_writing :: "hdr \<Rightarrow> env \<Rightarrow> nat \<Rightarrow> setpoint \<Rightarrow> world \<Rightarrow> outcome \<times> world" where
  "start_writing h e n junk w =
     (let w1 = printf ''START WRITE THREAD \<newline>'' [] w
      in if create_write_thread e \<noteq> 0 then (Thrown (create_write_thread e), w1)
         else (let (pc, w2) = start_write_thread h e junk w1
               in case wait_writing h e junk n pc 0 w2 of
                    (Ready, w3) \<Rightarrow> (Returned, printf ''\<newline>'' [] w3)
                  | (_, w3) \<Rightarrow> (Running, w3)))"

definition start_position :: "hdr \<Rightarrow> env \<Rightarrow> nat \<Rightarrow> setpoint \<Rightarrow> world \<Rightarrow> outcome \<times> world" where
  "start_position h e n junk w =
     (case wait_until
             (\<lambda>w. ts_local_position_ned (time_stamps (current_messages w)) \<noteq> 0 \<and>
                  ts_attitude (time_stamps (current_messages w)) \<noteq> 0) h e n w of
        (Ready, w1) \<Rightarrow> start_writing h e n junk (copy_initial_position w1)
      | (Quit, w1) \<Rightarrow> (Returned, w1)
      | (Pending, w1) \<Rightarrow> (Running, w1))"

definition start :: "hdr \<Rightarrow> env \<Rightarrow> nat \<Rightarrow> setpoint \<Rightarrow> world \<Rightarrow> outcome \<times> world" where
  "start h e n junk w =
     (if port_status e \<noteq> 1
      then (Thrown 1, fprintf_stderr ''ERROR: serial port not open\<newline>'' [] w)
      else (let w1 = printf ''START READ THREAD \<newline>'' [] w
            in if create_read_thread e \<noteq> 0 then (Thrown (create_read_thread e), w1)
               else (let w2 = printf ''\<newline>'' [] (start_read_thread w1);
                         w3 = printf ''CHECK FOR MESSAGES\<newline>'' [] w2
                     in case wait_until (\<lambda>w. sysid (current_messages w) \<noteq> 0) h e n w3 of
                          (Ready, w4) \<Rightarrow>
                            start_position h e n junk
                              (get_ids (printf ''\<newline>'' [] (printf ''Found\<newline>'' [] w4)))
                        | (Quit, w4) \<Rightarrow> (Returned, w4)
                        | (Pending, w4) \<Rightarrow> (Running, w4))))"

subsection \<open>A concrete header and concrete surroundings\<close>

text \<open>
  The concrete instances below run the functions with \<open>px4_hdr\<close>: the numbers of the
  MAVLink common dialect, the type masks of the MAVLink serial example this file descends
  from (ignore bits: positions 0 to 2 for the position, 3 to 5 for the velocity, 6 to 8
  for the acceleration, 10 for the yaw, 11 for the yaw rate), and PX4's custom mode with
  the main mode in bits 16 to 23 and 6 for offboard. Its codec lays the payload out in
  wire order, little endian, and reads absent bytes as zero.
\<close>

definition le16 :: "16 word \<Rightarrow> 8 word list" where
  "le16 v = [ucast v, ucast (drop_bit 8 v)]"

definition le32 :: "32 word \<Rightarrow> 8 word list" where
  "le32 v = [ucast v, ucast (drop_bit 8 v), ucast (drop_bit 16 v), ucast (drop_bit 24 v)]"

definition byte_at :: "8 word list \<Rightarrow> nat \<Rightarrow> 8 word" where
  "byte_at bs k = (if k < length bs then bs ! k else 0)"

definition u32_at :: "8 word list \<Rightarrow> nat \<Rightarrow> 32 word" where
  "u32_at bs k =
     ucast (byte_at bs k) OR push_bit 8 (ucast (byte_at bs (k + 1))) OR
     push_bit 16 (ucast (byte_at bs (k + 2))) OR push_bit 24 (ucast (byte_at bs (k + 3)))"

definition px4_hdr :: hdr where
  "px4_hdr =
     \<lparr>MAVLINK_MSG_SET_POSITION_TARGET_LOCAL_NED_POSITION = 0b0000110111111000,
      MAVLINK_MSG_SET_POSITION_TARGET_LOCAL_NED_VELOCITY = 0b0000110111000111,
      MAVLINK_MSG_SET_POSITION_TARGET_LOCAL_NED_ACCELERATION = 0b0000110000111111,
      MAVLINK_MSG_SET_POSITION_TARGET_LOCAL_NED_YAW_ANGLE = 0b0000100111111111,
      MAVLINK_MSG_SET_POSITION_TARGET_LOCAL_NED_YAW_RATE = 0b0000010111111111,
      MAV_FRAME_LOCAL_NED = 1,
      MAV_STATE_ACTIVE = 4,
      PX4_CUSTOM_MAIN_MODE_OFFBOARD = 6,
      MAV_CMD_NAV_GUIDED_ENABLE = 92,
      MAV_CMD_COMPONENT_ARM_DISARM = 400,
      MAVLINK_MSG_ID_HEARTBEAT = 0,
      MAVLINK_MSG_ID_SYS_STATUS = 1,
      MAVLINK_MSG_ID_BATTERY_STATUS = 147,
      MAVLINK_MSG_ID_RADIO_STATUS = 109,
      MAVLINK_MSG_ID_LOCAL_POSITION_NED = 32,
      MAVLINK_MSG_ID_GLOBAL_POSITION_INT = 33,
      MAVLINK_MSG_ID_POSITION_TARGET_LOCAL_NED = 85,
      MAVLINK_MSG_ID_POSITION_TARGET_GLOBAL_INT = 87,
      MAVLINK_MSG_ID_HIGHRES_IMU = 105,
      MAVLINK_MSG_ID_ATTITUDE = 30,
      MAVLINK_MSG_ID_VFR_HUD = 74,
      main_mode_of = (\<lambda>mode. ucast (drop_bit 16 mode)),
      mavlink_msg_heartbeat_decode =
        (\<lambda>m. \<lparr>hb_custom_mode = u32_at (msg_payload m) 0,
               hb_type = byte_at (msg_payload m) 4,
               hb_autopilot = byte_at (msg_payload m) 5,
               hb_base_mode = byte_at (msg_payload m) 6,
               hb_system_status = byte_at (msg_payload m) 7,
               hb_mavlink_version = byte_at (msg_payload m) 8\<rparr>),
      mavlink_msg_sys_status_decode = msg_payload,
      mavlink_msg_battery_status_decode = msg_payload,
      mavlink_msg_radio_status_decode = msg_payload,
      mavlink_msg_local_position_ned_decode =
        (\<lambda>m. \<lparr>lpos_time_boot_ms = u32_at (msg_payload m) 0,
               lpos_x = u32_at (msg_payload m) 4,
               lpos_y = u32_at (msg_payload m) 8,
               lpos_z = u32_at (msg_payload m) 12,
               lpos_vx = u32_at (msg_payload m) 16,
               lpos_vy = u32_at (msg_payload m) 20,
               lpos_vz = u32_at (msg_payload m) 24\<rparr>),
      mavlink_msg_global_position_int_decode = msg_payload,
      mavlink_msg_position_target_local_ned_decode = msg_payload,
      mavlink_msg_position_target_global_int_decode = msg_payload,
      mavlink_msg_highres_imu_decode = msg_payload,
      mavlink_msg_attitude_decode =
        (\<lambda>m. \<lparr>att_time_boot_ms = u32_at (msg_payload m) 0,
               att_roll = u32_at (msg_payload m) 4,
               att_pitch = u32_at (msg_payload m) 8,
               att_yaw = u32_at (msg_payload m) 12,
               att_rollspeed = u32_at (msg_payload m) 16,
               att_pitchspeed = u32_at (msg_payload m) 20,
               att_yawspeed = u32_at (msg_payload m) 24\<rparr>),
      mavlink_msg_vfr_hud_decode = msg_payload,
      mavlink_msg_set_position_target_local_ned_encode =
        (\<lambda>system component sp.
           \<lparr>msg_sysid = system, msg_compid = component, msg_msgid = 84,
            msg_payload =
              le32 (sp_time_boot_ms sp) @ le32 (sp_x sp) @ le32 (sp_y sp) @ le32 (sp_z sp) @
              le32 (sp_vx sp) @ le32 (sp_vy sp) @ le32 (sp_vz sp) @
              le32 (sp_afx sp) @ le32 (sp_afy sp) @ le32 (sp_afz sp) @
              le32 (sp_yaw sp) @ le32 (sp_yaw_rate sp) @ le16 (sp_type_mask sp) @
              [sp_target_system sp, sp_target_component sp, sp_coordinate_frame sp]\<rparr>),
      mavlink_msg_command_long_encode =
        (\<lambda>system component com.
           \<lparr>msg_sysid = system, msg_compid = component, msg_msgid = 76,
            msg_payload =
              le32 (cmd_param1 com) @ le32 (cmd_param2 com) @ le32 (cmd_param3 com) @
              le32 (cmd_param4 com) @ le32 (cmd_param5 com) @ le32 (cmd_param6 com) @
              le32 (cmd_param7 com) @ le16 (cmd_command com) @
              [cmd_target_system com, cmd_target_component com, cmd_confirmation com]\<rparr>)\<rparr>"


text \<open>Zeroed memory, and the interface object constructed in it.\<close>

definition zero_setpoint :: setpoint where
  "zero_setpoint =
     \<lparr>sp_time_boot_ms = 0, sp_x = 0, sp_y = 0, sp_z = 0, sp_vx = 0, sp_vy = 0, sp_vz = 0,
      sp_afx = 0, sp_afy = 0, sp_afz = 0, sp_yaw = 0, sp_yaw_rate = 0, sp_type_mask = 0,
      sp_target_system = 0, sp_target_component = 0, sp_coordinate_frame = 0\<rparr>"

definition zero_messages :: Mavlink_Messages where
  "zero_messages =
     \<lparr>sysid = 0, compid = 0,
      heartbeat = \<lparr>hb_custom_mode = 0, hb_type = 0, hb_autopilot = 0, hb_base_mode = 0,
                   hb_system_status = 0, hb_mavlink_version = 0\<rparr>,
      sys_status = [], battery_status = [], radio_status = [],
      local_position_ned = \<lparr>lpos_time_boot_ms = 0, lpos_x = 0, lpos_y = 0, lpos_z = 0,
                            lpos_vx = 0, lpos_vy = 0, lpos_vz = 0\<rparr>,
      global_position_int = [], position_target_local_ned = [],
      position_target_global_int = [], highres_imu = [],
      attitude = \<lparr>att_time_boot_ms = 0, att_roll = 0, att_pitch = 0, att_yaw = 0,
                  att_rollspeed = 0, att_pitchspeed = 0, att_yawspeed = 0\<rparr>,
      vfr_hud = [], time_stamps = no_time_stamps\<rparr>"

definition zero_world :: world where
  "zero_world =
     \<lparr>write_count = 0, reading_status = 0, writing_status = 0, control_status = 0,
      setpoint_send_status = 0, time_to_exit = False,
      system_id = 0, autopilot_id = 0, companion_id = 0,
      current_messages = zero_messages, current_setpoint = zero_setpoint,
      initial_position = zero_setpoint,
      port_written = [], slept = 0, printed_lines = []\<rparr>"

definition new_interface :: world where
  "new_interface = Autopilot_Interface_init zero_world"

text \<open>
  A script with an open port on which every write returns 1 byte, a clock that stands at
  one second, no message arriving, nobody asking to exit, and a write thread that runs
  its whole start-up as soon as it is created.
\<close>

definition quiet_env :: env where
  "quiet_env =
     \<lparr>port_status = 1, port_write = (\<lambda>k. 1), clock = (\<lambda>k. 1000000),
      ingest = (\<lambda>k. []), quit = (\<lambda>k. False),
      create_read_thread = 0, create_write_thread = 0, writer_steps = (\<lambda>k. 4)\<rparr>"

text \<open>
  A heartbeat frame from the sender \<open>(system, component)\<close> with the given custom mode and
  system status, and a frame of any other kind with an empty payload.
\<close>

definition heartbeat_frame :: "8 word \<Rightarrow> 8 word \<Rightarrow> 32 word \<Rightarrow> 8 word \<Rightarrow> mavlink_message_t" where
  "heartbeat_frame system component mode status =
     \<lparr>msg_sysid = system, msg_compid = component, msg_msgid = 0,
      msg_payload = le32 mode @ [2, 12, 0, status, 3]\<rparr>"

definition empty_frame :: "8 word \<Rightarrow> 8 word \<Rightarrow> 32 word \<Rightarrow> mavlink_message_t" where
  "empty_frame system component msgid =
     \<lparr>msg_sysid = system, msg_compid = component, msg_msgid = msgid, msg_payload = []\<rparr>"

subsection \<open>What the cache reports, and when\<close>

text \<open>
  The two derived views of the cached heartbeat, as predicates of the cache alone, and
  the cache a caller finds after \<open>k\<close> more sleeps.
\<close>

definition offboard_reported :: "hdr \<Rightarrow> Mavlink_Messages \<Rightarrow> bool" where
  "offboard_reported h cm \<longleftrightarrow>
     main_mode_of h (hb_custom_mode (heartbeat cm)) = PX4_CUSTOM_MAIN_MODE_OFFBOARD h"

definition armed_reported :: "hdr \<Rightarrow> Mavlink_Messages \<Rightarrow> bool" where
  "armed_reported h cm \<longleftrightarrow> MAV_STATE_ACTIVE h = hb_system_status (heartbeat cm)"

definition cache_after :: "hdr \<Rightarrow> env \<Rightarrow> nat \<Rightarrow> world \<Rightarrow> Mavlink_Messages" where
  "cache_after h e k w = current_messages ((usleep h e ^^ k) w)"

text \<open>The line \<^verbatim>\<open>is_in_offboard_mode\<close> prints when it finds the cache \<open>cm\<close>.\<close>

definition offboard_check_line :: "hdr \<Rightarrow> Mavlink_Messages \<Rightarrow> printed" where
  "offboard_check_line h cm =
     (Stdout, ''Check OFFBOARD MODE, %d\<newline>'',
      [Int_value (uint (main_mode_of h (hb_custom_mode (heartbeat cm))))])"

text \<open>
  The script in which a heartbeat with main mode 6 (offboard) arrives during the third
  sleep of the caller.
\<close>

definition confirm_at_third_check :: env where
  "confirm_at_third_check =
     quiet_env\<lparr>ingest := (\<lambda>k. if k = 2 then [(heartbeat_frame 1 50 0x00060000 3, 5000000)] else [])\<rparr>"

text \<open>
  A state in which the cached heartbeat reports the offboard main mode while
  \<^verbatim>\<open>control_status\<close> is still 0, and the state with \<^verbatim>\<open>control_status\<close> set.
\<close>

definition reported_offboard :: world where
  "reported_offboard =
     new_interface\<lparr>current_messages :=
       read_thread_writes px4_hdr [(heartbeat_frame 1 50 0x00060000 3, 5000000)] zero_messages\<rparr>"

definition engaged :: world where
  "engaged = new_interface\<lparr>control_status := 1\<rparr>"

text \<open>
  Scripts for the writes: the first write returns \<open>- 1\<close>; the first write returns 0, the
  later ones 1, and a heartbeat reporting offboard mode and the active state arrives
  during the second sleep; the first write returns 0 and the later ones \<open>- 1\<close>.
\<close>

definition first_write_fails :: env where
  "first_write_fails = quiet_env\<lparr>port_write := (\<lambda>k. if k = 0 then - 1 else 1)\<rparr>"

definition zero_then_confirmed :: env where
  "zero_then_confirmed =
     quiet_env\<lparr>port_write := (\<lambda>k. if k = 0 then 0 else 1),
               ingest := (\<lambda>k. if k = 1 then [(heartbeat_frame 1 50 0x00060000 4, 5000000)] else [])\<rparr>"

definition zero_then_negative :: env where
  "zero_then_negative = quiet_env\<lparr>port_write := (\<lambda>k. if k = 0 then 0 else - 1)\<rparr>"

text \<open>The script in which a heartbeat reporting the active state arrives during the second sleep.\<close>

definition armed_at_third_check :: env where
  "armed_at_third_check =
     quiet_env\<lparr>ingest := (\<lambda>k. if k = 1 then [(heartbeat_frame 1 50 0 4, 5000000)] else [])\<rparr>"

text \<open>
  Two scripts for \<^verbatim>\<open>start\<close>. In both, a heartbeat, a local position and an attitude arrive
  during the first sleep. In \<open>one_sender\<close> all three come from the sender \<open>(1, 50)\<close>, with a
  system status after the heartbeat; in \<open>two_senders\<close> the heartbeat comes from \<open>(1, 50)\<close>
  and the other two from \<open>(2, 60)\<close>.
\<close>

definition one_sender :: env where
  "one_sender =
     quiet_env\<lparr>ingest := (\<lambda>k. if k = 0
        then [(heartbeat_frame 1 50 0x00060000 4, 5000000), (empty_frame 1 50 1, 5000001),
              (empty_frame 1 50 32, 5000002), (empty_frame 1 50 30, 5000003)]
        else [])\<rparr>"

definition two_senders :: env where
  "two_senders =
     quiet_env\<lparr>ingest := (\<lambda>k. if k = 0
        then [(heartbeat_frame 1 50 0x00060000 4, 5000000),
              (empty_frame 2 60 32, 5000002), (empty_frame 2 60 30, 5000003)]
        else [])\<rparr>"

text \<open>An interface whose ids were set by hand before \<^verbatim>\<open>start\<close>.\<close>

definition configured :: world where
  "configured = new_interface\<lparr>system_id := 7, autopilot_id := 8\<rparr>"

text \<open>
  A setpoint of a producer: the velocity \<open>(1.0, 0, 0)\<close>, set with \<^verbatim>\<open>set_velocity\<close> in zeroed
  memory.
\<close>

definition moving_setpoint :: setpoint where
  "moving_setpoint = set_velocity px4_hdr 0x3F800000 0 0 zero_setpoint"

text \<open>
  The script \<open>one_sender\<close> with a write thread that has taken only the first step of its
  start-up, \<^verbatim>\<open>writing_status = 2\<close>, when \<^verbatim>\<open>start\<close> tests \<^verbatim>\<open>writing_status\<close>.
\<close>

definition slow_writer :: env where
  "slow_writer = one_sender\<lparr>writer_steps := (\<lambda>k. if k = 0 then 1 else 3)\<rparr>"

subsection \<open>Sequences of operations\<close>

text \<open>
  The operations of the file that run on an interface, apart from \<^verbatim>\<open>update_setpoint\<close>,
  \<^verbatim>\<open>start\<close> and the start-up of the write thread: a call of \<^verbatim>\<open>write_setpoint\<close>, a sleep with
  the writes of the read thread to the cache, a call of \<^verbatim>\<open>read_messages\<close> on the reads
  given, the four mode operations, the two questions to the cache, and up to \<open>n\<close> rounds of
  the loop of the write thread. Each comes with the script of its surroundings.
  \<open>perform\<close> gives the state an operation leaves, also when it throws; a call of
  \<^verbatim>\<open>read_messages\<close> that does not return within its reads leaves the state it was given.
\<close>

datatype operation =
    Write_setpoint env
  | Usleep env
  | Read_messages "(mavlink_message_t \<times> 64 word) option list"
  | Enable_offboard_control env
  | Disable_offboard_control env
  | Vehicle_armed env
  | Vehicle_disarm env
  | Is_in_offboard_mode
  | Write_thread_loop env nat

fun perform :: "hdr \<Rightarrow> operation \<Rightarrow> world \<Rightarrow> world" where
  "perform h (Write_setpoint e) w = write_setpoint h e w"
| "perform h (Usleep e) w = usleep h e w"
| "perform h (Read_messages reads) w =
     (case read_messages h reads w of None \<Rightarrow> w | Some (w1, rest) \<Rightarrow> w1)"
| "perform h (Enable_offboard_control e) w = snd (enable_offboard_control h e w)"
| "perform h (Disable_offboard_control e) w = disable_offboard_control h e w"
| "perform h (Vehicle_armed e) w = snd (vehicle_armed h e w)"
| "perform h (Vehicle_disarm e) w = vehicle_disarm h e w"
| "perform h Is_in_offboard_mode w = snd (is_in_offboard_mode h w)"
| "perform h (Write_thread_loop e n) w = snd (write_thread_loop h e n w)"

section \<open>Properties\<close>

subsection \<open>The cache over the sleeps of a caller\<close>

lemma is_in_offboard_mode_fst:
  "fst (is_in_offboard_mode h w) = offboard_reported h (current_messages w)"
  by (simp add: is_in_offboard_mode_def offboard_reported_def Let_def)

lemma is_armed_reported: "is_armed h w = armed_reported h (current_messages w)"
  by (simp add: is_armed_def armed_reported_def)

lemma cache_after_0: "cache_after h e 0 w = current_messages w"
  by (simp add: cache_after_def)

lemma cache_after_Suc: "cache_after h e (Suc k) w = cache_after h e k (usleep h e w)"
  by (simp add: cache_after_def funpow_swap1)

lemma cache_after_cong:
  "current_messages w = current_messages w' \<Longrightarrow> slept w = slept w' \<Longrightarrow>
   cache_after h e k w = cache_after h e k w'"
proof (induction k arbitrary: w w')
  case 0
  then show ?case by (simp add: cache_after_0)
next
  case (Suc k)
  have "cache_after h e k (usleep h e w) = cache_after h e k (usleep h e w')"
    by (rule Suc.IH) (simp_all add: usleep_def Suc.prems)
  then show ?case by (simp add: cache_after_Suc)
qed

lemma command_message_cong:
  "system_id w = system_id w' \<Longrightarrow> autopilot_id w = autopilot_id w' \<Longrightarrow>
   companion_id w = companion_id w' \<Longrightarrow>
   command_message h w c f = command_message h w' c f"
  by (simp add: command_message_def command_long_def)


subsection \<open>Rounds of the two retry loops\<close>

text \<open>
  A round of either loop that neither throws nor ends the loop writes one command and
  sleeps once. \<open>k\<close> such rounds leave a state that differs from the start by \<open>k\<close> commands
  written, \<open>k\<close> sleeps and the lines printed.
\<close>

lemma toggle_offboard_control_fst:
  "fst (toggle_offboard_control h e flag w) = port_write e (length (port_written w))"
  by (simp add: toggle_offboard_control_def serial_write_def)

lemma offboard_after_toggle:
  "fst (is_in_offboard_mode h (usleep h e (snd (toggle_offboard_control h e True w)))) =
   offboard_reported h (cache_after h e (Suc 0) w)"
  by (simp add: is_in_offboard_mode_fst cache_after_def usleep_def toggle_offboard_control_def
        serial_write_def)

lemma enable_round:
  assumes "0 \<le> port_write e (length (port_written w))"
  shows "enable_loop h e (Suc n) w =
     (let w1 = snd (toggle_offboard_control h e True w);
          w2 = snd (is_in_offboard_mode h (usleep h e w1))
      in if offboard_reported h (cache_after h e (Suc 0) w) then (Returned, w2\<lparr>control_status := 1\<rparr>)
         else enable_loop h e n w2)"
  using assms
  by (simp add: split_beta Let_def toggle_offboard_control_fst offboard_after_toggle
        )

lemma enable_round_facts:
  fixes w h e
  defines "w2 \<equiv> snd (is_in_offboard_mode h (usleep h e (snd (toggle_offboard_control h e True w))))"
  shows "port_written w2 = port_written w @ [command_message h w (MAV_CMD_NAV_GUIDED_ENABLE h) True]"
    and "current_messages w2 = current_messages (usleep h e w)"
    and "slept w2 = slept (usleep h e w)"
    and "system_id w2 = system_id w" and "autopilot_id w2 = autopilot_id w"
    and "companion_id w2 = companion_id w" and "control_status w2 = control_status w"
    and "printed_lines w2 = printed_lines w @ [offboard_check_line h (cache_after h e (Suc 0) w)]"
  by (simp_all add: w2_def is_in_offboard_mode_def usleep_def toggle_offboard_control_def
       serial_write_def printf_def Let_def offboard_check_line_def cache_after_def)

lemma upt_0_Suc_shift: "map f [0..<Suc k] = f 0 # map (\<lambda>i. f (Suc i)) [0..<k]"
  by (simp add: upt_rec [of 0 "Suc k"] map_Suc_upt [symmetric] del: upt_Suc)

lemma enable_loop_rounds:
  assumes "k \<le> n"
    and "\<forall>i<k. 0 \<le> port_write e (length (port_written w) + i)"
    and "\<forall>i<k. \<not> offboard_reported h (cache_after h e (Suc i) w)"
  shows "\<exists>wk. enable_loop h e n w = enable_loop h e (n - k) wk \<and>
           port_written wk =
             port_written w @ replicate k (command_message h w (MAV_CMD_NAV_GUIDED_ENABLE h) True) \<and>
           printed_lines wk =
             printed_lines w @ map (\<lambda>i. offboard_check_line h (cache_after h e (Suc i) w)) [0..<k] \<and>
           current_messages wk = cache_after h e k w \<and> slept wk = slept w + k \<and>
           system_id wk = system_id w \<and> autopilot_id wk = autopilot_id w \<and>
           companion_id wk = companion_id w \<and> control_status wk = control_status w"
  using assms
proof (induction k arbitrary: w n)
  case 0
  show ?case by (rule exI [of _ w]) (simp add: cache_after_0)
next
  case (Suc k)
  then obtain m where n: "n = Suc m" and km: "k \<le> m" by (cases n) auto
  define w2 where "w2 = snd (is_in_offboard_mode h (usleep h e (snd (toggle_offboard_control h e True w))))"
  note f = enable_round_facts [of h e w, folded w2_def]
  from Suc.prems(2) have w0: "0 \<le> port_write e (length (port_written w))"
    by (metis add.right_neutral zero_less_Suc)
  from Suc.prems(3) have no: "\<not> offboard_reported h (cache_after h e (Suc 0) w)" by blast
  have r: "enable_loop h e n w = enable_loop h e m w2"
    unfolding n using no by (simp add: enable_round [OF w0] w2_def Let_def del: enable_loop.simps)
  have cc: "cache_after h e i w2 = cache_after h e (Suc i) w" for i
    unfolding cache_after_Suc by (rule cache_after_cong) (simp_all add: f)
  have cm: "command_message h w2 c b = command_message h w c b" for c b
    by (rule command_message_cong) (simp_all add: f)
  have "\<exists>wk. enable_loop h e m w2 = enable_loop h e (m - k) wk \<and>
           port_written wk =
             port_written w2 @ replicate k (command_message h w2 (MAV_CMD_NAV_GUIDED_ENABLE h) True) \<and>
           printed_lines wk =
             printed_lines w2 @ map (\<lambda>i. offboard_check_line h (cache_after h e (Suc i) w2)) [0..<k] \<and>
           current_messages wk = cache_after h e k w2 \<and> slept wk = slept w2 + k \<and>
           system_id wk = system_id w2 \<and> autopilot_id wk = autopilot_id w2 \<and>
           companion_id wk = companion_id w2 \<and> control_status wk = control_status w2"
  proof (rule Suc.IH [OF km])
    show "\<forall>i<k. 0 \<le> port_write e (length (port_written w2) + i)"
      using Suc.prems(2) by (auto simp: f)
    show "\<forall>i<k. \<not> offboard_reported h (cache_after h e (Suc i) w2)"
      using Suc.prems(3) by (auto simp: cc)
  qed
  then obtain wk where wk: "enable_loop h e m w2 = enable_loop h e (m - k) wk"
      "port_written wk =
             port_written w2 @ replicate k (command_message h w2 (MAV_CMD_NAV_GUIDED_ENABLE h) True)"
      "printed_lines wk =
             printed_lines w2 @ map (\<lambda>i. offboard_check_line h (cache_after h e (Suc i) w2)) [0..<k]"
      "current_messages wk = cache_after h e k w2" "slept wk = slept w2 + k"
      "system_id wk = system_id w2" "autopilot_id wk = autopilot_id w2"
      "companion_id wk = companion_id w2" "control_status wk = control_status w2"
    by blast
  have "enable_loop h e n w = enable_loop h e (n - Suc k) wk"
    using r wk(1) n by simp
  moreover have "port_written wk =
      port_written w @ replicate (Suc k) (command_message h w (MAV_CMD_NAV_GUIDED_ENABLE h) True)"
    using wk(2) by (simp add: f cm)
  moreover have "printed_lines wk =
      printed_lines w @ map (\<lambda>i. offboard_check_line h (cache_after h e (Suc i) w)) [0..<Suc k]"
    unfolding upt_0_Suc_shift using wk(3) by (simp add: f cc)
  moreover have "current_messages wk = cache_after h e (Suc k) w" using wk(4) by (simp add: cc)
  moreover have "slept wk = slept w + Suc k" using wk(5) by (simp add: f usleep_def)
  ultimately show ?case using wk(6-9) by (auto simp: f)
qed

lemma toggle_arm_disarm_fst:
  "fst (toggle_arm_disarm h e flag w) = port_write e (length (port_written w))"
  by (simp add: toggle_arm_disarm_def serial_write_def)

lemma armed_round_facts:
  fixes w h e
  defines "w2 \<equiv> usleep h e (snd (toggle_arm_disarm h e True w))"
  shows "port_written w2 = port_written w @ [command_message h w (MAV_CMD_COMPONENT_ARM_DISARM h) True]"
    and "current_messages w2 = current_messages (usleep h e w)"
    and "slept w2 = slept (usleep h e w)"
    and "system_id w2 = system_id w" and "autopilot_id w2 = autopilot_id w"
    and "companion_id w2 = companion_id w" and "control_status w2 = control_status w"
    and "printed_lines w2 = printed_lines w"
  by (simp_all add: w2_def usleep_def toggle_arm_disarm_def serial_write_def)

lemma armed_round:
  assumes "0 \<le> port_write e (length (port_written w))"
    and "\<not> armed_reported h (current_messages w)"
  shows "armed_loop h e (Suc n) success w =
           armed_loop h e n (port_write e (length (port_written w)))
             (usleep h e (snd (toggle_arm_disarm h e True w)))"
  using assms by (simp add: split_beta is_armed_reported toggle_arm_disarm_fst)

lemma armed_loop_rounds:
  assumes "k \<le> n"
    and "\<forall>i<k. 0 \<le> port_write e (length (port_written w) + i)"
    and "\<forall>i<k. \<not> armed_reported h (cache_after h e i w)"
  shows "\<exists>sk wk. armed_loop h e n success w = armed_loop h e (n - k) sk wk \<and>
           sk = (if k = 0 then success else port_write e (length (port_written w) + (k - 1))) \<and>
           port_written wk =
             port_written w @ replicate k (command_message h w (MAV_CMD_COMPONENT_ARM_DISARM h) True) \<and>
           printed_lines wk = printed_lines w \<and>
           current_messages wk = cache_after h e k w \<and> slept wk = slept w + k \<and>
           system_id wk = system_id w \<and> autopilot_id wk = autopilot_id w \<and>
           companion_id wk = companion_id w \<and> control_status wk = control_status w"
  using assms
proof (induction k arbitrary: w n success)
  case 0
  show ?case by (rule exI [of _ success], rule exI [of _ w]) (simp add: cache_after_0)
next
  case (Suc k)
  then obtain m where n: "n = Suc m" and km: "k \<le> m" by (cases n) auto
  define w2 where "w2 = usleep h e (snd (toggle_arm_disarm h e True w))"
  define s2 where "s2 = port_write e (length (port_written w))"
  note f = armed_round_facts [of h e w, folded w2_def]
  from Suc.prems(2) have w0: "0 \<le> port_write e (length (port_written w))"
    by (metis add.right_neutral zero_less_Suc)
  from Suc.prems(3) have no: "\<not> armed_reported h (current_messages w)"
    by (metis cache_after_0 zero_less_Suc)
  have r: "armed_loop h e n success w = armed_loop h e m s2 w2"
    unfolding n w2_def s2_def by (rule armed_round [OF w0 no])
  have cc: "cache_after h e i w2 = cache_after h e (Suc i) w" for i
    unfolding cache_after_Suc by (rule cache_after_cong) (simp_all add: f)
  have cm: "command_message h w2 c b = command_message h w c b" for c b
    by (rule command_message_cong) (simp_all add: f)
  have "\<exists>sk wk. armed_loop h e m s2 w2 = armed_loop h e (m - k) sk wk \<and>
           sk = (if k = 0 then s2 else port_write e (length (port_written w2) + (k - 1))) \<and>
           port_written wk =
             port_written w2 @ replicate k (command_message h w2 (MAV_CMD_COMPONENT_ARM_DISARM h) True) \<and>
           printed_lines wk = printed_lines w2 \<and>
           current_messages wk = cache_after h e k w2 \<and> slept wk = slept w2 + k \<and>
           system_id wk = system_id w2 \<and> autopilot_id wk = autopilot_id w2 \<and>
           companion_id wk = companion_id w2 \<and> control_status wk = control_status w2"
  proof (rule Suc.IH [OF km])
    show "\<forall>i<k. 0 \<le> port_write e (length (port_written w2) + i)"
      using Suc.prems(2) by (auto simp: f)
    show "\<forall>i<k. \<not> armed_reported h (cache_after h e i w2)"
      using Suc.prems(3) by (auto simp: cc)
  qed
  then obtain sk wk where wk: "armed_loop h e m s2 w2 = armed_loop h e (m - k) sk wk"
      "sk = (if k = 0 then s2 else port_write e (length (port_written w2) + (k - 1)))"
      "port_written wk =
             port_written w2 @ replicate k (command_message h w2 (MAV_CMD_COMPONENT_ARM_DISARM h) True)"
      "printed_lines wk = printed_lines w2"
      "current_messages wk = cache_after h e k w2" "slept wk = slept w2 + k"
      "system_id wk = system_id w2" "autopilot_id wk = autopilot_id w2"
      "companion_id wk = companion_id w2" "control_status wk = control_status w2"
    by blast
  have "armed_loop h e n success w = armed_loop h e (n - Suc k) sk wk"
    using r wk(1) n by simp
  moreover have "sk = (if Suc k = 0 then success
                       else port_write e (length (port_written w) + (Suc k - 1)))"
    using wk(2) by (cases k) (simp_all add: f s2_def)
  moreover have "port_written wk =
      port_written w @ replicate (Suc k) (command_message h w (MAV_CMD_COMPONENT_ARM_DISARM h) True)"
    using wk(3) by (simp add: f cm)
  moreover have "current_messages wk = cache_after h e (Suc k) w" using wk(5) by (simp add: cc)
  moreover have "slept wk = slept w + Suc k" using wk(6) by (simp add: f usleep_def)
  ultimately show ?case using wk(4,7-10) by (auto simp: f)
qed

lemma slept_funpow: "slept ((usleep h e ^^ k) w) = slept w + k"
  by (induction k) (simp_all add: usleep_def)

lemma cache_after_shift:
  assumes "current_messages wk = cache_after h e k w" and "slept wk = slept w + k"
  shows "cache_after h e i wk = cache_after h e (k + i) w"
proof -
  have "cache_after h e i wk = cache_after h e i ((usleep h e ^^ k) w)"
    by (rule cache_after_cong) (simp_all add: assms cache_after_def slept_funpow)
  also have "\<dots> = cache_after h e (k + i) w"
    by (simp add: cache_after_def funpow_add add.commute)
  finally show ?thesis .
qed

lemma printf_fields [simp]:
  "port_written (printf fmt vs w) = port_written w"
  "current_messages (printf fmt vs w) = current_messages w"
  "slept (printf fmt vs w) = slept w"
  "system_id (printf fmt vs w) = system_id w"
  "autopilot_id (printf fmt vs w) = autopilot_id w"
  "companion_id (printf fmt vs w) = companion_id w"
  "control_status (printf fmt vs w) = control_status w"
  "current_setpoint (printf fmt vs w) = current_setpoint w"
  "time_to_exit (printf fmt vs w) = time_to_exit w"
  "writing_status (printf fmt vs w) = writing_status w"
  "printed_lines (printf fmt vs w) = printed_lines w @ [(Stdout, fmt, vs)]"
  by (simp_all add: printf_def)

lemma fprintf_stderr_fields [simp]:
  "port_written (fprintf_stderr fmt vs w) = port_written w"
  "current_messages (fprintf_stderr fmt vs w) = current_messages w"
  "slept (fprintf_stderr fmt vs w) = slept w"
  "system_id (fprintf_stderr fmt vs w) = system_id w"
  "autopilot_id (fprintf_stderr fmt vs w) = autopilot_id w"
  "companion_id (fprintf_stderr fmt vs w) = companion_id w"
  "control_status (fprintf_stderr fmt vs w) = control_status w"
  "current_setpoint (fprintf_stderr fmt vs w) = current_setpoint w"
  "time_to_exit (fprintf_stderr fmt vs w) = time_to_exit w"
  "writing_status (fprintf_stderr fmt vs w) = writing_status w"
  "printed_lines (fprintf_stderr fmt vs w) = printed_lines w @ [(Stderr, fmt, vs)]"
  by (simp_all add: fprintf_stderr_def)

lemma cache_after_printf [simp]: "cache_after h e k (printf fmt vs w) = cache_after h e k w"
  by (rule cache_after_cong) simp_all

lemma command_message_printf [simp]:
  "command_message h (printf fmt vs w) c b = command_message h w c b"
  by (rule command_message_cong) simp_all

lemma enable_loop_confirm:
  assumes "j < n"
    and "\<forall>i\<le>j. 0 \<le> port_write e (length (port_written w) + i)"
    and "\<forall>i<j. \<not> offboard_reported h (cache_after h e (Suc i) w)"
    and "offboard_reported h (cache_after h e (Suc j) w)"
  shows "\<exists>w'. enable_loop h e n w = (Returned, w') \<and>
           port_written w' =
             port_written w @ replicate (Suc j) (command_message h w (MAV_CMD_NAV_GUIDED_ENABLE h) True) \<and>
           printed_lines w' =
             printed_lines w @ map (\<lambda>i. offboard_check_line h (cache_after h e (Suc i) w)) [0..<Suc j] \<and>
           control_status w' = 1"
proof -
  from assms(2) have wr: "\<forall>i<j. 0 \<le> port_write e (length (port_written w) + i)" by simp
  from enable_loop_rounds [OF less_imp_le [OF assms(1)] wr assms(3)]
  obtain wk where wk: "enable_loop h e n w = enable_loop h e (n - j) wk"
      "port_written wk =
         port_written w @ replicate j (command_message h w (MAV_CMD_NAV_GUIDED_ENABLE h) True)"
      "printed_lines wk =
         printed_lines w @ map (\<lambda>i. offboard_check_line h (cache_after h e (Suc i) w)) [0..<j]"
      "current_messages wk = cache_after h e j w" "slept wk = slept w + j"
      "system_id wk = system_id w" "autopilot_id wk = autopilot_id w"
      "companion_id wk = companion_id w" "control_status wk = control_status w"
    by blast
  obtain m where m: "n - j = Suc m" using assms(1) by (cases "n - j") auto
  define w2 where "w2 = snd (is_in_offboard_mode h (usleep h e (snd (toggle_offboard_control h e True wk))))"
  note f = enable_round_facts [of h e wk, folded w2_def]
  have c1: "cache_after h e (Suc 0) wk = cache_after h e (Suc j) w"
    using cache_after_shift [OF wk(4,5), of "Suc 0"] by simp
  have w0: "0 \<le> port_write e (length (port_written wk))" using assms(2) by (simp add: wk(2))
  have cm: "command_message h wk c b = command_message h w c b" for c b
    by (rule command_message_cong) (simp_all add: wk)
  have "enable_loop h e n w = (Returned, w2\<lparr>control_status := 1\<rparr>)"
    using assms(4) unfolding wk(1) m
    by (simp add: enable_round [OF w0] c1 Let_def w2_def del: enable_loop.simps)
  moreover have "port_written (w2\<lparr>control_status := 1\<rparr>) =
      port_written w @ replicate (Suc j) (command_message h w (MAV_CMD_NAV_GUIDED_ENABLE h) True)"
    by (simp add: f wk(2) cm replicate_append_same)
  moreover have "printed_lines (w2\<lparr>control_status := 1\<rparr>) =
      printed_lines w @ map (\<lambda>i. offboard_check_line h (cache_after h e (Suc i) w)) [0..<Suc j]"
    by (simp add: f wk(3) c1)
  ultimately show ?thesis by simp
qed

lemma enable_loop_throw:
  assumes "j < n"
    and "\<forall>i<j. 0 \<le> port_write e (length (port_written w) + i)"
    and "port_write e (length (port_written w) + j) < 0"
    and "\<forall>i<j. \<not> offboard_reported h (cache_after h e (Suc i) w)"
  shows "\<exists>w'. enable_loop h e n w = (Thrown EXIT_FAILURE, w') \<and>
           port_written w' =
             port_written w @ replicate (Suc j) (command_message h w (MAV_CMD_NAV_GUIDED_ENABLE h) True) \<and>
           printed_lines w' =
             printed_lines w @ map (\<lambda>i. offboard_check_line h (cache_after h e (Suc i) w)) [0..<j] @
               [(Stdout, ''Offboard Command Send failed!\<newline>'', [])] \<and>
           control_status w' = control_status w"
proof -
  from enable_loop_rounds [OF less_imp_le [OF assms(1)] assms(2) assms(4)]
  obtain wk where wk: "enable_loop h e n w = enable_loop h e (n - j) wk"
      "port_written wk =
         port_written w @ replicate j (command_message h w (MAV_CMD_NAV_GUIDED_ENABLE h) True)"
      "printed_lines wk =
         printed_lines w @ map (\<lambda>i. offboard_check_line h (cache_after h e (Suc i) w)) [0..<j]"
      "current_messages wk = cache_after h e j w" "slept wk = slept w + j"
      "system_id wk = system_id w" "autopilot_id wk = autopilot_id w"
      "companion_id wk = companion_id w" "control_status wk = control_status w"
    by blast
  obtain m where m: "n - j = Suc m" using assms(1) by (cases "n - j") auto
  define w1 where "w1 = snd (toggle_offboard_control h e True wk)"
  have cm: "command_message h wk c b = command_message h w c b" for c b
    by (rule command_message_cong) (simp_all add: wk)
  have neg: "fst (toggle_offboard_control h e True wk) < 0"
    using assms(3) by (simp add: toggle_offboard_control_fst wk(2))
  have f: "port_written w1 = port_written wk @ [command_message h wk (MAV_CMD_NAV_GUIDED_ENABLE h) True]"
      "printed_lines w1 = printed_lines wk" "control_status w1 = control_status wk"
    by (simp_all add: w1_def toggle_offboard_control_def serial_write_def)
  have "enable_loop h e n w =
          (Thrown EXIT_FAILURE, printf ''Offboard Command Send failed!\<newline>'' [] w1)"
    using neg unfolding wk(1) m by (simp add: split_beta w1_def)
  then show ?thesis
    by (simp add: f wk cm replicate_append_same)
qed

lemma enable_loop_exhaust:
  assumes "\<forall>i<n. 0 \<le> port_write e (length (port_written w) + i)"
    and "\<forall>i<n. \<not> offboard_reported h (cache_after h e (Suc i) w)"
  shows "\<exists>w'. enable_loop h e n w = (Returned, w') \<and>
           port_written w' =
             port_written w @ replicate n (command_message h w (MAV_CMD_NAV_GUIDED_ENABLE h) True) \<and>
           printed_lines w' =
             printed_lines w @ map (\<lambda>i. offboard_check_line h (cache_after h e (Suc i) w)) [0..<n] \<and>
           control_status w' = control_status w"
  using enable_loop_rounds [OF le_refl assms] by auto

lemma offboard_at:
  "fst (is_in_offboard_mode h ((usleep h e ^^ k) w)) = offboard_reported h (cache_after h e k w)"
  by (simp add: is_in_offboard_mode_fst cache_after_def)

lemma armed_at: "is_armed h ((usleep h e ^^ k) w) = armed_reported h (cache_after h e k w)"
  by (simp add: is_armed_reported cache_after_def)

subsection \<open>The ways \<open>enable_offboard_control\<close> ends\<close>

lemma enable_offboard_control_confirm:
  assumes "control_status w = 0" and "j < 50"
    and "\<forall>i\<le>j. 0 \<le> port_write e (length (port_written w) + i)"
    and "\<forall>i<j. \<not> offboard_reported h (cache_after h e (Suc i) w)"
    and "offboard_reported h (cache_after h e (Suc j) w)"
  shows "\<exists>w'. enable_offboard_control h e w = (Returned, w') \<and>
           port_written w' =
             port_written w @ replicate (Suc j) (command_message h w (MAV_CMD_NAV_GUIDED_ENABLE h) True) \<and>
           printed_lines w' =
             printed_lines w @ [(Stdout, ''Enable Offboaed Mode...\<newline>'', [])] @
             map (\<lambda>i. offboard_check_line h (cache_after h e (Suc i) w)) [0..<Suc j] @
             [(Stdout, ''\<newline>'', [])] \<and>
           control_status w' = 1"
proof -
  define w0 where "w0 = printf ''Enable Offboaed Mode...\<newline>'' [] w"
  have "\<exists>w'. enable_loop h e 50 w0 = (Returned, w') \<and>
           port_written w' =
             port_written w0 @ replicate (Suc j) (command_message h w0 (MAV_CMD_NAV_GUIDED_ENABLE h) True) \<and>
           printed_lines w' =
             printed_lines w0 @ map (\<lambda>i. offboard_check_line h (cache_after h e (Suc i) w0)) [0..<Suc j] \<and>
           control_status w' = 1"
    by (rule enable_loop_confirm) (use assms in \<open>simp_all add: w0_def\<close>)
  then obtain w1 where w1: "enable_loop h e 50 w0 = (Returned, w1)"
      "port_written w1 =
         port_written w @ replicate (Suc j) (command_message h w (MAV_CMD_NAV_GUIDED_ENABLE h) True)"
      "printed_lines w1 =
         printed_lines w0 @ map (\<lambda>i. offboard_check_line h (cache_after h e (Suc i) w)) [0..<Suc j]"
      "control_status w1 = 1"
    by (auto simp: w0_def)
  have "enable_offboard_control h e w = (Returned, printf ''\<newline>'' [] w1)"
    using assms(1) w1(1,4) by (simp add: enable_offboard_control_def w0_def)
  then show ?thesis using w1(2-4) by (simp add: w0_def)
qed

lemma enable_offboard_control_throw:
  assumes "control_status w = 0" and "j < 50"
    and "\<forall>i<j. 0 \<le> port_write e (length (port_written w) + i)"
    and "port_write e (length (port_written w) + j) < 0"
    and "\<forall>i<j. \<not> offboard_reported h (cache_after h e (Suc i) w)"
  shows "\<exists>w'. enable_offboard_control h e w = (Thrown EXIT_FAILURE, w') \<and>
           port_written w' =
             port_written w @ replicate (Suc j) (command_message h w (MAV_CMD_NAV_GUIDED_ENABLE h) True) \<and>
           printed_lines w' =
             printed_lines w @ [(Stdout, ''Enable Offboaed Mode...\<newline>'', [])] @
             map (\<lambda>i. offboard_check_line h (cache_after h e (Suc i) w)) [0..<j] @
             [(Stdout, ''Offboard Command Send failed!\<newline>'', [])] \<and>
           control_status w' = 0"
proof -
  define w0 where "w0 = printf ''Enable Offboaed Mode...\<newline>'' [] w"
  have "\<exists>w'. enable_loop h e 50 w0 = (Thrown EXIT_FAILURE, w') \<and>
           port_written w' =
             port_written w0 @ replicate (Suc j) (command_message h w0 (MAV_CMD_NAV_GUIDED_ENABLE h) True) \<and>
           printed_lines w' =
             printed_lines w0 @ map (\<lambda>i. offboard_check_line h (cache_after h e (Suc i) w0)) [0..<j] @
               [(Stdout, ''Offboard Command Send failed!\<newline>'', [])] \<and>
           control_status w' = control_status w0"
    by (rule enable_loop_throw) (use assms in \<open>simp_all add: w0_def\<close>)
  then obtain w1 where w1: "enable_loop h e 50 w0 = (Thrown EXIT_FAILURE, w1)"
      "port_written w1 =
         port_written w @ replicate (Suc j) (command_message h w (MAV_CMD_NAV_GUIDED_ENABLE h) True)"
      "printed_lines w1 =
         printed_lines w0 @ map (\<lambda>i. offboard_check_line h (cache_after h e (Suc i) w)) [0..<j] @
               [(Stdout, ''Offboard Command Send failed!\<newline>'', [])]"
      "control_status w1 = 0"
    by (auto simp: w0_def assms(1))
  have "enable_offboard_control h e w = (Thrown EXIT_FAILURE, w1)"
    using assms(1) w1(1) by (simp add: enable_offboard_control_def w0_def)
  then show ?thesis using w1(2-4) by (simp add: w0_def)
qed

lemma enable_offboard_control_exhaust:
  assumes "control_status w = 0"
    and "\<forall>i<50. 0 \<le> port_write e (length (port_written w) + i)"
    and "\<forall>i<50. \<not> offboard_reported h (cache_after h e (Suc i) w)"
  shows "\<exists>w'. enable_offboard_control h e w = (Thrown EXIT_FAILURE, w') \<and>
           port_written w' =
             port_written w @ replicate 50 (command_message h w (MAV_CMD_NAV_GUIDED_ENABLE h) True) \<and>
           printed_lines w' =
             printed_lines w @ [(Stdout, ''Enable Offboaed Mode...\<newline>'', [])] @
             map (\<lambda>i. offboard_check_line h (cache_after h e (Suc i) w)) [0..<50] @
             [(Stdout, ''Enable offboard mode failed!\<newline>'', [])] \<and>
           control_status w' = 0"
proof -
  define w0 where "w0 = printf ''Enable Offboaed Mode...\<newline>'' [] w"
  have "\<exists>w'. enable_loop h e 50 w0 = (Returned, w') \<and>
           port_written w' =
             port_written w0 @ replicate 50 (command_message h w0 (MAV_CMD_NAV_GUIDED_ENABLE h) True) \<and>
           printed_lines w' =
             printed_lines w0 @ map (\<lambda>i. offboard_check_line h (cache_after h e (Suc i) w0)) [0..<50] \<and>
           control_status w' = control_status w0"
    by (rule enable_loop_exhaust) (use assms in \<open>simp_all add: w0_def\<close>)
  then obtain w1 where w1: "enable_loop h e 50 w0 = (Returned, w1)"
      "port_written w1 =
         port_written w @ replicate 50 (command_message h w (MAV_CMD_NAV_GUIDED_ENABLE h) True)"
      "printed_lines w1 =
         printed_lines w0 @ map (\<lambda>i. offboard_check_line h (cache_after h e (Suc i) w)) [0..<50]"
      "control_status w1 = 0"
    by (auto simp: w0_def assms(1))
  have "enable_offboard_control h e w =
          (Thrown EXIT_FAILURE, printf ''Enable offboard mode failed!\<newline>'' [] w1)"
    using assms(1) w1(1,4) by (simp add: enable_offboard_control_def w0_def)
  then show ?thesis using w1(2-4) by (simp add: w0_def)
qed

subsection \<open>The ways \<open>vehicle_armed\<close> ends\<close>

lemma armed_loop_bound:
  "length (port_written (snd (snd (snd (armed_loop h e n success w))))) \<le> length (port_written w) + n"
proof (induction n arbitrary: success w)
  case 0
  then show ?case by simp
next
  case (Suc n)
  define w1 where "w1 = usleep h e (snd (toggle_arm_disarm h e True w))"
  define s1 where "s1 = fst (toggle_arm_disarm h e True w)"
  have l: "length (port_written w1) = Suc (length (port_written w))"
    by (simp add: w1_def armed_round_facts)
  have l': "length (port_written (snd (toggle_arm_disarm h e True w))) = Suc (length (port_written w))"
    by (simp add: toggle_arm_disarm_def serial_write_def)
  from Suc.IH [of s1 w1] l
  have "length (port_written (snd (snd (snd (armed_loop h e n s1 w1))))) \<le> length (port_written w) + Suc n"
    by simp
  then show ?case
    by (simp add: split_beta w1_def s1_def l')
qed

lemma vehicle_armed_bound:
  "length (port_written (snd (vehicle_armed h e w))) \<le> length (port_written w) + 50"
proof -
  define w0 where "w0 = printf ''Switch Vehicle to Armed...\<newline>'' [] w"
  obtain r a s w1 where r: "armed_loop h e 50 (- 1) w0 = (r, a, s, w1)"
    by (metis prod_cases4)
  from armed_loop_bound [of h e 50 "- 1" w0] r
  have "length (port_written w1) \<le> length (port_written w) + 50" by (simp add: w0_def)
  then show ?thesis
    by (simp add: vehicle_armed_def r w0_def [symmetric] split: outcome.splits)
qed

lemma vehicle_armed_confirm:
  assumes "j < 50"
    and "\<forall>i<j. 0 \<le> port_write e (length (port_written w) + i)"
    and "\<forall>i<j. \<not> armed_reported h (cache_after h e i w)"
    and "armed_reported h (cache_after h e j w)"
  shows "\<exists>w'. vehicle_armed h e w = (Returned, w') \<and>
           port_written w' =
             port_written w @ replicate j (command_message h w (MAV_CMD_COMPONENT_ARM_DISARM h) True) \<and>
           printed_lines w' =
             printed_lines w @ [(Stdout, ''Switch Vehicle to Armed...\<newline>'', [])] @
             (if 0 < j \<and> port_write e (length (port_written w) + (j - 1)) = 0
              then [(Stderr, ''Error: armed failed, could not write message\<newline>'', [])] else []) @
             [(Stdout, ''\<newline>'', [])]"
proof -
  define w0 where "w0 = printf ''Switch Vehicle to Armed...\<newline>'' [] w"
  have "\<exists>sk wk. armed_loop h e 50 (- 1) w0 = armed_loop h e (50 - j) sk wk \<and>
           sk = (if j = 0 then - 1 else port_write e (length (port_written w) + (j - 1))) \<and>
           port_written wk =
             port_written w @ replicate j (command_message h w (MAV_CMD_COMPONENT_ARM_DISARM h) True) \<and>
           printed_lines wk = printed_lines w0 \<and>
           current_messages wk = cache_after h e j w \<and> slept wk = slept w + j \<and>
           system_id wk = system_id w \<and> autopilot_id wk = autopilot_id w \<and>
           companion_id wk = companion_id w \<and> control_status wk = control_status w"
    using armed_loop_rounds [of j 50 e w0 h "- 1"] assms by (simp add: w0_def cong: if_cong)
  then obtain sk wk where wk: "armed_loop h e 50 (- 1) w0 = armed_loop h e (50 - j) sk wk"
      "sk = (if j = 0 then - 1 else port_write e (length (port_written w) + (j - 1)))"
      "port_written wk =
         port_written w @ replicate j (command_message h w (MAV_CMD_COMPONENT_ARM_DISARM h) True)"
      "printed_lines wk = printed_lines w0"
      "current_messages wk = cache_after h e j w"
    by blast
  obtain m where m: "50 - j = Suc m" using assms(1) by (cases "50 - j") auto
  have "armed_loop h e 50 (- 1) w0 = (Returned, True, sk, wk)"
    unfolding wk(1) m using assms(4) by (simp add: is_armed_reported wk(5))
  then have "vehicle_armed h e w =
      (Returned, printf ''\<newline>'' []
         (if sk = 0 then fprintf_stderr ''Error: armed failed, could not write message\<newline>'' [] wk
          else wk))"
    by (simp add: vehicle_armed_def w0_def)
  then show ?thesis using wk(2-4) by (auto simp: w0_def)
qed

lemma vehicle_armed_throw:
  assumes "j < 50"
    and "\<forall>i<j. 0 \<le> port_write e (length (port_written w) + i)"
    and "port_write e (length (port_written w) + j) < 0"
    and "\<forall>i\<le>j. \<not> armed_reported h (cache_after h e i w)"
  shows "\<exists>w'. vehicle_armed h e w = (Thrown EXIT_FAILURE, w') \<and>
           port_written w' =
             port_written w @ replicate (Suc j) (command_message h w (MAV_CMD_COMPONENT_ARM_DISARM h) True) \<and>
           printed_lines w' =
             printed_lines w @ [(Stdout, ''Switch Vehicle to Armed...\<newline>'', []),
                                (Stdout, ''Armed Command Send failed!\<newline>'', [])]"
proof -
  define w0 where "w0 = printf ''Switch Vehicle to Armed...\<newline>'' [] w"
  have "\<exists>sk wk. armed_loop h e 50 (- 1) w0 = armed_loop h e (50 - j) sk wk \<and>
           sk = (if j = 0 then - 1 else port_write e (length (port_written w) + (j - 1))) \<and>
           port_written wk =
             port_written w @ replicate j (command_message h w (MAV_CMD_COMPONENT_ARM_DISARM h) True) \<and>
           printed_lines wk = printed_lines w0 \<and>
           current_messages wk = cache_after h e j w \<and> slept wk = slept w + j \<and>
           system_id wk = system_id w \<and> autopilot_id wk = autopilot_id w \<and>
           companion_id wk = companion_id w \<and> control_status wk = control_status w"
    using armed_loop_rounds [of j 50 e w0 h "- 1"] assms by (simp add: w0_def cong: if_cong)
  then obtain sk wk where wk: "armed_loop h e 50 (- 1) w0 = armed_loop h e (50 - j) sk wk"
      "port_written wk =
         port_written w @ replicate j (command_message h w (MAV_CMD_COMPONENT_ARM_DISARM h) True)"
      "printed_lines wk = printed_lines w0"
      "current_messages wk = cache_after h e j w"
      "system_id wk = system_id w" "autopilot_id wk = autopilot_id w"
      "companion_id wk = companion_id w"
    by blast
  obtain m where m: "50 - j = Suc m" using assms(1) by (cases "50 - j") auto
  define w1 where "w1 = snd (toggle_arm_disarm h e True wk)"
  have cm: "command_message h wk c b = command_message h w c b" for c b
    by (rule command_message_cong) (simp_all add: wk)
  have neg: "fst (toggle_arm_disarm h e True wk) < 0"
    using assms(3) by (simp add: toggle_arm_disarm_fst wk(2))
  have f: "port_written w1 = port_written wk @ [command_message h wk (MAV_CMD_COMPONENT_ARM_DISARM h) True]"
      "printed_lines w1 = printed_lines wk"
    by (simp_all add: w1_def toggle_arm_disarm_def serial_write_def)
  have "armed_loop h e 50 (- 1) w0 =
      (Thrown EXIT_FAILURE, False, fst (toggle_arm_disarm h e True wk),
       printf ''Armed Command Send failed!\<newline>'' [] w1)"
    unfolding wk(1) m using assms(4) neg
    by (simp add: is_armed_reported wk(4) split_beta w1_def)
  then have "vehicle_armed h e w =
      (Thrown EXIT_FAILURE, printf ''Armed Command Send failed!\<newline>'' [] w1)"
    by (simp add: vehicle_armed_def w0_def)
  then show ?thesis by (simp add: f wk cm w0_def replicate_append_same)
qed

lemma vehicle_armed_exhaust:
  assumes "\<forall>i<50. 0 \<le> port_write e (length (port_written w) + i)"
    and "\<forall>i<50. \<not> armed_reported h (cache_after h e i w)"
  shows "\<exists>w'. vehicle_armed h e w = (Thrown EXIT_FAILURE, w') \<and>
           port_written w' =
             port_written w @ replicate 50 (command_message h w (MAV_CMD_COMPONENT_ARM_DISARM h) True) \<and>
           printed_lines w' =
             printed_lines w @ [(Stdout, ''Switch Vehicle to Armed...\<newline>'', []),
                                (Stdout, ''Armed failed!\<newline>'', [])]"
proof -
  define w0 where "w0 = printf ''Switch Vehicle to Armed...\<newline>'' [] w"
  have "\<exists>sk wk. armed_loop h e 50 (- 1) w0 = armed_loop h e (50 - 50) sk wk \<and>
           sk = (if (50::nat) = 0 then - 1 else port_write e (length (port_written w) + (50 - 1))) \<and>
           port_written wk =
             port_written w @ replicate 50 (command_message h w (MAV_CMD_COMPONENT_ARM_DISARM h) True) \<and>
           printed_lines wk = printed_lines w0 \<and>
           current_messages wk = cache_after h e 50 w \<and> slept wk = slept w + 50 \<and>
           system_id wk = system_id w \<and> autopilot_id wk = autopilot_id w \<and>
           companion_id wk = companion_id w \<and> control_status wk = control_status w"
    using armed_loop_rounds [of 50 50 e w0 h "- 1"] assms by (simp add: w0_def cong: if_cong)
  then obtain sk wk where wk: "armed_loop h e 50 (- 1) w0 = armed_loop h e 0 sk wk"
      "port_written wk =
         port_written w @ replicate 50 (command_message h w (MAV_CMD_COMPONENT_ARM_DISARM h) True)"
      "printed_lines wk = printed_lines w0"
    by auto
  have "vehicle_armed h e w = (Thrown EXIT_FAILURE, printf ''Armed failed!\<newline>'' [] wk)"
    by (simp add: vehicle_armed_def w0_def [symmetric] wk(1))
  then show ?thesis by (simp add: wk w0_def)
qed

subsection \<open>Concrete header and scripts\<close>

lemma px4_hdr_fields:
  "MAV_STATE_ACTIVE px4_hdr = 4"
  "PX4_CUSTOM_MAIN_MODE_OFFBOARD px4_hdr = 6"
  "main_mode_of px4_hdr mode = ucast (drop_bit 16 mode)"
  "MAVLINK_MSG_ID_HEARTBEAT px4_hdr = 0"
  "hb_custom_mode (mavlink_msg_heartbeat_decode px4_hdr m) = u32_at (msg_payload m) 0"
  "hb_system_status (mavlink_msg_heartbeat_decode px4_hdr m) = byte_at (msg_payload m) 7"
  by (simp_all add: px4_hdr_def)

lemma new_interface_fields:
  "control_status new_interface = 0"
  "port_written new_interface = []"
  "slept new_interface = 0"
  "printed_lines new_interface = []"
  "system_id new_interface = 0"
  "autopilot_id new_interface = 0"
  "companion_id new_interface = 0"
  "time_to_exit new_interface = False"
  "current_messages new_interface = zero_messages"
  "current_setpoint new_interface = zero_setpoint"
  by (simp_all add: new_interface_def Autopilot_Interface_init_def zero_world_def zero_messages_def)

lemma zero_messages_fields:
  "sysid zero_messages = 0" "compid zero_messages = 0"
  "hb_custom_mode (heartbeat zero_messages) = 0"
  "hb_system_status (heartbeat zero_messages) = 0"
  "time_stamps zero_messages = no_time_stamps"
  by (simp_all add: zero_messages_def)

lemma quiet_env_fields:
  "port_status quiet_env = 1"
  "port_write quiet_env k = 1"
  "ingest quiet_env k = []"
  "quit quiet_env k = False"
  "create_read_thread quiet_env = 0"
  "create_write_thread quiet_env = 0"
  by (simp_all add: quiet_env_def)

lemma confirm_at_third_check_fields:
  "port_write confirm_at_third_check k = 1"
  "ingest confirm_at_third_check k =
     (if k = 2 then [(heartbeat_frame 1 50 0x00060000 3, 5000000)] else [])"
  "quit confirm_at_third_check k = False"
  by (simp_all add: confirm_at_third_check_def quiet_env_def)

lemma usleep_cache:
  "current_messages (usleep h e w) = read_thread_writes h (ingest e (slept w)) (current_messages w)"
  "slept (usleep h e w) = Suc (slept w)"
  by (simp_all add: usleep_def)

subsection \<open>Entering offboard mode\<close>

text \<open>
  C1. Let \<^verbatim>\<open>control_status\<close> be 0, let the first three writes of the call return a positive
  byte count, and let \<^verbatim>\<open>is_in_offboard_mode\<close> answer no after the first and the second sleep
  and yes after the third. Then \<^verbatim>\<open>enable_offboard_control\<close> returns without throwing, has
  set \<^verbatim>\<open>control_status\<close> to 1, and has handed exactly three messages to the port, each the
  encoding of the offboard-enable command: a \<^verbatim>\<open>COMMAND_LONG\<close> with the command
  \<^verbatim>\<open>MAV_CMD_NAV_GUIDED_ENABLE\<close>, \<^verbatim>\<open>param1\<close> 1.0 (the pattern \<open>0x3F800000\<close>), the other
  parameters 0, the confirmation 1 and the ids of the interface as targets.
\<close>

theorem enable_offboard_control_third_check:
  assumes "control_status w = 0"
    and "\<forall>i<3. 0 < port_write e (length (port_written w) + i)"
    and "\<not> fst (is_in_offboard_mode h ((usleep h e ^^ 1) w))"
    and "\<not> fst (is_in_offboard_mode h ((usleep h e ^^ 2) w))"
    and "fst (is_in_offboard_mode h ((usleep h e ^^ 3) w))"
  shows "fst (enable_offboard_control h e w) = Returned \<and>
         port_written (snd (enable_offboard_control h e w)) =
           port_written w @
           replicate 3
             (mavlink_msg_command_long_encode h
                (word_of_int (system_id w)) (word_of_int (companion_id w))
                \<lparr>cmd_param1 = 0x3F800000, cmd_param2 = 0, cmd_param3 = 0, cmd_param4 = 0,
                 cmd_param5 = 0, cmd_param6 = 0, cmd_param7 = 0,
                 cmd_command = MAV_CMD_NAV_GUIDED_ENABLE h,
                 cmd_target_system = word_of_int (system_id w),
                 cmd_target_component = word_of_int (autopilot_id w),
                 cmd_confirmation = 1\<rparr>) \<and>
         control_status (snd (enable_offboard_control h e w)) = 1"
proof -
  have a: "\<forall>i\<le>2. 0 \<le> port_write e (length (port_written w) + i)"
    using assms(2) by (simp add: order_less_imp_le)
  have b: "\<forall>i<2. \<not> offboard_reported h (cache_after h e (Suc i) w)"
    using assms(3,4) unfolding offboard_at by (auto simp: less_Suc_eq numeral_2_eq_2)
  have c: "offboard_reported h (cache_after h e (Suc 2) w)"
    using assms(5) unfolding offboard_at by (simp add: numeral_3_eq_3 numeral_2_eq_2)
  have m: "command_message h w (MAV_CMD_NAV_GUIDED_ENABLE h) True =
      mavlink_msg_command_long_encode h
        (word_of_int (system_id w)) (word_of_int (companion_id w))
        \<lparr>cmd_param1 = 0x3F800000, cmd_param2 = 0, cmd_param3 = 0, cmd_param4 = 0,
         cmd_param5 = 0, cmd_param6 = 0, cmd_param7 = 0,
         cmd_command = MAV_CMD_NAV_GUIDED_ENABLE h,
         cmd_target_system = word_of_int (system_id w),
         cmd_target_component = word_of_int (autopilot_id w),
         cmd_confirmation = 1\<rparr>"
    by (simp add: command_message_def command_long_def float_of_bool_def)
  from enable_offboard_control_confirm [OF assms(1) _ a b c]
  show ?thesis unfolding m by (auto simp: numeral_3_eq_3 numeral_2_eq_2)
qed

lemma px4_command_long_frame:
  "mavlink_msg_command_long_encode px4_hdr 0 0
     \<lparr>cmd_param1 = p1, cmd_param2 = 0, cmd_param3 = 0, cmd_param4 = 0,
      cmd_param5 = 0, cmd_param6 = 0, cmd_param7 = 0,
      cmd_command = 92, cmd_target_system = 0, cmd_target_component = 0,
      cmd_confirmation = 1\<rparr> =
   \<lparr>msg_sysid = 0, msg_compid = 0, msg_msgid = 76,
    msg_payload = le32 p1 @
      [0, 0, 0, 0, 0, 0, 0, 0, 0, 0, 0, 0, 0, 0, 0, 0, 0, 0, 0, 0, 0, 0, 0, 0,
       92, 0, 0, 0, 1]\<rparr>"
  by (simp add: px4_hdr_def le32_def le16_def)

theorem enable_offboard_control_third_check_witness:
  "control_status new_interface = 0 \<and>
   0 < port_write confirm_at_third_check (length (port_written new_interface) + 0) \<and>
   0 < port_write confirm_at_third_check (length (port_written new_interface) + 1) \<and>
   0 < port_write confirm_at_third_check (length (port_written new_interface) + 2) \<and>
   \<not> fst (is_in_offboard_mode px4_hdr ((usleep px4_hdr confirm_at_third_check ^^ 1) new_interface)) \<and>
   \<not> fst (is_in_offboard_mode px4_hdr ((usleep px4_hdr confirm_at_third_check ^^ 2) new_interface)) \<and>
   fst (is_in_offboard_mode px4_hdr ((usleep px4_hdr confirm_at_third_check ^^ 3) new_interface)) \<and>
   fst (enable_offboard_control px4_hdr confirm_at_third_check new_interface) = Returned \<and>
   port_written (snd (enable_offboard_control px4_hdr confirm_at_third_check new_interface)) =
     replicate 3
       \<lparr>msg_sysid = 0, msg_compid = 0, msg_msgid = 76,
        msg_payload =
          [0, 0, 128, 63,
           0, 0, 0, 0, 0, 0, 0, 0, 0, 0, 0, 0, 0, 0, 0, 0, 0, 0, 0, 0, 0, 0, 0, 0,
           92, 0, 0, 0, 1]\<rparr> \<and>
   control_status (snd (enable_offboard_control px4_hdr confirm_at_third_check new_interface)) = 1"
proof -
  have 0: "control_status new_interface = 0"
    by (simp add: new_interface_fields)
  have 2: "\<forall>i<3. 0 < port_write confirm_at_third_check (length (port_written new_interface) + i)"
    by (simp add: confirm_at_third_check_fields)
  have c1: "current_messages ((usleep px4_hdr confirm_at_third_check ^^ 2) new_interface) = zero_messages"
     and s1: "slept ((usleep px4_hdr confirm_at_third_check ^^ 2) new_interface) = 2"
     and c0: "current_messages ((usleep px4_hdr confirm_at_third_check ^^ 1) new_interface) = zero_messages"
    by (simp_all add: eval_nat_numeral usleep_cache new_interface_fields
          confirm_at_third_check_fields read_thread_writes_def)
  have 3: "\<not> fst (is_in_offboard_mode px4_hdr ((usleep px4_hdr confirm_at_third_check ^^ 1) new_interface))"
    unfolding is_in_offboard_mode_fst c0
    by (simp add: offboard_reported_def zero_messages_fields px4_hdr_fields)
  have 4: "\<not> fst (is_in_offboard_mode px4_hdr ((usleep px4_hdr confirm_at_third_check ^^ 2) new_interface))"
    unfolding is_in_offboard_mode_fst c1
    by (simp add: offboard_reported_def zero_messages_fields px4_hdr_fields)
  have e3: "(usleep px4_hdr confirm_at_third_check ^^ 3) new_interface =
        usleep px4_hdr confirm_at_third_check ((usleep px4_hdr confirm_at_third_check ^^ 2) new_interface)"
    by (simp add: eval_nat_numeral)
  have 5: "fst (is_in_offboard_mode px4_hdr ((usleep px4_hdr confirm_at_third_check ^^ 3) new_interface))"
    unfolding is_in_offboard_mode_fst e3
    by (simp add: usleep_cache c1 s1 offboard_reported_def confirm_at_third_check_fields
         read_thread_writes_def handle_message_def heartbeat_frame_def px4_hdr_fields Let_def
         le32_def u32_at_def byte_at_def)
  have g: "MAV_CMD_NAV_GUIDED_ENABLE px4_hdr = 92" by (simp add: px4_hdr_def)
  have l: "le32 (0x3F800000 :: 32 word) = [0, 0, 128, 63]" by (simp add: le32_def)
  from enable_offboard_control_third_check [OF 0 2 3 4 5] 0 3 4 5
  show ?thesis
    by (simp add: new_interface_fields confirm_at_third_check_fields g px4_command_long_frame l)
qed

lemma first_write_fails_fields:
  "port_write first_write_fails k = (if k = 0 then - 1 else 1)"
  "ingest first_write_fails k = []"
  "quit first_write_fails k = False"
  by (simp_all add: first_write_fails_def quiet_env_def)

lemma zero_then_confirmed_fields:
  "port_write zero_then_confirmed k = (if k = 0 then 0 else 1)"
  "ingest zero_then_confirmed k =
     (if k = 1 then [(heartbeat_frame 1 50 0x00060000 4, 5000000)] else [])"
  "quit zero_then_confirmed k = False"
  by (simp_all add: zero_then_confirmed_def quiet_env_def)

lemma zero_then_negative_fields:
  "port_write zero_then_negative k = (if k = 0 then 0 else - 1)"
  "ingest zero_then_negative k = []"
  "quit zero_then_negative k = False"
  by (simp_all add: zero_then_negative_def quiet_env_def)

lemma heartbeat_frame_cached:
  "read_thread_writes px4_hdr [(heartbeat_frame 1 50 0x00060000 st, now)] cm =
     cm\<lparr>sysid := 1, compid := 50,
        heartbeat := \<lparr>hb_custom_mode = 0x00060000, hb_type = 2, hb_autopilot = 12,
                      hb_base_mode = 0, hb_system_status = st, hb_mavlink_version = 3\<rparr>,
        time_stamps := (time_stamps cm)\<lparr>ts_heartbeat := now\<rparr>\<rparr>"
  by (simp add: read_thread_writes_def handle_message_def heartbeat_frame_def px4_hdr_def Let_def
        le32_def u32_at_def byte_at_def)

lemma no_ingest_funpow:
  assumes "\<And>k. ingest e k = []"
  shows "current_messages ((usleep h e ^^ k) w) = current_messages w"
  by (induction k) (simp_all add: usleep_cache assms read_thread_writes_def)

lemma reported_offboard_fields:
  "control_status reported_offboard = 0"
  "port_written reported_offboard = []"
  "slept reported_offboard = 0"
  "system_id reported_offboard = 0"
  "autopilot_id reported_offboard = 0"
  "companion_id reported_offboard = 0"
  "hb_custom_mode (heartbeat (current_messages reported_offboard)) = 0x00060000"
  by (simp_all add: reported_offboard_def new_interface_fields heartbeat_frame_cached)

subsection \<open>Entering offboard mode when it is already reported or engaged\<close>

text \<open>
  C3, as stated, fails. The guard of \<^verbatim>\<open>enable_offboard_control\<close> reads the member
  \<^verbatim>\<open>control_status\<close>, not the cached heartbeat: in the state \<open>reported_offboard\<close> the
  heartbeat reports offboard mode, and the call still writes a command to the port and
  changes the state.
\<close>

theorem enable_offboard_control_reported_counterexample:
  "fst (is_in_offboard_mode px4_hdr reported_offboard) \<and>
   port_written (snd (enable_offboard_control px4_hdr quiet_env reported_offboard)) =
     [command_message px4_hdr reported_offboard (MAV_CMD_NAV_GUIDED_ENABLE px4_hdr) True] \<and>
   control_status (snd (enable_offboard_control px4_hdr quiet_env reported_offboard)) = 1 \<and>
   snd (enable_offboard_control px4_hdr quiet_env reported_offboard) \<noteq> reported_offboard"
proof -
  have r: "offboard_reported px4_hdr (current_messages reported_offboard)"
    by (simp add: offboard_reported_def reported_offboard_fields px4_hdr_fields)
  have n: "current_messages ((usleep px4_hdr quiet_env ^^ k) reported_offboard) =
           current_messages reported_offboard" for k
    by (rule no_ingest_funpow) (simp add: quiet_env_fields)
  have "\<exists>w'. enable_offboard_control px4_hdr quiet_env reported_offboard = (Returned, w') \<and>
           port_written w' =
             port_written reported_offboard @
             replicate (Suc 0) (command_message px4_hdr reported_offboard (MAV_CMD_NAV_GUIDED_ENABLE px4_hdr) True) \<and>
           printed_lines w' =
             printed_lines reported_offboard @ [(Stdout, ''Enable Offboaed Mode...\<newline>'', [])] @
             map (\<lambda>i. offboard_check_line px4_hdr (cache_after px4_hdr quiet_env (Suc i) reported_offboard)) [0..<Suc 0] @
             [(Stdout, ''\<newline>'', [])] \<and>
           control_status w' = 1"
    by (rule enable_offboard_control_confirm)
       (simp_all add: reported_offboard_fields quiet_env_fields cache_after_def n r del: funpow.simps)
  then obtain w' where w': "enable_offboard_control px4_hdr quiet_env reported_offboard = (Returned, w')"
     "port_written w' = [command_message px4_hdr reported_offboard (MAV_CMD_NAV_GUIDED_ENABLE px4_hdr) True]"
     "control_status w' = 1"
    by (auto simp: reported_offboard_fields)
  have "w' \<noteq> reported_offboard" using w'(3) by (auto simp: reported_offboard_fields)
  then show ?thesis using r w' by (simp add: is_in_offboard_mode_fst)
qed

text \<open>
  C3, amended. In every state in which \<^verbatim>\<open>control_status\<close> is not 0,
  \<^verbatim>\<open>enable_offboard_control\<close> returns at once: it writes nothing to the port and leaves the
  whole state as it is.
\<close>

theorem enable_offboard_control_engaged_noop:
  "control_status w \<noteq> 0 \<Longrightarrow> enable_offboard_control h e w = (Returned, w)"
  by (simp add: enable_offboard_control_def)

theorem enable_offboard_control_engaged_noop_witness:
  "control_status engaged = 1 \<and>
   enable_offboard_control px4_hdr quiet_env engaged = (Returned, engaged)"
proof -
  have c: "control_status engaged = 1" by (simp add: engaged_def)
  then have "control_status engaged \<noteq> 0" by simp
  from enable_offboard_control_engaged_noop [OF this] c show ?thesis by simp
qed

subsection \<open>Failed writes of a command\<close>

text \<open>
  C4, as stated, fails. Both retry loops test the byte count with \<^verbatim>\<open>success < 0\<close> and throw
  \<^verbatim>\<open>EXIT_FAILURE\<close> there. With a port whose first write returns \<open>- 1\<close> and whose later
  writes would succeed, both operations end with that exception after one command.
\<close>

theorem negative_write_is_fatal_counterexample:
  "port_write first_write_fails 0 = - 1 \<and>
   fst (enable_offboard_control px4_hdr first_write_fails new_interface) = Thrown EXIT_FAILURE \<and>
   length (port_written (snd (enable_offboard_control px4_hdr first_write_fails new_interface))) = 1 \<and>
   fst (vehicle_armed px4_hdr first_write_fails new_interface) = Thrown EXIT_FAILURE \<and>
   length (port_written (snd (vehicle_armed px4_hdr first_write_fails new_interface))) = 1"
proof -
  have "\<exists>w'. enable_offboard_control px4_hdr first_write_fails new_interface =
               (Thrown EXIT_FAILURE, w') \<and>
           port_written w' =
             port_written new_interface @
             replicate (Suc 0) (command_message px4_hdr new_interface (MAV_CMD_NAV_GUIDED_ENABLE px4_hdr) True) \<and>
           printed_lines w' =
             printed_lines new_interface @ [(Stdout, ''Enable Offboaed Mode...\<newline>'', [])] @
             map (\<lambda>i. offboard_check_line px4_hdr
                         (cache_after px4_hdr first_write_fails (Suc i) new_interface)) [0..<0] @
             [(Stdout, ''Offboard Command Send failed!\<newline>'', [])] \<and>
           control_status w' = 0"
    by (rule enable_offboard_control_throw)
       (simp_all add: new_interface_fields first_write_fails_fields)
  moreover have "\<exists>w'. vehicle_armed px4_hdr first_write_fails new_interface =
               (Thrown EXIT_FAILURE, w') \<and>
           port_written w' =
             port_written new_interface @
             replicate (Suc 0) (command_message px4_hdr new_interface (MAV_CMD_COMPONENT_ARM_DISARM px4_hdr) True) \<and>
           printed_lines w' =
             printed_lines new_interface @
               [(Stdout, ''Switch Vehicle to Armed...\<newline>'', []),
                (Stdout, ''Armed Command Send failed!\<newline>'', [])]"
    by (rule vehicle_armed_throw)
       (simp_all add: new_interface_fields first_write_fails_fields cache_after_0 armed_reported_def
          zero_messages_fields px4_hdr_fields)
  ultimately show ?thesis
    by (auto simp: first_write_fails_fields new_interface_fields)
qed

text \<open>
  C4, amended. A write that returns 0 is not treated as a failure by either retry loop:
  as long as no write returns a negative count, the loop goes on to its next attempt and
  the operation ends as the confirmations decide, here without throwing when the
  confirmation comes within the 50 attempts. A write that returns a negative count is
  fatal: the operation prints its \<^verbatim>\<open>Send failed!\<close> line and throws \<^verbatim>\<open>EXIT_FAILURE\<close> at
  once, with no further attempt.
\<close>

theorem command_write_results:
  "(control_status w = 0 \<and> j < 50 \<and>
    (\<forall>i\<le>j. 0 \<le> port_write e (length (port_written w) + i)) \<and>
    (\<forall>i<j. \<not> fst (is_in_offboard_mode h ((usleep h e ^^ Suc i) w))) \<and>
    fst (is_in_offboard_mode h ((usleep h e ^^ Suc j) w)) \<longrightarrow>
    fst (enable_offboard_control h e w) = Returned \<and>
    port_written (snd (enable_offboard_control h e w)) =
      port_written w @ replicate (Suc j) (command_message h w (MAV_CMD_NAV_GUIDED_ENABLE h) True)) \<and>
   (control_status w = 0 \<and> j < 50 \<and>
    (\<forall>i<j. 0 \<le> port_write e (length (port_written w) + i)) \<and>
    port_write e (length (port_written w) + j) < 0 \<and>
    (\<forall>i<j. \<not> fst (is_in_offboard_mode h ((usleep h e ^^ Suc i) w))) \<longrightarrow>
    fst (enable_offboard_control h e w) = Thrown EXIT_FAILURE \<and>
    port_written (snd (enable_offboard_control h e w)) =
      port_written w @ replicate (Suc j) (command_message h w (MAV_CMD_NAV_GUIDED_ENABLE h) True) \<and>
    last (printed_lines (snd (enable_offboard_control h e w))) =
      (Stdout, ''Offboard Command Send failed!\<newline>'', [])) \<and>
   (j < 50 \<and>
    (\<forall>i<j. 0 \<le> port_write e (length (port_written w) + i)) \<and>
    (\<forall>i<j. \<not> is_armed h ((usleep h e ^^ i) w)) \<and>
    is_armed h ((usleep h e ^^ j) w) \<longrightarrow>
    fst (vehicle_armed h e w) = Returned \<and>
    port_written (snd (vehicle_armed h e w)) =
      port_written w @ replicate j (command_message h w (MAV_CMD_COMPONENT_ARM_DISARM h) True)) \<and>
   (j < 50 \<and>
    (\<forall>i<j. 0 \<le> port_write e (length (port_written w) + i)) \<and>
    port_write e (length (port_written w) + j) < 0 \<and>
    (\<forall>i\<le>j. \<not> is_armed h ((usleep h e ^^ i) w)) \<longrightarrow>
    fst (vehicle_armed h e w) = Thrown EXIT_FAILURE \<and>
    port_written (snd (vehicle_armed h e w)) =
      port_written w @ replicate (Suc j) (command_message h w (MAV_CMD_COMPONENT_ARM_DISARM h) True) \<and>
    last (printed_lines (snd (vehicle_armed h e w))) =
      (Stdout, ''Armed Command Send failed!\<newline>'', []))"
proof (intro conjI impI; (elim conjE)?)
  assume "control_status w = 0" "j < 50"
    "\<forall>i\<le>j. 0 \<le> port_write e (length (port_written w) + i)"
    "\<forall>i<j. \<not> fst (is_in_offboard_mode h ((usleep h e ^^ Suc i) w))"
    "fst (is_in_offboard_mode h ((usleep h e ^^ Suc j) w))"
  then have "\<exists>w'. enable_offboard_control h e w = (Returned, w') \<and>
           port_written w' =
             port_written w @ replicate (Suc j) (command_message h w (MAV_CMD_NAV_GUIDED_ENABLE h) True) \<and>
           printed_lines w' =
             printed_lines w @ [(Stdout, ''Enable Offboaed Mode...\<newline>'', [])] @
             map (\<lambda>i. offboard_check_line h (cache_after h e (Suc i) w)) [0..<Suc j] @
             [(Stdout, ''\<newline>'', [])] \<and>
           control_status w' = 1"
    unfolding offboard_at by (intro enable_offboard_control_confirm)
  then show "fst (enable_offboard_control h e w) = Returned"
    and "port_written (snd (enable_offboard_control h e w)) =
      port_written w @ replicate (Suc j) (command_message h w (MAV_CMD_NAV_GUIDED_ENABLE h) True)"
    by auto
next
  assume "control_status w = 0" "j < 50"
    "\<forall>i<j. 0 \<le> port_write e (length (port_written w) + i)"
    "port_write e (length (port_written w) + j) < 0"
    "\<forall>i<j. \<not> fst (is_in_offboard_mode h ((usleep h e ^^ Suc i) w))"
  then have "\<exists>w'. enable_offboard_control h e w = (Thrown EXIT_FAILURE, w') \<and>
           port_written w' =
             port_written w @ replicate (Suc j) (command_message h w (MAV_CMD_NAV_GUIDED_ENABLE h) True) \<and>
           printed_lines w' =
             printed_lines w @ [(Stdout, ''Enable Offboaed Mode...\<newline>'', [])] @
             map (\<lambda>i. offboard_check_line h (cache_after h e (Suc i) w)) [0..<j] @
             [(Stdout, ''Offboard Command Send failed!\<newline>'', [])] \<and>
           control_status w' = 0"
    unfolding offboard_at by (intro enable_offboard_control_throw)
  then show "fst (enable_offboard_control h e w) = Thrown EXIT_FAILURE"
    and "port_written (snd (enable_offboard_control h e w)) =
      port_written w @ replicate (Suc j) (command_message h w (MAV_CMD_NAV_GUIDED_ENABLE h) True)"
    and "last (printed_lines (snd (enable_offboard_control h e w))) =
      (Stdout, ''Offboard Command Send failed!\<newline>'', [])"
    by auto
next
  assume "j < 50"
    "\<forall>i<j. 0 \<le> port_write e (length (port_written w) + i)"
    "\<forall>i<j. \<not> is_armed h ((usleep h e ^^ i) w)"
    "is_armed h ((usleep h e ^^ j) w)"
  then have "\<exists>w'. vehicle_armed h e w = (Returned, w') \<and>
           port_written w' =
             port_written w @ replicate j (command_message h w (MAV_CMD_COMPONENT_ARM_DISARM h) True) \<and>
           printed_lines w' =
             printed_lines w @ [(Stdout, ''Switch Vehicle to Armed...\<newline>'', [])] @
             (if 0 < j \<and> port_write e (length (port_written w) + (j - 1)) = 0
              then [(Stderr, ''Error: armed failed, could not write message\<newline>'', [])] else []) @
             [(Stdout, ''\<newline>'', [])]"
    unfolding armed_at by (intro vehicle_armed_confirm)
  then show "fst (vehicle_armed h e w) = Returned"
    and "port_written (snd (vehicle_armed h e w)) =
      port_written w @ replicate j (command_message h w (MAV_CMD_COMPONENT_ARM_DISARM h) True)"
    by auto
next
  assume "j < 50"
    "\<forall>i<j. 0 \<le> port_write e (length (port_written w) + i)"
    "port_write e (length (port_written w) + j) < 0"
    "\<forall>i\<le>j. \<not> is_armed h ((usleep h e ^^ i) w)"
  then have "\<exists>w'. vehicle_armed h e w = (Thrown EXIT_FAILURE, w') \<and>
           port_written w' =
             port_written w @ replicate (Suc j) (command_message h w (MAV_CMD_COMPONENT_ARM_DISARM h) True) \<and>
           printed_lines w' =
             printed_lines w @ [(Stdout, ''Switch Vehicle to Armed...\<newline>'', []),
                                (Stdout, ''Armed Command Send failed!\<newline>'', [])]"
    unfolding armed_at by (intro vehicle_armed_throw)
  then show "fst (vehicle_armed h e w) = Thrown EXIT_FAILURE"
    and "port_written (snd (vehicle_armed h e w)) =
      port_written w @ replicate (Suc j) (command_message h w (MAV_CMD_COMPONENT_ARM_DISARM h) True)"
    and "last (printed_lines (snd (vehicle_armed h e w))) =
      (Stdout, ''Armed Command Send failed!\<newline>'', [])"
    by auto
qed

lemma zero_then_confirmed_cache:
  "current_messages ((usleep px4_hdr zero_then_confirmed ^^ 0) new_interface) = zero_messages"
  "current_messages ((usleep px4_hdr zero_then_confirmed ^^ Suc 0) new_interface) = zero_messages"
  "hb_custom_mode (heartbeat (current_messages
     ((usleep px4_hdr zero_then_confirmed ^^ Suc (Suc 0)) new_interface))) = 0x00060000"
  "hb_system_status (heartbeat (current_messages
     ((usleep px4_hdr zero_then_confirmed ^^ Suc (Suc 0)) new_interface))) = 4"
  by (simp_all add: usleep_cache new_interface_fields zero_then_confirmed_fields
        heartbeat_frame_cached)
     (simp_all add: read_thread_writes_def)

theorem command_write_results_witness:
  "port_write zero_then_confirmed 0 = 0 \<and>
   fst (enable_offboard_control px4_hdr zero_then_confirmed new_interface) = Returned \<and>
   length (port_written (snd (enable_offboard_control px4_hdr zero_then_confirmed new_interface))) = 2 \<and>
   fst (vehicle_armed px4_hdr zero_then_confirmed new_interface) = Returned \<and>
   length (port_written (snd (vehicle_armed px4_hdr zero_then_confirmed new_interface))) = 2 \<and>
   port_write zero_then_negative 0 = 0 \<and> port_write zero_then_negative 1 = - 1 \<and>
   fst (enable_offboard_control px4_hdr zero_then_negative new_interface) = Thrown EXIT_FAILURE \<and>
   length (port_written (snd (enable_offboard_control px4_hdr zero_then_negative new_interface))) = 2 \<and>
   fst (vehicle_armed px4_hdr zero_then_negative new_interface) = Thrown EXIT_FAILURE \<and>
   length (port_written (snd (vehicle_armed px4_hdr zero_then_negative new_interface))) = 2"
proof -
  have off: "fst (is_in_offboard_mode px4_hdr w) \<longleftrightarrow>
             ucast (drop_bit 16 (hb_custom_mode (heartbeat (current_messages w)))) = (6 :: 8 word)" for w
    by (simp add: is_in_offboard_mode_fst offboard_reported_def px4_hdr_fields)
  have arm: "is_armed px4_hdr w \<longleftrightarrow> hb_system_status (heartbeat (current_messages w)) = 4" for w
    by (auto simp: is_armed_def px4_hdr_fields)
  have quiet: "current_messages ((usleep px4_hdr zero_then_negative ^^ k) new_interface) = zero_messages" for k
    using no_ingest_funpow [where e = zero_then_negative and h = px4_hdr and k = k and w = new_interface]
    by (simp add: zero_then_negative_fields new_interface_fields)
  have off1: "\<not> fst (is_in_offboard_mode px4_hdr ((usleep px4_hdr zero_then_confirmed ^^ Suc 0) new_interface))"
    and off2: "fst (is_in_offboard_mode px4_hdr ((usleep px4_hdr zero_then_confirmed ^^ Suc (Suc 0)) new_interface))"
    unfolding off zero_then_confirmed_cache by (simp_all add: zero_messages_fields)
  have arm0: "\<not> is_armed px4_hdr ((usleep px4_hdr zero_then_confirmed ^^ 0) new_interface)"
    and arm1: "\<not> is_armed px4_hdr ((usleep px4_hdr zero_then_confirmed ^^ Suc 0) new_interface)"
    and arm2: "is_armed px4_hdr ((usleep px4_hdr zero_then_confirmed ^^ Suc (Suc 0)) new_interface)"
    unfolding arm zero_then_confirmed_cache by (simp_all add: zero_messages_fields)
  have noff: "\<not> fst (is_in_offboard_mode px4_hdr ((usleep px4_hdr zero_then_negative ^^ k) new_interface))"
    and narm: "\<not> is_armed px4_hdr ((usleep px4_hdr zero_then_negative ^^ k) new_interface)" for k
    unfolding off arm quiet by (simp_all add: zero_messages_fields)
  have len: "length (port_written new_interface) = 0" by (simp add: new_interface_fields)
  have a: "fst (enable_offboard_control px4_hdr zero_then_confirmed new_interface) = Returned \<and>
    port_written (snd (enable_offboard_control px4_hdr zero_then_confirmed new_interface)) =
      port_written new_interface @
      replicate (Suc 1) (command_message px4_hdr new_interface (MAV_CMD_NAV_GUIDED_ENABLE px4_hdr) True)"
  proof (rule command_write_results
      [where w = new_interface and j = 1 and e = zero_then_confirmed and h = px4_hdr,
       THEN conjunct1, THEN mp], intro conjI)
    show "\<forall>i<1. \<not> fst (is_in_offboard_mode px4_hdr ((usleep px4_hdr zero_then_confirmed ^^ Suc i) new_interface))"
      using off1 by simp
    show "fst (is_in_offboard_mode px4_hdr ((usleep px4_hdr zero_then_confirmed ^^ Suc 1) new_interface))"
      using off2 by simp
  qed (simp_all add: new_interface_fields zero_then_confirmed_fields)
  have b: "fst (vehicle_armed px4_hdr zero_then_confirmed new_interface) = Returned \<and>
    port_written (snd (vehicle_armed px4_hdr zero_then_confirmed new_interface)) =
      port_written new_interface @
      replicate 2 (command_message px4_hdr new_interface (MAV_CMD_COMPONENT_ARM_DISARM px4_hdr) True)"
  proof (rule command_write_results
      [where w = new_interface and j = 2 and e = zero_then_confirmed and h = px4_hdr,
       THEN conjunct2, THEN conjunct2, THEN conjunct1, THEN mp], intro conjI)
    show "\<forall>i<2. \<not> is_armed px4_hdr ((usleep px4_hdr zero_then_confirmed ^^ i) new_interface)"
      using arm0 arm1 by (auto dest!: less_2_cases)
    show "is_armed px4_hdr ((usleep px4_hdr zero_then_confirmed ^^ 2) new_interface)"
      using arm2 by (simp add: numeral_2_eq_2)
  qed (simp_all add: new_interface_fields zero_then_confirmed_fields)
  have c: "fst (enable_offboard_control px4_hdr zero_then_negative new_interface) = Thrown EXIT_FAILURE \<and>
    port_written (snd (enable_offboard_control px4_hdr zero_then_negative new_interface)) =
      port_written new_interface @
      replicate (Suc 1) (command_message px4_hdr new_interface (MAV_CMD_NAV_GUIDED_ENABLE px4_hdr) True) \<and>
    last (printed_lines (snd (enable_offboard_control px4_hdr zero_then_negative new_interface))) =
      (Stdout, ''Offboard Command Send failed!\<newline>'', [])"
  proof (rule command_write_results
      [where w = new_interface and j = 1 and e = zero_then_negative and h = px4_hdr,
       THEN conjunct2, THEN conjunct1, THEN mp], intro conjI)
    show "\<forall>i<1. \<not> fst (is_in_offboard_mode px4_hdr ((usleep px4_hdr zero_then_negative ^^ Suc i) new_interface))"
      using noff by blast
  qed (simp_all add: new_interface_fields zero_then_negative_fields)
  have d: "fst (vehicle_armed px4_hdr zero_then_negative new_interface) = Thrown EXIT_FAILURE \<and>
    port_written (snd (vehicle_armed px4_hdr zero_then_negative new_interface)) =
      port_written new_interface @
      replicate (Suc 1) (command_message px4_hdr new_interface (MAV_CMD_COMPONENT_ARM_DISARM px4_hdr) True) \<and>
    last (printed_lines (snd (vehicle_armed px4_hdr zero_then_negative new_interface))) =
      (Stdout, ''Armed Command Send failed!\<newline>'', [])"
  proof (rule command_write_results
      [where w = new_interface and j = 1 and e = zero_then_negative and h = px4_hdr,
       THEN conjunct2, THEN conjunct2, THEN conjunct2, THEN mp], intro conjI)
    show "\<forall>i\<le>1. \<not> is_armed px4_hdr ((usleep px4_hdr zero_then_negative ^^ i) new_interface)"
      using narm by blast
  qed (simp_all add: new_interface_fields zero_then_negative_fields)
  show ?thesis using a b c d
    by (simp add: new_interface_fields zero_then_negative_fields zero_then_confirmed_fields)
qed

subsection \<open>Arming\<close>

text \<open>
  C2. If \<^verbatim>\<open>is_armed\<close> answers no at each of the 50 checks and the 50 writes return a positive
  byte count, \<^verbatim>\<open>vehicle_armed\<close> hands exactly 50 arm commands to the port and throws
  \<^verbatim>\<open>EXIT_FAILURE\<close>. If \<^verbatim>\<open>is_armed\<close> first answers yes at the check after \<open>j\<close> sleeps, with
  \<open>j\<close> below 50 and no negative byte count before, the operation stops there: it has
  written \<open>j\<close> commands, writes none at that check, and returns without throwing.
  Whatever the port and the cache do, it never writes more than 50 commands.
\<close>

theorem vehicle_armed_retry_ceiling:
  "((\<forall>k<50. \<not> is_armed h ((usleep h e ^^ k) w)) \<and>
    (\<forall>k<50. 0 < port_write e (length (port_written w) + k)) \<longrightarrow>
    fst (vehicle_armed h e w) = Thrown EXIT_FAILURE \<and>
    port_written (snd (vehicle_armed h e w)) =
      port_written w @ replicate 50 (command_message h w (MAV_CMD_COMPONENT_ARM_DISARM h) True)) \<and>
   (j < 50 \<and> (\<forall>k<j. \<not> is_armed h ((usleep h e ^^ k) w)) \<and>
    (\<forall>k<j. 0 \<le> port_write e (length (port_written w) + k)) \<and>
    is_armed h ((usleep h e ^^ j) w) \<longrightarrow>
    fst (vehicle_armed h e w) = Returned \<and>
    port_written (snd (vehicle_armed h e w)) =
      port_written w @ replicate j (command_message h w (MAV_CMD_COMPONENT_ARM_DISARM h) True)) \<and>
   length (port_written (snd (vehicle_armed h e w))) \<le> length (port_written w) + 50"
proof (intro conjI impI; (elim conjE)?)
  assume never: "\<forall>k<50. \<not> is_armed h ((usleep h e ^^ k) w)"
    and pos: "\<forall>k<50. 0 < port_write e (length (port_written w) + k)"
  from never have "\<forall>i<50. \<not> armed_reported h (cache_after h e i w)"
    unfolding armed_at .
  moreover from pos have "\<forall>i<50. 0 \<le> port_write e (length (port_written w) + i)"
    by (simp add: order_less_imp_le)
  ultimately have "\<exists>w'. vehicle_armed h e w = (Thrown EXIT_FAILURE, w') \<and>
           port_written w' =
             port_written w @ replicate 50 (command_message h w (MAV_CMD_COMPONENT_ARM_DISARM h) True) \<and>
           printed_lines w' =
             printed_lines w @ [(Stdout, ''Switch Vehicle to Armed...\<newline>'', []),
                                (Stdout, ''Armed failed!\<newline>'', [])]"
    by (intro vehicle_armed_exhaust)
  then show "fst (vehicle_armed h e w) = Thrown EXIT_FAILURE"
    and "port_written (snd (vehicle_armed h e w)) =
      port_written w @ replicate 50 (command_message h w (MAV_CMD_COMPONENT_ARM_DISARM h) True)"
    by auto
next
  assume "j < 50" "\<forall>k<j. \<not> is_armed h ((usleep h e ^^ k) w)"
    "\<forall>k<j. 0 \<le> port_write e (length (port_written w) + k)"
    "is_armed h ((usleep h e ^^ j) w)"
  then have "\<exists>w'. vehicle_armed h e w = (Returned, w') \<and>
           port_written w' =
             port_written w @ replicate j (command_message h w (MAV_CMD_COMPONENT_ARM_DISARM h) True) \<and>
           printed_lines w' =
             printed_lines w @ [(Stdout, ''Switch Vehicle to Armed...\<newline>'', [])] @
             (if 0 < j \<and> port_write e (length (port_written w) + (j - 1)) = 0
              then [(Stderr, ''Error: armed failed, could not write message\<newline>'', [])] else []) @
             [(Stdout, ''\<newline>'', [])]"
    unfolding armed_at by (intro vehicle_armed_confirm)
  then show "fst (vehicle_armed h e w) = Returned"
    and "port_written (snd (vehicle_armed h e w)) =
      port_written w @ replicate j (command_message h w (MAV_CMD_COMPONENT_ARM_DISARM h) True)"
    by auto
next
  show "length (port_written (snd (vehicle_armed h e w))) \<le> length (port_written w) + 50"
    by (rule vehicle_armed_bound)
qed

lemma armed_at_third_check_fields:
  "port_write armed_at_third_check k = 1"
  "ingest armed_at_third_check k = (if k = 1 then [(heartbeat_frame 1 50 0 4, 5000000)] else [])"
  "quit armed_at_third_check k = False"
  by (simp_all add: armed_at_third_check_def quiet_env_def)

lemma armed_at_third_check_cache:
  "current_messages ((usleep px4_hdr armed_at_third_check ^^ 0) new_interface) = zero_messages"
  "current_messages ((usleep px4_hdr armed_at_third_check ^^ Suc 0) new_interface) = zero_messages"
  "hb_system_status (heartbeat (current_messages
     ((usleep px4_hdr armed_at_third_check ^^ Suc (Suc 0)) new_interface))) = 4"
  by (simp_all add: usleep_cache new_interface_fields armed_at_third_check_fields)
     (simp_all add: read_thread_writes_def handle_message_def heartbeat_frame_def px4_hdr_def
        Let_def le32_def u32_at_def byte_at_def)

theorem vehicle_armed_retry_ceiling_witness:
  "\<not> is_armed px4_hdr new_interface \<and> port_write quiet_env 49 = 1 \<and>
   fst (vehicle_armed px4_hdr quiet_env new_interface) = Thrown EXIT_FAILURE \<and>
   length (port_written (snd (vehicle_armed px4_hdr quiet_env new_interface))) = 50 \<and>
   is_armed px4_hdr ((usleep px4_hdr armed_at_third_check ^^ 2) new_interface) \<and>
   fst (vehicle_armed px4_hdr armed_at_third_check new_interface) = Returned \<and>
   length (port_written (snd (vehicle_armed px4_hdr armed_at_third_check new_interface))) = 2"
proof -
  have arm: "is_armed px4_hdr w \<longleftrightarrow> hb_system_status (heartbeat (current_messages w)) = 4" for w
    by (auto simp: is_armed_def px4_hdr_fields)
  have quiet: "current_messages ((usleep px4_hdr quiet_env ^^ k) new_interface) = zero_messages" for k
    using no_ingest_funpow [where e = quiet_env and h = px4_hdr and k = k and w = new_interface]
    by (simp add: quiet_env_fields new_interface_fields)
  have never: "\<not> is_armed px4_hdr ((usleep px4_hdr quiet_env ^^ k) new_interface)" for k
    unfolding arm quiet by (simp add: zero_messages_fields)
  have arm0: "\<not> is_armed px4_hdr ((usleep px4_hdr armed_at_third_check ^^ 0) new_interface)"
    and arm1: "\<not> is_armed px4_hdr ((usleep px4_hdr armed_at_third_check ^^ Suc 0) new_interface)"
    and arm2: "is_armed px4_hdr ((usleep px4_hdr armed_at_third_check ^^ Suc (Suc 0)) new_interface)"
    unfolding arm armed_at_third_check_cache by (simp_all add: zero_messages_fields)
  have a: "fst (vehicle_armed px4_hdr quiet_env new_interface) = Thrown EXIT_FAILURE \<and>
    port_written (snd (vehicle_armed px4_hdr quiet_env new_interface)) =
      port_written new_interface @
      replicate 50 (command_message px4_hdr new_interface (MAV_CMD_COMPONENT_ARM_DISARM px4_hdr) True)"
  proof (rule vehicle_armed_retry_ceiling
      [where w = new_interface and e = quiet_env and h = px4_hdr and j = 0,
       THEN conjunct1, THEN mp], intro conjI)
    show "\<forall>k<50. \<not> is_armed px4_hdr ((usleep px4_hdr quiet_env ^^ k) new_interface)"
      using never by blast
  qed (simp add: quiet_env_fields)
  have b: "fst (vehicle_armed px4_hdr armed_at_third_check new_interface) = Returned \<and>
    port_written (snd (vehicle_armed px4_hdr armed_at_third_check new_interface)) =
      port_written new_interface @
      replicate 2 (command_message px4_hdr new_interface (MAV_CMD_COMPONENT_ARM_DISARM px4_hdr) True)"
  proof (rule vehicle_armed_retry_ceiling
      [where w = new_interface and e = armed_at_third_check and h = px4_hdr and j = 2,
       THEN conjunct2, THEN conjunct1, THEN mp], intro conjI)
    show "\<forall>k<2. \<not> is_armed px4_hdr ((usleep px4_hdr armed_at_third_check ^^ k) new_interface)"
      using arm0 arm1 by (auto dest!: less_2_cases)
    show "is_armed px4_hdr ((usleep px4_hdr armed_at_third_check ^^ 2) new_interface)"
      using arm2 by (simp add: numeral_2_eq_2)
  qed (simp_all add: armed_at_third_check_fields)
  show ?thesis using a b never [of 0] arm2
    by (simp add: new_interface_fields quiet_env_fields numeral_2_eq_2)
qed

subsection \<open>Leaving offboard mode\<close>

text \<open>
  C10. When \<^verbatim>\<open>control_status\<close> is 1, \<^verbatim>\<open>disable_offboard_control\<close> hands exactly one message
  to the port, the encoding of the disable command: a \<^verbatim>\<open>COMMAND_LONG\<close> with the command
  \<^verbatim>\<open>MAV_CMD_NAV_GUIDED_ENABLE\<close>, \<^verbatim>\<open>param1\<close> 0.0, the other parameters 0, the confirmation 1
  and the ids of the interface as targets. It then clears \<^verbatim>\<open>control_status\<close> for every byte count other than
  0, the negative ones included; only for the count 0 does it leave \<^verbatim>\<open>control_status\<close> at 1
  and print the error line.
\<close>

theorem disable_offboard_control_nonzero_clears:
  assumes "control_status w = 1"
  shows "port_written (disable_offboard_control h e w) =
           port_written w @
           [mavlink_msg_command_long_encode h
              (word_of_int (system_id w)) (word_of_int (companion_id w))
              \<lparr>cmd_param1 = 0, cmd_param2 = 0, cmd_param3 = 0, cmd_param4 = 0,
               cmd_param5 = 0, cmd_param6 = 0, cmd_param7 = 0,
               cmd_command = MAV_CMD_NAV_GUIDED_ENABLE h,
               cmd_target_system = word_of_int (system_id w),
               cmd_target_component = word_of_int (autopilot_id w),
               cmd_confirmation = 1\<rparr>] \<and>
         control_status (disable_offboard_control h e w) =
           (if port_write e (length (port_written w)) = 0 then 1 else 0) \<and>
         printed_lines (disable_offboard_control h e w) =
           printed_lines w @ [(Stdout, ''DISABLE OFFBOARD MODE\<newline>'', [])] @
           (if port_write e (length (port_written w)) = 0
            then [(Stderr, ''Error: off-board mode not set, could not write message\<newline>'', [])]
            else []) @
           [(Stdout, ''\<newline>'', [])]"
  using assms
  by (simp add: disable_offboard_control_def toggle_offboard_control_def serial_write_def
        printf_def fprintf_stderr_def command_message_def command_long_def float_of_bool_def
        Let_def)

theorem disable_offboard_control_nonzero_clears_witness:
  "control_status engaged = 1 \<and> port_write first_write_fails 0 = - 1 \<and>
   port_written (disable_offboard_control px4_hdr first_write_fails engaged) =
     [\<lparr>msg_sysid = 0, msg_compid = 0, msg_msgid = 76,
       msg_payload =
         [0, 0, 0, 0,
          0, 0, 0, 0, 0, 0, 0, 0, 0, 0, 0, 0, 0, 0, 0, 0, 0, 0, 0, 0, 0, 0, 0, 0,
          92, 0, 0, 0, 1]\<rparr>] \<and>
   control_status (disable_offboard_control px4_hdr first_write_fails engaged) = 0 \<and>
   control_status (disable_offboard_control px4_hdr
     (quiet_env\<lparr>port_write := (\<lambda>k. 0)\<rparr>) engaged) = 1"
proof -
  have c: "control_status engaged = 1" and p: "port_written engaged = []"
    and i: "system_id engaged = 0" "autopilot_id engaged = 0" "companion_id engaged = 0"
    by (simp_all add: engaged_def new_interface_fields)
  have g: "MAV_CMD_NAV_GUIDED_ENABLE px4_hdr = 92" by (simp add: px4_hdr_def)
  have l: "le32 (0 :: 32 word) = [0, 0, 0, 0]" by (simp add: le32_def)
  from disable_offboard_control_nonzero_clears [OF c, of px4_hdr first_write_fails]
    disable_offboard_control_nonzero_clears [OF c, of px4_hdr "quiet_env\<lparr>port_write := (\<lambda>k. 0)\<rparr>"]
  show ?thesis by (simp add: c p i g px4_command_long_frame l first_write_fails_fields)
qed

subsection \<open>Yaw after position or velocity\<close>


lemma word_and_eq_or_iff: "(a AND b = a OR b) \<longleftrightarrow> a = b" for a b :: "'a::len word"
  by (auto simp: bit_eq_iff bit_simps)


subsection \<open>The setpoint store\<close>

lemma write_setpoint_fields:
  "current_setpoint (write_setpoint h e w) = current_setpoint w"
  "system_id (write_setpoint h e w) = system_id w"
  "autopilot_id (write_setpoint h e w) = autopilot_id w"
  "companion_id (write_setpoint h e w) = companion_id w"
  "control_status (write_setpoint h e w) = control_status w"
  "time_to_exit (write_setpoint h e w) = time_to_exit w"
  "current_messages (write_setpoint h e w) = current_messages w"
  "slept (write_setpoint h e w) = slept w"
  "port_written (write_setpoint h e w) =
     port_written w @
     [mavlink_msg_set_position_target_local_ned_encode h
        (word_of_int (system_id w)) (word_of_int (companion_id w)) (stamped_setpoint e w)]"
  by (simp_all add: write_setpoint_def write_message_def serial_write_def Let_def)

lemma usleep_fields:
  "current_setpoint (usleep h e w) = current_setpoint w"
  "system_id (usleep h e w) = system_id w"
  "autopilot_id (usleep h e w) = autopilot_id w"
  "companion_id (usleep h e w) = companion_id w"
  "control_status (usleep h e w) = control_status w"
  "port_written (usleep h e w) = port_written w"
  "printed_lines (usleep h e w) = printed_lines w"
  "writing_status (usleep h e w) = writing_status w"
  by (simp_all add: usleep_def)

lemma current_setpoint_writes:
  "current_setpoint (fold (write_setpoint h) es w) = current_setpoint w"
  by (induction es arbitrary: w) (simp_all add: write_setpoint_fields)

lemma current_setpoint_write_thread_loop:
  "current_setpoint (snd (write_thread_loop h e n w)) = current_setpoint w"
  by (induction n arbitrary: w) (simp_all add: write_setpoint_fields usleep_fields)

lemma enable_loop_setpoint:
  "current_setpoint (snd (enable_loop h e n w)) = current_setpoint w"
proof (induction n arbitrary: w)
  case 0
  show ?case by simp
next
  case (Suc n)
  define w2 where
    "w2 = snd (is_in_offboard_mode h (usleep h e (snd (toggle_offboard_control h e True w))))"
  have t: "current_setpoint (snd (toggle_offboard_control h e True w)) = current_setpoint w"
    by (simp add: toggle_offboard_control_def serial_write_def)
  have w2: "current_setpoint w2 = current_setpoint w"
    by (simp add: w2_def is_in_offboard_mode_def Let_def usleep_fields t)
  from Suc.IH [of w2] show ?case
    by (simp add: split_beta Let_def w2_def [symmetric] w2 t)
qed

lemma armed_loop_setpoint:
  "current_setpoint (snd (snd (snd (armed_loop h e n success w)))) = current_setpoint w"
proof (induction n arbitrary: w success)
  case 0
  show ?case by simp
next
  case (Suc n)
  define w2 where "w2 = usleep h e (snd (toggle_arm_disarm h e True w))"
  have t: "current_setpoint (snd (toggle_arm_disarm h e True w)) = current_setpoint w"
    by (simp add: toggle_arm_disarm_def serial_write_def)
  have w2: "current_setpoint w2 = current_setpoint w"
    by (simp add: w2_def usleep_fields t)
  from Suc.IH [of "fst (toggle_arm_disarm h e True w)" w2] show ?case
    by (simp add: split_beta Let_def w2_def [symmetric] w2 t)
qed

lemma mode_operations_setpoint:
  "current_setpoint (snd (enable_offboard_control h e w)) = current_setpoint w"
  "current_setpoint (snd (vehicle_armed h e w)) = current_setpoint w"
  "current_setpoint (disable_offboard_control h e w) = current_setpoint w"
  "current_setpoint (vehicle_disarm h e w) = current_setpoint w"
proof -
  define w0 where "w0 = printf ''Enable Offboaed Mode...\<newline>'' [] w"
  obtain r w1 where r: "enable_loop h e 50 w0 = (r, w1)"
    by (cases "enable_loop h e 50 w0")
  have "current_setpoint (snd (enable_loop h e 50 w0)) = current_setpoint w0"
    by (rule enable_loop_setpoint)
  then have w1: "current_setpoint w1 = current_setpoint w"
    unfolding r by (simp add: w0_def)
  show "current_setpoint (snd (enable_offboard_control h e w)) = current_setpoint w"
    by (simp add: enable_offboard_control_def w0_def [symmetric] r w1 split: outcome.splits)
  define v0 where "v0 = printf ''Switch Vehicle to Armed...\<newline>'' [] w"
  obtain q a s v1 where q: "armed_loop h e 50 (- 1) v0 = (q, a, s, v1)"
    by (metis prod_cases4)
  have "current_setpoint (snd (snd (snd (armed_loop h e 50 (- 1) v0)))) = current_setpoint v0"
    by (rule armed_loop_setpoint)
  then have v1: "current_setpoint v1 = current_setpoint w"
    unfolding q by (simp add: v0_def)
  show "current_setpoint (snd (vehicle_armed h e w)) = current_setpoint w"
    by (simp add: vehicle_armed_def v0_def [symmetric] q v1 split: outcome.splits)
  show "current_setpoint (disable_offboard_control h e w) = current_setpoint w"
    and "current_setpoint (vehicle_disarm h e w) = current_setpoint w"
    by (simp_all add: disable_offboard_control_def vehicle_disarm_def toggle_offboard_control_def
          toggle_arm_disarm_def serial_write_def split_beta Let_def)
qed

lemma read_messages_loop_setpoint:
  "read_messages_loop h reads received_all this w = Some (w1, rest) \<Longrightarrow>
   current_setpoint w1 = current_setpoint w"
proof (induction reads arbitrary: received_all this w)
  case Nil
  then show ?case by (simp split: if_splits)
next
  case (Cons r reads)
  show ?case
  proof (cases "\<not> received_all \<and> \<not> time_to_exit w")
    case False
    with Cons.prems show ?thesis by auto
  next
    case True
    define s where "s = (case r of None \<Rightarrow> (this, current_messages w)
        | Some (message, now) \<Rightarrow> handle_message h message now this (current_messages w))"
    from Cons.prems True
    have "read_messages_loop h reads (ts_heartbeat (fst s) \<noteq> 0 \<and> ts_sys_status (fst s) \<noteq> 0)
            (fst s) (w\<lparr>current_messages := snd s\<rparr>) = Some (w1, rest)"
      by (simp add: s_def [symmetric] split_beta)
    from Cons.IH [OF this] show ?thesis by simp
  qed
qed

lemma perform_setpoint: "current_setpoint (perform h c w) = current_setpoint w"
proof (cases c)
  case (Read_messages reads)
  show ?thesis
  proof (cases "read_messages h reads w")
    case None
    then show ?thesis by (simp add: Read_messages)
  next
    case (Some r)
    obtain w1 rest where r: "r = (w1, rest)" by (cases r)
    from Some have "current_setpoint w1 = current_setpoint w"
      unfolding r read_messages_def by (rule read_messages_loop_setpoint)
    then show ?thesis by (simp add: Read_messages Some r)
  qed
qed (simp_all add: write_setpoint_fields usleep_fields mode_operations_setpoint
       current_setpoint_write_thread_loop is_in_offboard_mode_def Let_def)

lemma fold_perform_setpoint:
  "current_setpoint (fold (perform h) calls w) = current_setpoint w"
  by (induction calls arbitrary: w) (simp_all add: perform_setpoint)

text \<open>
  C8, as stated, fails. \<^verbatim>\<open>write_thread\<close> assigns its first setpoint to the store whatever the
  store holds. A setpoint stored with \<^verbatim>\<open>update_setpoint\<close> before \<^verbatim>\<open>start\<close> is gone when \<^verbatim>\<open>start\<close>
  returns: the store then holds the first setpoint of the thread, with the velocity 0. In
  the script \<open>slow_writer\<close>, \<^verbatim>\<open>start\<close> returns when the write thread has only set
  \<^verbatim>\<open>writing_status\<close> to 2; a setpoint stored with \<^verbatim>\<open>update_setpoint\<close> after that return is
  replaced by the next three steps of the thread. In neither run is \<^verbatim>\<open>update_setpoint\<close>
  called a second time.
\<close>

theorem setpoint_store_overwritten_counterexample:
  "sp_vx moving_setpoint = 0x3F800000 \<and>
   current_setpoint (update_setpoint moving_setpoint new_interface) = moving_setpoint \<and>
   fst (start px4_hdr one_sender 5 zero_setpoint
          (update_setpoint moving_setpoint new_interface)) = Returned \<and>
   sp_vx (current_setpoint (snd (start px4_hdr one_sender 5 zero_setpoint
          (update_setpoint moving_setpoint new_interface)))) = 0 \<and>
   current_setpoint (snd (start px4_hdr one_sender 5 zero_setpoint
          (update_setpoint moving_setpoint new_interface))) \<noteq> moving_setpoint \<and>
   fst (start px4_hdr slow_writer 5 zero_setpoint new_interface) = Returned \<and>
   writing_status (snd (start px4_hdr slow_writer 5 zero_setpoint new_interface)) = 2 \<and>
   current_setpoint (update_setpoint moving_setpoint
          (snd (start px4_hdr slow_writer 5 zero_setpoint new_interface))) = moving_setpoint \<and>
   sp_vx (current_setpoint (write_thread_steps px4_hdr slow_writer zero_setpoint 1 3
          (update_setpoint moving_setpoint
             (snd (start px4_hdr slow_writer 5 zero_setpoint new_interface))))) = 0 \<and>
   current_setpoint (write_thread_steps px4_hdr slow_writer zero_setpoint 1 3
          (update_setpoint moving_setpoint
             (snd (start px4_hdr slow_writer 5 zero_setpoint new_interface)))) \<noteq>
     moving_setpoint"
proof -
  have m: "sp_vx moving_setpoint = 0x3F800000"
    by (simp add: moving_setpoint_def set_velocity_def)
  have u: "current_setpoint (update_setpoint moving_setpoint w) = moving_setpoint" for w
    by (simp add: update_setpoint_def set_setpoint_sendstatus_def)
  have r1: "fst (start px4_hdr one_sender 5 zero_setpoint
          (update_setpoint moving_setpoint new_interface)) = Returned"
    by code_simp
  have v1: "sp_vx (current_setpoint (snd (start px4_hdr one_sender 5 zero_setpoint
          (update_setpoint moving_setpoint new_interface)))) = 0"
    by code_simp
  have r2: "fst (start px4_hdr slow_writer 5 zero_setpoint new_interface) = Returned"
    by code_simp
  have s2: "writing_status (snd (start px4_hdr slow_writer 5 zero_setpoint new_interface)) = 2"
    by code_simp
  have v2: "sp_vx (current_setpoint (write_thread_steps px4_hdr slow_writer zero_setpoint 1 3
          (update_setpoint moving_setpoint
             (snd (start px4_hdr slow_writer 5 zero_setpoint new_interface))))) = 0"
    by code_simp
  have n1: "current_setpoint (snd (start px4_hdr one_sender 5 zero_setpoint
          (update_setpoint moving_setpoint new_interface))) \<noteq> moving_setpoint"
    using v1 m by auto
  have n2: "current_setpoint (write_thread_steps px4_hdr slow_writer zero_setpoint 1 3
          (update_setpoint moving_setpoint
             (snd (start px4_hdr slow_writer 5 zero_setpoint new_interface)))) \<noteq>
     moving_setpoint"
    using v2 m by auto
  from m u r1 v1 n1 r2 s2 v2 n2 show ?thesis by blast
qed

text \<open>
  C8, amended. After \<^verbatim>\<open>update_setpoint(S)\<close> the stored setpoint is \<open>S\<close>, and it still is after
  any sequence of the other operations, whatever their surroundings do: calls of
  \<^verbatim>\<open>write_setpoint\<close>, sleeps with the read thread at work, calls of \<^verbatim>\<open>read_messages\<close>, the
  mode operations and rounds of the loop of the write thread. \<^verbatim>\<open>write_setpoint\<close> stamps the
  time and the target ids on a copy: what it hands to the port is the encoding of the
  stamped copy, and the store is untouched. The one other assignment to the store is the
  second step of the start-up of the write thread, which replaces \<open>S\<close> by the first
  setpoint of the thread.
\<close>

theorem setpoint_store_kept_by_operations:
  "current_setpoint (update_setpoint S w) = S \<and>
   current_setpoint (fold (perform h) calls (update_setpoint S w)) = S \<and>
   current_setpoint (fold (write_setpoint h) es (update_setpoint S w)) = S \<and>
   current_setpoint (snd (write_thread_loop h e n (update_setpoint S w))) = S \<and>
   current_setpoint (write_setpoint h e w) = current_setpoint w \<and>
   port_written (write_setpoint h e w) =
     port_written w @
     [mavlink_msg_set_position_target_local_ned_encode h
        (word_of_int (system_id w)) (word_of_int (companion_id w)) (stamped_setpoint e w)] \<and>
   sp_target_system (stamped_setpoint e w) = word_of_int (system_id w) \<and>
   sp_target_component (stamped_setpoint e w) = word_of_int (autopilot_id w) \<and>
   sp_time_boot_ms (stamped_setpoint e w) =
     (if sp_time_boot_ms (current_setpoint w) = 0
      then boot_ms (clock e (length (port_written w)))
      else sp_time_boot_ms (current_setpoint w)) \<and>
   current_setpoint (usleep h e w) = current_setpoint w \<and>
   current_setpoint (snd (enable_offboard_control h e w)) = current_setpoint w \<and>
   current_setpoint (disable_offboard_control h e w) = current_setpoint w \<and>
   current_setpoint (snd (vehicle_armed h e w)) = current_setpoint w \<and>
   current_setpoint (vehicle_disarm h e w) = current_setpoint w \<and>
   current_setpoint (write_thread_step h e junk pc (update_setpoint S w)) =
     (if pc = 1 then initial_setpoint h junk else S) \<and>
   current_setpoint (write_thread_startup h e junk (update_setpoint S w)) =
     initial_setpoint h junk \<and>
   current_setpoint (snd (write_thread h e n junk (update_setpoint S w))) =
     initial_setpoint h junk"
proof -
  have u: "current_setpoint (update_setpoint S w) = S"
    by (simp add: update_setpoint_def set_setpoint_sendstatus_def)
  have step: "current_setpoint (write_thread_step h e junk pc (update_setpoint S w)) =
     (if pc = 1 then initial_setpoint h junk else S)"
    by (simp add: write_thread_step_def write_setpoint_fields u)
  have startup: "current_setpoint (write_thread_startup h e junk (update_setpoint S w)) =
     initial_setpoint h junk"
    by (simp add: write_thread_startup_def write_setpoint_fields Let_def)
  have thread: "current_setpoint (snd (write_thread h e n junk (update_setpoint S w))) =
     initial_setpoint h junk"
    by (simp add: write_thread_def current_setpoint_write_thread_loop startup)
  have kept: "current_setpoint (fold (perform h) calls (update_setpoint S w)) = S"
    by (simp add: fold_perform_setpoint u)
  from u step startup thread kept show ?thesis
    by (simp add: current_setpoint_writes current_setpoint_write_thread_loop
          write_setpoint_fields usleep_fields mode_operations_setpoint stamped_setpoint_def Let_def)
qed

subsection \<open>Messages of an unrecognized kind\<close>

text \<open>
  C9. A message read with success whose id has no case in the switch of \<^verbatim>\<open>read_messages\<close>
  changes nothing but the cached sender: \<^verbatim>\<open>this_timestamps\<close>, every decoded payload and
  every time stamp of the cache stay as they are, and the loop goes on with the next
  read. The handler has no error path.
\<close>

theorem unrecognized_message_dropped:
  assumes "msg_msgid message \<notin> set (recognized h)"
  shows "handle_message h message now this cm =
           (this, cm\<lparr>sysid := uint (msg_sysid message), compid := uint (msg_compid message)\<rparr>) \<and>
         time_stamps (snd (handle_message h message now this cm)) = time_stamps cm \<and>
         heartbeat (snd (handle_message h message now this cm)) = heartbeat cm \<and>
         sys_status (snd (handle_message h message now this cm)) = sys_status cm \<and>
         battery_status (snd (handle_message h message now this cm)) = battery_status cm \<and>
         radio_status (snd (handle_message h message now this cm)) = radio_status cm \<and>
         local_position_ned (snd (handle_message h message now this cm)) = local_position_ned cm \<and>
         global_position_int (snd (handle_message h message now this cm)) = global_position_int cm \<and>
         position_target_local_ned (snd (handle_message h message now this cm)) =
           position_target_local_ned cm \<and>
         position_target_global_int (snd (handle_message h message now this cm)) =
           position_target_global_int cm \<and>
         highres_imu (snd (handle_message h message now this cm)) = highres_imu cm \<and>
         attitude (snd (handle_message h message now this cm)) = attitude cm \<and>
         vfr_hud (snd (handle_message h message now this cm)) = vfr_hud cm \<and>
         read_messages_loop h (Some (message, now) # rest) False this (w\<lparr>time_to_exit := False\<rparr>) =
           read_messages_loop h rest (ts_heartbeat this \<noteq> 0 \<and> ts_sys_status this \<noteq> 0) this
             (w\<lparr>time_to_exit := False,
                current_messages := (current_messages w)
                  \<lparr>sysid := uint (msg_sysid message), compid := uint (msg_compid message)\<rparr>\<rparr>)"
proof -
  have h: "handle_message h message now this cm =
      (this, cm\<lparr>sysid := uint (msg_sysid message), compid := uint (msg_compid message)\<rparr>)" for cm
    using assms by (simp add: handle_message_def recognized_def Let_def)
  show ?thesis by (simp add: h)
qed

theorem unrecognized_message_dropped_witness:
  "msg_msgid (empty_frame 7 9 999) \<noteq> MAVLINK_MSG_ID_HEARTBEAT px4_hdr \<and>
   handle_message px4_hdr (empty_frame 7 9 999) 5000000 no_time_stamps zero_messages =
     (no_time_stamps, zero_messages\<lparr>sysid := 7, compid := 9\<rparr>) \<and>
   read_messages px4_hdr [Some (empty_frame 7 9 999, 5000000)] new_interface = None"
proof -
  have n: "msg_msgid (empty_frame 7 9 999) \<notin> set (recognized px4_hdr)"
    by (simp add: empty_frame_def recognized_def px4_hdr_def)
  have f: "msg_sysid (empty_frame 7 9 999) = 7" "msg_compid (empty_frame 7 9 999) = 9"
    "msg_msgid (empty_frame 7 9 999) = 999"
    by (simp_all add: empty_frame_def)
  have t: "new_interface\<lparr>time_to_exit := False\<rparr> = new_interface"
    by (simp add: new_interface_def Autopilot_Interface_init_def)
  have z: "ts_heartbeat no_time_stamps = 0" by (simp add: no_time_stamps_def)
  note u = unrecognized_message_dropped
    [OF n, of 5000000 no_time_stamps zero_messages "[]" new_interface, unfolded t f]
  have a: "handle_message px4_hdr (empty_frame 7 9 999) 5000000 no_time_stamps zero_messages =
     (no_time_stamps, zero_messages\<lparr>sysid := 7, compid := 9\<rparr>)"
    using u by simp
  have "read_messages_loop px4_hdr [Some (empty_frame 7 9 999, 5000000)] False no_time_stamps
          new_interface =
        read_messages_loop px4_hdr [] (ts_heartbeat no_time_stamps \<noteq> 0 \<and>
            ts_sys_status no_time_stamps \<noteq> 0) no_time_stamps
          (new_interface\<lparr>current_messages :=
             (current_messages new_interface)\<lparr>sysid := uint (7 :: 8 word), compid := uint (9 :: 8 word)\<rparr>\<rparr>)"
    using u by blast
  then have b: "read_messages px4_hdr [Some (empty_frame 7 9 999, 5000000)] new_interface = None"
    by (simp add: read_messages_def z new_interface_fields del: read_messages_loop.simps(2))
  show ?thesis using a b by (simp add: f px4_hdr_fields)
qed

subsection \<open>The first setpoint of the write thread\<close>

text \<open>
  C5, as stated, fails. \<^verbatim>\<open>write_thread\<close> builds the mask with \<^verbatim>\<open>&\<close>, not with \<^verbatim>\<open>|\<close>. With the
  constants of \<open>px4_hdr\<close> the installed mask is \<open>0b0000010111000111\<close>, and the OR of the two
  constants is \<open>0b0000110111111111\<close>.
\<close>

theorem initial_setpoint_mask_counterexample:
  "sp_type_mask (current_setpoint (write_thread_startup px4_hdr quiet_env zero_setpoint new_interface)) =
     0b0000010111000111 \<and>
   MAVLINK_MSG_SET_POSITION_TARGET_LOCAL_NED_VELOCITY px4_hdr OR
   MAVLINK_MSG_SET_POSITION_TARGET_LOCAL_NED_YAW_RATE px4_hdr = 0b0000110111111111 \<and>
   sp_type_mask (current_setpoint (write_thread_startup px4_hdr quiet_env zero_setpoint new_interface)) \<noteq>
     (MAVLINK_MSG_SET_POSITION_TARGET_LOCAL_NED_VELOCITY px4_hdr OR
      MAVLINK_MSG_SET_POSITION_TARGET_LOCAL_NED_YAW_RATE px4_hdr)"
  by (simp add: write_thread_startup_def write_setpoint_fields initial_setpoint_def px4_hdr_def Let_def)

lemma stamped_setpoint_initial:
  assumes "current_setpoint w1 = initial_setpoint h junk"
    and "system_id w1 = system_id w" and "autopilot_id w1 = autopilot_id w"
    and "length (port_written w1) = length (port_written w) + a"
  shows "stamped_setpoint e w1 =
     (initial_setpoint h junk)
       \<lparr>sp_time_boot_ms :=
          (if sp_time_boot_ms junk = 0
           then boot_ms (clock e (length (port_written w) + a))
           else sp_time_boot_ms junk),
        sp_target_system := word_of_int (system_id w),
        sp_target_component := word_of_int (autopilot_id w)\<rparr>"
  by (simp add: stamped_setpoint_def assms Let_def initial_setpoint_def)

lemma write_thread_loop_written:
  assumes "current_setpoint w1 = initial_setpoint h junk"
    and "system_id w1 = system_id w" and "autopilot_id w1 = autopilot_id w"
    and "companion_id w1 = companion_id w"
    and "port_written w1 =
      port_written w @
      map (\<lambda>i. mavlink_msg_set_position_target_local_ned_encode h
                 (word_of_int (system_id w)) (word_of_int (companion_id w))
                 ((initial_setpoint h junk)
                    \<lparr>sp_time_boot_ms :=
                       (if sp_time_boot_ms junk = 0
                        then boot_ms (clock e (length (port_written w) + i))
                        else sp_time_boot_ms junk),
                     sp_target_system := word_of_int (system_id w),
                     sp_target_component := word_of_int (autopilot_id w)\<rparr>)) [0..<a]"
      (is "_ = _ @ map ?F _")
  shows "\<exists>m. m \<le> n \<and>
           port_written (snd (write_thread_loop h e n w1)) = port_written w @ map ?F [0..<a + m]"
  using assms
proof (induction n arbitrary: w1 a)
  case 0
  have "(0::nat) \<le> 0 \<and>
      port_written (snd (write_thread_loop h e 0 w1)) = port_written w @ map ?F [0..<a + 0]"
    using "0.prems"(5) by simp
  then show ?case ..
next
  case (Suc n)
  show ?case
  proof (cases "time_to_exit w1")
    case True
    then have "(0::nat) \<le> Suc n \<and>
        port_written (snd (write_thread_loop h e (Suc n) w1)) =
          port_written w @ map ?F [0..<a + 0]"
      using Suc.prems(5) by simp
    then show ?thesis ..
  next
    case False
    define w2 where "w2 = usleep h e (write_setpoint h e w1)"
    have len: "length (port_written w1) = length (port_written w) + a"
      by (simp add: Suc.prems(5))
    have p: "port_written w2 = port_written w @ map ?F [0..<Suc a]"
      by (simp add: w2_def usleep_fields write_setpoint_fields
            stamped_setpoint_initial [OF Suc.prems(1-3) len] Suc.prems(2,4,5))
    have "\<exists>m. m \<le> n \<and>
           port_written (snd (write_thread_loop h e n w2)) =
             port_written w @ map ?F [0..<Suc a + m]"
      by (rule Suc.IH)
         (simp_all add: p, simp_all add: w2_def usleep_fields write_setpoint_fields Suc.prems)
    then obtain m where m: "m \<le> n"
      "port_written (snd (write_thread_loop h e n w2)) =
         port_written w @ map ?F [0..<Suc a + m]"
      by blast
    have "Suc m \<le> Suc n \<and>
        port_written (snd (write_thread_loop h e (Suc n) w1)) =
          port_written w @ map ?F [0..<a + Suc m]"
      using False m by (simp add: w2_def [symmetric])
    then show ?thesis ..
  qed
qed

lemma write_thread_startup_fields:
  "current_setpoint (write_thread_startup h e junk w) = initial_setpoint h junk"
  "system_id (write_thread_startup h e junk w) = system_id w"
  "autopilot_id (write_thread_startup h e junk w) = autopilot_id w"
  "companion_id (write_thread_startup h e junk w) = companion_id w"
  "control_status (write_thread_startup h e junk w) = control_status w"
  "current_messages (write_thread_startup h e junk w) = current_messages w"
  "slept (write_thread_startup h e junk w) = slept w"
  "time_to_exit (write_thread_startup h e junk w) = time_to_exit w"
  "writing_status (write_thread_startup h e junk w) = 1"
  by (simp_all add: write_thread_startup_def write_setpoint_fields Let_def)

lemma write_thread_startup_written:
  "port_written (write_thread_startup h e junk w) =
     port_written w @
     [mavlink_msg_set_position_target_local_ned_encode h
        (word_of_int (system_id w)) (word_of_int (companion_id w))
        ((initial_setpoint h junk)
           \<lparr>sp_time_boot_ms :=
              (if sp_time_boot_ms junk = 0
               then boot_ms (clock e (length (port_written w) + 0))
               else sp_time_boot_ms junk),
            sp_target_system := word_of_int (system_id w),
            sp_target_component := word_of_int (autopilot_id w)\<rparr>)]"
proof -
  define w2 where "w2 = w\<lparr>writing_status := 2, current_setpoint := initial_setpoint h junk\<rparr>"
  have "stamped_setpoint e w2 =
     (initial_setpoint h junk)
       \<lparr>sp_time_boot_ms :=
          (if sp_time_boot_ms junk = 0
           then boot_ms (clock e (length (port_written w) + 0))
           else sp_time_boot_ms junk),
        sp_target_system := word_of_int (system_id w),
        sp_target_component := word_of_int (autopilot_id w)\<rparr>"
    by (rule stamped_setpoint_initial) (simp_all add: w2_def)
  then show ?thesis
    by (simp add: write_thread_startup_def write_setpoint_fields Let_def w2_def)
qed

text \<open>
  C5, amended. On entry the write thread stores a setpoint with \<open>vx = vy = vz = 0\<close>,
  \<open>yaw_rate = 0\<close>, the frame \<^verbatim>\<open>MAV_FRAME_LOCAL_NED\<close> and, as its mask, the bitwise AND of the
  velocity constant and the yaw-rate constant, which is the OR of the two constants only
  when they are the same constant. While nothing else writes the store, it keeps that
  setpoint, and the thread hands to the port one message and then one more per round of
  its loop, \<open>m\<close> rounds of at most \<open>n\<close>. Message \<open>i\<close> encodes that setpoint with the two target
  ids stamped on; the time of the transmission is stamped on only when the time field of
  that setpoint, which the thread does not initialise, is 0, and otherwise every message
  carries the time the field happens to hold.
\<close>

theorem write_thread_initial_setpoint:
  "sp_vx (initial_setpoint h junk) = 0 \<and> sp_vy (initial_setpoint h junk) = 0 \<and>
   sp_vz (initial_setpoint h junk) = 0 \<and> sp_yaw_rate (initial_setpoint h junk) = 0 \<and>
   sp_coordinate_frame (initial_setpoint h junk) = MAV_FRAME_LOCAL_NED h \<and>
   sp_type_mask (initial_setpoint h junk) =
     MAVLINK_MSG_SET_POSITION_TARGET_LOCAL_NED_VELOCITY h AND
     MAVLINK_MSG_SET_POSITION_TARGET_LOCAL_NED_YAW_RATE h \<and>
   ((sp_type_mask (initial_setpoint h junk) =
       (MAVLINK_MSG_SET_POSITION_TARGET_LOCAL_NED_VELOCITY h OR
        MAVLINK_MSG_SET_POSITION_TARGET_LOCAL_NED_YAW_RATE h)) =
    (MAVLINK_MSG_SET_POSITION_TARGET_LOCAL_NED_VELOCITY h =
       MAVLINK_MSG_SET_POSITION_TARGET_LOCAL_NED_YAW_RATE h)) \<and>
   current_setpoint (write_thread_startup h e junk w) = initial_setpoint h junk \<and>
   current_setpoint (snd (write_thread h e n junk w)) = initial_setpoint h junk \<and>
   (\<exists>m. m \<le> n \<and>
      port_written (snd (write_thread h e n junk w)) =
        port_written w @
        map (\<lambda>i. mavlink_msg_set_position_target_local_ned_encode h
                   (word_of_int (system_id w)) (word_of_int (companion_id w))
                   ((initial_setpoint h junk)
                      \<lparr>sp_time_boot_ms :=
                         (if sp_time_boot_ms junk = 0
                          then boot_ms (clock e (length (port_written w) + i))
                          else sp_time_boot_ms junk),
                       sp_target_system := word_of_int (system_id w),
                       sp_target_component := word_of_int (autopilot_id w)\<rparr>)) [0..<Suc m])"
proof -
  define w1 where "w1 = write_thread_startup h e junk w"
  have "\<exists>m. m \<le> n \<and>
      port_written (snd (write_thread_loop h e n w1)) =
        port_written w @
        map (\<lambda>i. mavlink_msg_set_position_target_local_ned_encode h
                   (word_of_int (system_id w)) (word_of_int (companion_id w))
                   ((initial_setpoint h junk)
                      \<lparr>sp_time_boot_ms :=
                         (if sp_time_boot_ms junk = 0
                          then boot_ms (clock e (length (port_written w) + i))
                          else sp_time_boot_ms junk),
                       sp_target_system := word_of_int (system_id w),
                       sp_target_component := word_of_int (autopilot_id w)\<rparr>)) [0..<Suc 0 + m]"
    by (rule write_thread_loop_written)
       (simp_all add: w1_def write_thread_startup_fields write_thread_startup_written)
  then have written: "\<exists>m. m \<le> n \<and>
      port_written (snd (write_thread h e n junk w)) =
        port_written w @
        map (\<lambda>i. mavlink_msg_set_position_target_local_ned_encode h
                   (word_of_int (system_id w)) (word_of_int (companion_id w))
                   ((initial_setpoint h junk)
                      \<lparr>sp_time_boot_ms :=
                         (if sp_time_boot_ms junk = 0
                          then boot_ms (clock e (length (port_written w) + i))
                          else sp_time_boot_ms junk),
                       sp_target_system := word_of_int (system_id w),
                       sp_target_component := word_of_int (autopilot_id w)\<rparr>)) [0..<Suc m]"
    by (simp add: write_thread_def w1_def [symmetric] del: upt_Suc)
  have kept: "current_setpoint (snd (write_thread h e n junk w)) = initial_setpoint h junk"
    by (simp add: write_thread_def current_setpoint_write_thread_loop write_thread_startup_fields)
  have mask: "sp_type_mask (initial_setpoint h junk) =
     MAVLINK_MSG_SET_POSITION_TARGET_LOCAL_NED_VELOCITY h AND
     MAVLINK_MSG_SET_POSITION_TARGET_LOCAL_NED_YAW_RATE h"
    by (simp add: initial_setpoint_def)
  have fields: "sp_vx (initial_setpoint h junk) = 0" "sp_vy (initial_setpoint h junk) = 0"
    "sp_vz (initial_setpoint h junk) = 0" "sp_yaw_rate (initial_setpoint h junk) = 0"
    "sp_coordinate_frame (initial_setpoint h junk) = MAV_FRAME_LOCAL_NED h"
    by (simp_all add: initial_setpoint_def)
  have ors: "(sp_type_mask (initial_setpoint h junk) =
       (MAVLINK_MSG_SET_POSITION_TARGET_LOCAL_NED_VELOCITY h OR
        MAVLINK_MSG_SET_POSITION_TARGET_LOCAL_NED_YAW_RATE h)) =
    (MAVLINK_MSG_SET_POSITION_TARGET_LOCAL_NED_VELOCITY h =
       MAVLINK_MSG_SET_POSITION_TARGET_LOCAL_NED_YAW_RATE h)"
    unfolding mask by (rule word_and_eq_or_iff)
  have startup: "current_setpoint (write_thread_startup h e junk w) = initial_setpoint h junk"
    by (rule write_thread_startup_fields)
  from fields mask ors startup kept written show ?thesis by blast
qed

subsection \<open>The ids learned by \<open>start\<close>\<close>

lemma wait_until_ids:
  "system_id (snd (wait_until ready h e n w)) = system_id w"
  "autopilot_id (snd (wait_until ready h e n w)) = autopilot_id w"
  by (induction n arbitrary: w) (simp_all add: usleep_fields)

lemma write_thread_step_ids:
  "system_id (write_thread_step h e junk pc w) = system_id w"
  "autopilot_id (write_thread_step h e junk pc w) = autopilot_id w"
  by (simp_all add: write_thread_step_def write_setpoint_fields)

lemma write_thread_steps_ids:
  "system_id (write_thread_steps h e junk pc k w) = system_id w"
  "autopilot_id (write_thread_steps h e junk pc k w) = autopilot_id w"
  by (induction k arbitrary: pc w) (simp_all add: write_thread_step_ids)

lemma write_thread_steps_startup:
  "write_thread_steps h e junk 0 4 w = write_thread_startup h e junk w"
  by (simp add: eval_nat_numeral write_thread_step_def write_thread_startup_def Let_def)

lemma wait_writing_ids:
  "system_id (snd (wait_writing h e junk n pc i w)) = system_id w"
  "autopilot_id (snd (wait_writing h e junk n pc i w)) = autopilot_id w"
  by (induction n arbitrary: pc i w) (simp_all add: usleep_fields write_thread_steps_ids)

lemma usleep_funpow_ids:
  "system_id ((usleep h e ^^ k) w) = system_id w"
  "autopilot_id ((usleep h e ^^ k) w) = autopilot_id w"
  by (induction k) (simp_all add: usleep_fields)

lemma wait_until_ready:
  assumes "k \<le> n"
    and "\<forall>i<k. \<not> ready ((usleep h e ^^ i) w) \<and> \<not> time_to_exit ((usleep h e ^^ i) w)"
    and "ready ((usleep h e ^^ k) w)"
  shows "wait_until ready h e n w = (Ready, (usleep h e ^^ k) w)"
  using assms
proof (induction k arbitrary: n w)
  case 0
  then show ?case by (cases n) simp_all
next
  case (Suc k)
  then obtain m where n: "n = Suc m" and km: "k \<le> m" by (cases n) auto
  from Suc.prems(2) have now: "\<not> ready w" "\<not> time_to_exit w"
    by (metis funpow_0 zero_less_Suc)+
  have "wait_until ready h e m (usleep h e w) = (Ready, (usleep h e ^^ k) (usleep h e w))"
  proof (rule Suc.IH [OF km])
    show "\<forall>i<k. \<not> ready ((usleep h e ^^ i) (usleep h e w)) \<and>
                 \<not> time_to_exit ((usleep h e ^^ i) (usleep h e w))"
      using Suc.prems(2) by (metis Suc_less_eq funpow_Suc_right o_apply)
    show "ready ((usleep h e ^^ k) (usleep h e w))"
      using Suc.prems(3) by (simp add: funpow_swap1)
  qed
  then show ?case using now by (simp add: n funpow_swap1)
qed

lemma exit_after_cong:
  "time_to_exit w = time_to_exit w' \<Longrightarrow> slept w = slept w' \<Longrightarrow>
   time_to_exit ((usleep h e ^^ k) w) = time_to_exit ((usleep h e ^^ k) w')"
proof (induction k arbitrary: w w')
  case 0
  then show ?case by simp
next
  case (Suc k)
  have "time_to_exit ((usleep h e ^^ k) (usleep h e w)) =
        time_to_exit ((usleep h e ^^ k) (usleep h e w'))"
    by (rule Suc.IH) (simp_all add: usleep_def Suc.prems)
  then show ?case by (simp add: funpow_swap1)
qed

lemma get_ids_fields:
  "system_id (get_ids w) = (if system_id w = 0 then sysid (current_messages w) else system_id w)"
  "autopilot_id (get_ids w) =
     (if autopilot_id w = 0 then compid (current_messages w) else autopilot_id w)"
  by (simp_all add: get_ids_def Let_def)

lemma start_writing_ids:
  "system_id (snd (start_writing h e n junk w)) = system_id w"
  "autopilot_id (snd (start_writing h e n junk w)) = autopilot_id w"
proof -
  obtain pc w1 where s: "start_write_thread h e junk (printf ''START WRITE THREAD \<newline>'' [] w) =
      (pc, w1)"
    by (cases "start_write_thread h e junk (printf ''START WRITE THREAD \<newline>'' [] w)")
  obtain r w2 where r: "wait_writing h e junk n pc 0 w1 = (r, w2)"
    by (cases "wait_writing h e junk n pc 0 w1")
  have "system_id (snd (start_write_thread h e junk (printf ''START WRITE THREAD \<newline>'' [] w))) =
          system_id w"
    and "autopilot_id (snd (start_write_thread h e junk
          (printf ''START WRITE THREAD \<newline>'' [] w))) = autopilot_id w"
    by (simp_all add: start_write_thread_def write_thread_steps_ids)
  then have w1: "system_id w1 = system_id w" "autopilot_id w1 = autopilot_id w"
    unfolding s by simp_all
  have "system_id (snd (wait_writing h e junk n pc 0 w1)) = system_id w1"
    and "autopilot_id (snd (wait_writing h e junk n pc 0 w1)) = autopilot_id w1"
    by (rule wait_writing_ids)+
  then have w2: "system_id w2 = system_id w" "autopilot_id w2 = autopilot_id w"
    unfolding r by (simp_all add: w1)
  show "system_id (snd (start_writing h e n junk w)) = system_id w"
    and "autopilot_id (snd (start_writing h e n junk w)) = autopilot_id w"
    by (simp_all add: start_writing_def s r w2 Let_def split: waited.splits)
qed

lemma copy_initial_position_ids:
  "system_id (copy_initial_position w) = system_id w"
  "autopilot_id (copy_initial_position w) = autopilot_id w"
  by (simp_all add: copy_initial_position_def Let_def)

lemma start_position_ids:
  "system_id (snd (start_position h e n junk w)) = system_id w"
  "autopilot_id (snd (start_position h e n junk w)) = autopilot_id w"
proof -
  let ?ready = "\<lambda>w. ts_local_position_ned (time_stamps (current_messages w)) \<noteq> 0 \<and>
                    ts_attitude (time_stamps (current_messages w)) \<noteq> 0"
  obtain r w1 where r: "wait_until ?ready h e n w = (r, w1)"
    by (cases "wait_until ?ready h e n w")
  have "system_id (snd (wait_until ?ready h e n w)) = system_id w"
    and "autopilot_id (snd (wait_until ?ready h e n w)) = autopilot_id w"
    by (rule wait_until_ids)+
  then have w1: "system_id w1 = system_id w" "autopilot_id w1 = autopilot_id w"
    unfolding r by simp_all
  show "system_id (snd (start_position h e n junk w)) = system_id w"
    and "autopilot_id (snd (start_position h e n junk w)) = autopilot_id w"
    by (simp_all add: start_position_def r w1 start_writing_ids copy_initial_position_ids
          split: waited.splits)
qed

lemma start_read_thread_fields:
  "system_id (start_read_thread w) = system_id w"
  "autopilot_id (start_read_thread w) = autopilot_id w"
  "current_messages (start_read_thread w) = current_messages w"
  "slept (start_read_thread w) = slept w"
  "time_to_exit (start_read_thread w) = time_to_exit w"
  by (simp_all add: start_read_thread_def)

lemma start_keeps_configured:
  "system_id w \<noteq> 0 \<Longrightarrow> system_id (snd (start h e n junk w)) = system_id w"
  "autopilot_id w \<noteq> 0 \<Longrightarrow> autopilot_id (snd (start h e n junk w)) = autopilot_id w"
proof -
  define w3 where "w3 = printf ''CHECK FOR MESSAGES\<newline>'' []
    (printf ''\<newline>'' [] (start_read_thread (printf ''START READ THREAD \<newline>'' [] w)))"
  obtain r w4 where r: "wait_until (\<lambda>w. sysid (current_messages w) \<noteq> 0) h e n w3 = (r, w4)"
    by (cases "wait_until (\<lambda>w. sysid (current_messages w) \<noteq> 0) h e n w3")
  have w3: "system_id w3 = system_id w" "autopilot_id w3 = autopilot_id w"
    by (simp_all add: w3_def start_read_thread_fields)
  have "system_id (snd (wait_until (\<lambda>w. sysid (current_messages w) \<noteq> 0) h e n w3)) = system_id w3"
    and "autopilot_id (snd (wait_until (\<lambda>w. sysid (current_messages w) \<noteq> 0) h e n w3)) =
         autopilot_id w3"
    by (rule wait_until_ids)+
  then have ids: "system_id w4 = system_id w" "autopilot_id w4 = autopilot_id w"
    unfolding r by (simp_all add: w3)
  show "system_id w \<noteq> 0 \<Longrightarrow> system_id (snd (start h e n junk w)) = system_id w"
    by (simp add: start_def Let_def w3_def [symmetric] r ids start_position_ids get_ids_fields
          split: waited.splits)
  show "autopilot_id w \<noteq> 0 \<Longrightarrow> autopilot_id (snd (start h e n junk w)) = autopilot_id w"
    by (simp add: start_def Let_def w3_def [symmetric] r ids start_position_ids get_ids_fields
          split: waited.splits)
qed

lemma start_adopts:
  assumes "port_status e = 1" and "create_read_thread e = 0" and "k \<le> n"
    and "\<forall>i<k. sysid (current_messages ((usleep h e ^^ i) w)) = 0 \<and>
               \<not> time_to_exit ((usleep h e ^^ i) w)"
    and "sysid (current_messages ((usleep h e ^^ k) w)) \<noteq> 0"
  shows "system_id (snd (start h e n junk w)) =
           (if system_id w = 0 then sysid (current_messages ((usleep h e ^^ k) w))
            else system_id w)"
    and "autopilot_id (snd (start h e n junk w)) =
           (if autopilot_id w = 0 then compid (current_messages ((usleep h e ^^ k) w))
            else autopilot_id w)"
proof -
  define w3 where "w3 = printf ''CHECK FOR MESSAGES\<newline>'' []
    (printf ''\<newline>'' [] (start_read_thread (printf ''START READ THREAD \<newline>'' [] w)))"
  have c: "current_messages ((usleep h e ^^ i) w3) = current_messages ((usleep h e ^^ i) w)" for i
    using cache_after_cong [of w3 w h e i]
    by (simp add: cache_after_def w3_def start_read_thread_fields)
  have x: "time_to_exit ((usleep h e ^^ i) w3) = time_to_exit ((usleep h e ^^ i) w)" for i
    by (rule exit_after_cong) (simp_all add: w3_def start_read_thread_fields)
  have r: "wait_until (\<lambda>w. sysid (current_messages w) \<noteq> 0) h e n w3 =
             (Ready, (usleep h e ^^ k) w3)"
    by (rule wait_until_ready [OF assms(3)]) (use assms(4,5) in \<open>simp_all add: c x\<close>)
  have ids: "system_id ((usleep h e ^^ k) w3) = system_id w"
      "autopilot_id ((usleep h e ^^ k) w3) = autopilot_id w"
    by (simp_all add: usleep_funpow_ids w3_def start_read_thread_fields)
  show "system_id (snd (start h e n junk w)) =
           (if system_id w = 0 then sysid (current_messages ((usleep h e ^^ k) w))
            else system_id w)"
    using assms(1,2)
    by (simp add: start_def Let_def w3_def [symmetric] r start_position_ids get_ids_fields ids c)
  show "autopilot_id (snd (start h e n junk w)) =
           (if autopilot_id w = 0 then compid (current_messages ((usleep h e ^^ k) w))
            else autopilot_id w)"
    using assms(1,2)
    by (simp add: start_def Let_def w3_def [symmetric] r start_position_ids get_ids_fields ids c)
qed

lemma handle_message_sender:
  "sysid (snd (handle_message h message now this cm)) = uint (msg_sysid message)"
  "compid (snd (handle_message h message now this cm)) = uint (msg_compid message)"
  by (simp_all add: handle_message_def Let_def)

lemma read_thread_writes_sender:
  assumes "ms \<noteq> []"
  shows "sysid (read_thread_writes h ms cm) = uint (msg_sysid (fst (last ms)))"
    and "compid (read_thread_writes h ms cm) = uint (msg_compid (fst (last ms)))"
proof -
  obtain ms' m now where ms: "ms = ms' @ [(m, now)]"
    using assms by (metis rev_exhaust surj_pair)
  show "sysid (read_thread_writes h ms cm) = uint (msg_sysid (fst (last ms)))"
    and "compid (read_thread_writes h ms cm) = uint (msg_compid (fst (last ms)))"
    by (simp_all add: ms read_thread_writes_def handle_message_sender)
qed

lemma enable_loop_ids:
  "system_id (snd (enable_loop h e n w)) = system_id w \<and>
   autopilot_id (snd (enable_loop h e n w)) = autopilot_id w"
proof (induction n arbitrary: w)
  case 0
  show ?case by simp
next
  case (Suc n)
  define w2 where
    "w2 = snd (is_in_offboard_mode h (usleep h e (snd (toggle_offboard_control h e True w))))"
  note f = enable_round_facts [of h e w, folded w2_def]
  have t: "system_id (snd (toggle_offboard_control h e True w)) = system_id w"
    "autopilot_id (snd (toggle_offboard_control h e True w)) = autopilot_id w"
    by (simp_all add: toggle_offboard_control_def serial_write_def)
  from Suc.IH [of w2] show ?case
    by (simp add: split_beta Let_def w2_def [symmetric] f t)
qed

lemma armed_loop_ids:
  "system_id (snd (snd (snd (armed_loop h e n success w)))) = system_id w \<and>
   autopilot_id (snd (snd (snd (armed_loop h e n success w)))) = autopilot_id w"
proof (induction n arbitrary: w success)
  case 0
  show ?case by simp
next
  case (Suc n)
  define w2 where "w2 = usleep h e (snd (toggle_arm_disarm h e True w))"
  note f = armed_round_facts [of h e w, folded w2_def]
  have t: "system_id (snd (toggle_arm_disarm h e True w)) = system_id w"
    "autopilot_id (snd (toggle_arm_disarm h e True w)) = autopilot_id w"
    by (simp_all add: toggle_arm_disarm_def serial_write_def)
  from Suc.IH [of "fst (toggle_arm_disarm h e True w)" w2] show ?case
    by (simp add: split_beta Let_def w2_def [symmetric] f t)
qed

lemma enable_offboard_control_ids:
  "system_id (snd (enable_offboard_control h e w)) = system_id w"
  "autopilot_id (snd (enable_offboard_control h e w)) = autopilot_id w"
proof -
  define w0 where "w0 = printf ''Enable Offboaed Mode...\<newline>'' [] w"
  obtain r w1 where r: "enable_loop h e 50 w0 = (r, w1)"
    by (cases "enable_loop h e 50 w0")
  have "system_id (snd (enable_loop h e 50 w0)) = system_id w0 \<and>
        autopilot_id (snd (enable_loop h e 50 w0)) = autopilot_id w0"
    by (rule enable_loop_ids)
  then have w1: "system_id w1 = system_id w" "autopilot_id w1 = autopilot_id w"
    unfolding r by (simp_all add: w0_def)
  show "system_id (snd (enable_offboard_control h e w)) = system_id w"
    and "autopilot_id (snd (enable_offboard_control h e w)) = autopilot_id w"
    by (simp_all add: enable_offboard_control_def w0_def [symmetric] r w1 split: outcome.splits)
qed

lemma vehicle_armed_ids:
  "system_id (snd (vehicle_armed h e w)) = system_id w"
  "autopilot_id (snd (vehicle_armed h e w)) = autopilot_id w"
proof -
  define w0 where "w0 = printf ''Switch Vehicle to Armed...\<newline>'' [] w"
  obtain r a s w1 where r: "armed_loop h e 50 (- 1) w0 = (r, a, s, w1)"
    by (metis prod_cases4)
  have "system_id (snd (snd (snd (armed_loop h e 50 (- 1) w0)))) = system_id w0 \<and>
        autopilot_id (snd (snd (snd (armed_loop h e 50 (- 1) w0)))) = autopilot_id w0"
    by (rule armed_loop_ids)
  then have w1: "system_id w1 = system_id w" "autopilot_id w1 = autopilot_id w"
    unfolding r by (simp_all add: w0_def)
  show "system_id (snd (vehicle_armed h e w)) = system_id w"
    and "autopilot_id (snd (vehicle_armed h e w)) = autopilot_id w"
    by (simp_all add: vehicle_armed_def w0_def [symmetric] r w1 split: outcome.splits)
qed

lemma write_thread_loop_ids:
  "system_id (snd (write_thread_loop h e n w)) = system_id w \<and>
   autopilot_id (snd (write_thread_loop h e n w)) = autopilot_id w"
  by (induction n arbitrary: w) (simp_all add: write_setpoint_fields usleep_fields)

lemma single_step_ids:
  "system_id (disable_offboard_control h e w) = system_id w"
  "autopilot_id (disable_offboard_control h e w) = autopilot_id w"
  "system_id (vehicle_disarm h e w) = system_id w"
  "autopilot_id (vehicle_disarm h e w) = autopilot_id w"
  "system_id (update_setpoint sp w) = system_id w"
  "autopilot_id (update_setpoint sp w) = autopilot_id w"
  by (simp_all add: disable_offboard_control_def vehicle_disarm_def update_setpoint_def
        set_setpoint_sendstatus_def toggle_offboard_control_def toggle_arm_disarm_def
        serial_write_def split_beta Let_def)

text \<open>
  C7, as stated, fails. \<^verbatim>\<open>start\<close> does not take the ids from the first message received: it
  polls the cache twice a second and takes the sender the cache holds when the poll
  finds a \<^verbatim>\<open>sysid\<close> other than 0, and \<^verbatim>\<open>read_messages\<close> overwrites the cached sender with
  every message. In the script \<open>two_senders\<close> the first message comes from \<open>(1, 50)\<close>,
  two more from \<open>(2, 60)\<close> follow before the poll, and \<^verbatim>\<open>start\<close> learns \<open>(2, 60)\<close>.
\<close>

theorem start_learns_latest_sender_counterexample:
  "msg_sysid (fst (hd (ingest two_senders 0))) = 1 \<and>
   msg_compid (fst (hd (ingest two_senders 0))) = 50 \<and>
   system_id new_interface = 0 \<and> autopilot_id new_interface = 0 \<and>
   fst (start px4_hdr two_senders 5 zero_setpoint new_interface) = Returned \<and>
   system_id (snd (start px4_hdr two_senders 5 zero_setpoint new_interface)) = 2 \<and>
   autopilot_id (snd (start px4_hdr two_senders 5 zero_setpoint new_interface)) = 60"
  by code_simp

text \<open>
  C7, amended. An id configured before \<^verbatim>\<open>start\<close> (not 0) is left unchanged by \<^verbatim>\<open>start\<close>, up
  to any point of its run. If the port is open and the read thread is created, and the
  poll of \<^verbatim>\<open>start\<close> first finds a cached \<^verbatim>\<open>sysid\<close> other than 0 after \<open>k\<close> sleeps, with no
  exit request before, then \<^verbatim>\<open>start\<close> sets each id that is 0 to the sender cached at that
  poll. The cached sender is that of the message handled last, so it is the sender of
  the first message received when all messages before the poll come from one sender.
  No other operation of the interface assigns the two ids.
\<close>

theorem start_learns_cached_sender:
  "(system_id w \<noteq> 0 \<longrightarrow> system_id (snd (start h e n junk w)) = system_id w) \<and>
   (autopilot_id w \<noteq> 0 \<longrightarrow> autopilot_id (snd (start h e n junk w)) = autopilot_id w) \<and>
   (port_status e = 1 \<and> create_read_thread e = 0 \<and> k \<le> n \<and>
    (\<forall>i<k. sysid (current_messages ((usleep h e ^^ i) w)) = 0 \<and>
            \<not> time_to_exit ((usleep h e ^^ i) w)) \<and>
    sysid (current_messages ((usleep h e ^^ k) w)) \<noteq> 0 \<longrightarrow>
    system_id (snd (start h e n junk w)) =
      (if system_id w = 0 then sysid (current_messages ((usleep h e ^^ k) w)) else system_id w) \<and>
    autopilot_id (snd (start h e n junk w)) =
      (if autopilot_id w = 0 then compid (current_messages ((usleep h e ^^ k) w))
       else autopilot_id w)) \<and>
   (ms \<noteq> [] \<longrightarrow>
    sysid (read_thread_writes h ms cm) = uint (msg_sysid (fst (last ms))) \<and>
    compid (read_thread_writes h ms cm) = uint (msg_compid (fst (last ms)))) \<and>
   system_id (snd (enable_offboard_control h e w)) = system_id w \<and>
   autopilot_id (snd (enable_offboard_control h e w)) = autopilot_id w \<and>
   system_id (disable_offboard_control h e w) = system_id w \<and>
   autopilot_id (disable_offboard_control h e w) = autopilot_id w \<and>
   system_id (snd (vehicle_armed h e w)) = system_id w \<and>
   autopilot_id (snd (vehicle_armed h e w)) = autopilot_id w \<and>
   system_id (vehicle_disarm h e w) = system_id w \<and>
   autopilot_id (vehicle_disarm h e w) = autopilot_id w \<and>
   system_id (update_setpoint sp w) = system_id w \<and>
   autopilot_id (update_setpoint sp w) = autopilot_id w \<and>
   system_id (write_setpoint h e w) = system_id w \<and>
   autopilot_id (write_setpoint h e w) = autopilot_id w \<and>
   system_id (snd (write_thread h e n junk w)) = system_id w \<and>
   autopilot_id (snd (write_thread h e n junk w)) = autopilot_id w \<and>
   system_id (usleep h e w) = system_id w \<and>
   autopilot_id (usleep h e w) = autopilot_id w"
proof -
  have adopt: "port_status e = 1 \<and> create_read_thread e = 0 \<and> k \<le> n \<and>
    (\<forall>i<k. sysid (current_messages ((usleep h e ^^ i) w)) = 0 \<and>
            \<not> time_to_exit ((usleep h e ^^ i) w)) \<and>
    sysid (current_messages ((usleep h e ^^ k) w)) \<noteq> 0 \<longrightarrow>
    system_id (snd (start h e n junk w)) =
      (if system_id w = 0 then sysid (current_messages ((usleep h e ^^ k) w)) else system_id w) \<and>
    autopilot_id (snd (start h e n junk w)) =
      (if autopilot_id w = 0 then compid (current_messages ((usleep h e ^^ k) w))
       else autopilot_id w)"
    using start_adopts [of e k n h w junk] by blast
  have sender: "ms \<noteq> [] \<longrightarrow>
    sysid (read_thread_writes h ms cm) = uint (msg_sysid (fst (last ms))) \<and>
    compid (read_thread_writes h ms cm) = uint (msg_compid (fst (last ms)))"
    using read_thread_writes_sender [of ms h cm] by blast
  have thread: "system_id (snd (write_thread h e n junk w)) = system_id w \<and>
    autopilot_id (snd (write_thread h e n junk w)) = autopilot_id w"
    using write_thread_loop_ids [of h e n "write_thread_startup h e junk w"]
    by (simp add: write_thread_def write_thread_startup_fields)
  show ?thesis
    using adopt sender thread
    by (simp add: start_keeps_configured enable_offboard_control_ids vehicle_armed_ids
          single_step_ids write_setpoint_fields usleep_fields)
qed

theorem start_learns_cached_sender_witness:
  "system_id configured = 7 \<and> autopilot_id configured = 8 \<and>
   system_id (snd (start px4_hdr two_senders 5 zero_setpoint configured)) = 7 \<and>
   autopilot_id (snd (start px4_hdr two_senders 5 zero_setpoint configured)) = 8 \<and>
   system_id new_interface = 0 \<and> autopilot_id new_interface = 0 \<and>
   sysid (current_messages new_interface) = 0 \<and>
   sysid (current_messages ((usleep px4_hdr one_sender ^^ 1) new_interface)) = 1 \<and>
   compid (current_messages ((usleep px4_hdr one_sender ^^ 1) new_interface)) = 50 \<and>
   system_id (snd (start px4_hdr one_sender 5 zero_setpoint new_interface)) = 1 \<and>
   autopilot_id (snd (start px4_hdr one_sender 5 zero_setpoint new_interface)) = 50 \<and>
   sysid (read_thread_writes px4_hdr (ingest one_sender 0) zero_messages) = 1 \<and>
   compid (read_thread_writes px4_hdr (ingest one_sender 0) zero_messages) = 50"
proof -
  have c: "system_id configured = 7" "autopilot_id configured = 8"
    by (simp_all add: configured_def)
  have n: "system_id new_interface = 0" "autopilot_id new_interface = 0"
    "sysid (current_messages new_interface) = 0" "time_to_exit new_interface = False"
    by (simp_all add: new_interface_fields zero_messages_fields)
  have o: "port_status one_sender = 1" "create_read_thread one_sender = 0"
    by (simp_all add: one_sender_def quiet_env_def)
  have i: "ingest one_sender 0 \<noteq> []"
    "uint (msg_sysid (fst (last (ingest one_sender 0)))) = 1"
    "uint (msg_compid (fst (last (ingest one_sender 0)))) = 50"
    by (simp_all add: one_sender_def quiet_env_def empty_frame_def)
  note t = start_learns_cached_sender
  have s1: "sysid (read_thread_writes px4_hdr (ingest one_sender 0) zero_messages) = 1"
    and s2: "compid (read_thread_writes px4_hdr (ingest one_sender 0) zero_messages) = 50"
    using t [where ms = "ingest one_sender 0" and h = px4_hdr and cm = zero_messages] i
    by simp_all
  have u: "current_messages ((usleep px4_hdr one_sender ^^ 1) new_interface) =
        read_thread_writes px4_hdr (ingest one_sender 0) zero_messages"
    by (simp add: usleep_cache new_interface_fields)
  have a: "system_id (snd (start px4_hdr two_senders 5 zero_setpoint configured)) = 7"
    and b: "autopilot_id (snd (start px4_hdr two_senders 5 zero_setpoint configured)) = 8"
    using t [where w = configured and h = px4_hdr and e = two_senders and n = 5
               and junk = zero_setpoint] c
    by simp_all
  have "system_id (snd (start px4_hdr one_sender 5 zero_setpoint new_interface)) =
      (if system_id new_interface = 0
       then sysid (current_messages ((usleep px4_hdr one_sender ^^ 1) new_interface))
       else system_id new_interface) \<and>
    autopilot_id (snd (start px4_hdr one_sender 5 zero_setpoint new_interface)) =
      (if autopilot_id new_interface = 0
       then compid (current_messages ((usleep px4_hdr one_sender ^^ 1) new_interface))
       else autopilot_id new_interface)"
  proof (rule t [where w = new_interface and h = px4_hdr and e = one_sender and n = 5 and k = 1
        and junk = zero_setpoint, THEN conjunct2, THEN conjunct2, THEN conjunct1, THEN mp],
      intro conjI)
    show "\<forall>i<1. sysid (current_messages ((usleep px4_hdr one_sender ^^ i) new_interface)) = 0 \<and>
                 \<not> time_to_exit ((usleep px4_hdr one_sender ^^ i) new_interface)"
      by (simp add: n)
    show "sysid (current_messages ((usleep px4_hdr one_sender ^^ 1) new_interface)) \<noteq> 0"
      unfolding u s1 by simp
  qed (simp_all add: o)
  then show ?thesis using a b c n s1 s2 unfolding u by simp
qed

end
